theory Spec2Isabelle
  imports Main "HOL-Library.Word"
begin

unbundle bit_operations_syntax

section \<open>Platform values: strings, buffers, errors\<close>

text \<open>
  A JavaScript string is a sequence of 16-bit code units; a Node \<open>Buffer\<close> is a
  sequence of bytes. The bitwise operators of JavaScript work on 32-bit integers.
\<close>

type_synonym js_string = "16 word list"
type_synonym buffer = "8 word list"
type_synonym int32 = "32 word"

text \<open>A string literal of the source, written with the ASCII characters it has.\<close>

definition js :: "string \<Rightarrow> js_string" where
  "js s = map (\<lambda>c. of_nat (of_char c)) s"

text \<open>\<open>s.startsWith(p)\<close> and \<open>s.slice(n)\<close> for a non-negative literal \<open>n\<close>.\<close>

definition startsWith :: "js_string \<Rightarrow> js_string \<Rightarrow> bool" where
  "startsWith s p = (take (length p) s = p)"

definition slice :: "js_string \<Rightarrow> nat \<Rightarrow> js_string" where
  "slice s n = drop n s"

text \<open>
  The error taxonomy of the specification. The source has no \<open>throw\<close> statement, and
  the platform calls it makes on a string argument (\<open>startsWith\<close>, \<open>slice\<close>,
  \<open>Buffer.from\<close>, \<open>subarray\<close>, \<open>toString\<close>) return normally, so the model
  of each operation that the specification lets fail returns \<open>Inr\<close> on every path.
\<close>

datatype error = DecodeError | FormatError

text \<open>
  Reading a buffer element inside a bitwise expression: an index outside the buffer
  (also the \<open>NaN\<close> index that \<open>i % 0\<close> gives) reads \<open>undefined\<close>, which the
  operator \<open>^\<close> takes as 0.
\<close>

definition buf_at :: "buffer \<Rightarrow> nat \<Rightarrow> int32" where
  "buf_at b i = (if i < length b then ucast (b ! i) else 0)"

text \<open>The same read as a byte, for stating what the loops compute.\<close>

definition byte_at :: "buffer \<Rightarrow> nat \<Rightarrow> 8 word" where
  "byte_at b i = (if i < length b then b ! i else 0)"

section \<open>Hexadecimal rendering of buffers\<close>

text \<open>\<open>buf.toString('hex')\<close>: two lowercase digits per byte.\<close>

definition hex_digit :: "nat \<Rightarrow> 16 word" where
  "hex_digit n = (if n < 10 then of_nat (48 + n) else of_nat (87 + n))"

definition hex_of_byte :: "8 word \<Rightarrow> js_string" where
  "hex_of_byte b = [hex_digit (unat b div 16), hex_digit (unat b mod 16)]"

definition toString_hex :: "buffer \<Rightarrow> js_string" where
  "toString_hex b = concat (map hex_of_byte b)"

text \<open>
  \<open>Buffer.from(s, 'hex')\<close>: the decoder reads every character by the low 8 bits of
  its code unit, so a code unit above 0xFF counts as the character of its low byte. The
  digits 0-9, a-f and A-F are accepted; decoding stops at the first pair that has a
  character which is no digit, and a single trailing character is dropped.
\<close>

definition unhex :: "16 word \<Rightarrow> nat option" where
  "unhex c =
     (let n = unat c mod 256 in
      if 48 \<le> n \<and> n \<le> 57 then Some (n - 48)
      else if 97 \<le> n \<and> n \<le> 102 then Some (n - 87)
      else if 65 \<le> n \<and> n \<le> 70 then Some (n - 55)
      else None)"

fun Buffer_from_hex :: "js_string \<Rightarrow> buffer" where
  "Buffer_from_hex (c # d # rest) =
     (case unhex c of
        None \<Rightarrow> []
      | Some hi \<Rightarrow>
          (case unhex d of
             None \<Rightarrow> []
           | Some lo \<Rightarrow> of_nat (hi * 16 + lo) # Buffer_from_hex rest))"
| "Buffer_from_hex _ = []"

section \<open>UTF-8 conversion between strings and buffers\<close>

definition is_high_surrogate :: "16 word \<Rightarrow> bool" where
  "is_high_surrogate u = (0xD800 \<le> unat u \<and> unat u \<le> 0xDBFF)"

definition is_low_surrogate :: "16 word \<Rightarrow> bool" where
  "is_low_surrogate u = (0xDC00 \<le> unat u \<and> unat u \<le> 0xDFFF)"

definition is_surrogate :: "16 word \<Rightarrow> bool" where
  "is_surrogate u = (is_high_surrogate u \<or> is_low_surrogate u)"

text \<open>The one to four bytes of a code point.\<close>

definition utf8_of_code_point :: "nat \<Rightarrow> buffer" where
  "utf8_of_code_point c =
     (if c < 0x80 then [of_nat c]
      else if c < 0x800 then [of_nat (0xC0 + c div 64), of_nat (0x80 + c mod 64)]
      else if c < 0x10000 then
        [of_nat (0xE0 + c div 4096), of_nat (0x80 + c div 64 mod 64), of_nat (0x80 + c mod 64)]
      else
        [of_nat (0xF0 + c div 262144), of_nat (0x80 + c div 4096 mod 64),
         of_nat (0x80 + c div 64 mod 64), of_nat (0x80 + c mod 64)])"

text \<open>
  \<open>Buffer.from(s, 'utf8')\<close>: a high surrogate followed by a low one is one code
  point above 0xFFFF; any other surrogate is written as U+FFFD (the bytes EF BF BD).
\<close>

fun Buffer_from_utf8 :: "js_string \<Rightarrow> buffer" where
  "Buffer_from_utf8 [] = []"
| "Buffer_from_utf8 [u] =
     (if is_surrogate u then utf8_of_code_point 0xFFFD else utf8_of_code_point (unat u))"
| "Buffer_from_utf8 (u # v # rest) =
     (if is_high_surrogate u \<and> is_low_surrogate v
      then utf8_of_code_point (0x10000 + (unat u - 0xD800) * 1024 + (unat v - 0xDC00))
             @ Buffer_from_utf8 rest
      else if is_surrogate u then utf8_of_code_point 0xFFFD @ Buffer_from_utf8 (v # rest)
      else utf8_of_code_point (unat u) @ Buffer_from_utf8 (v # rest))"

text \<open>
  \<open>buf.toString('utf8')\<close> never fails: every maximal ill-formed run of bytes becomes
  one U+FFFD, and decoding goes on at the byte that broke the sequence. A lead byte
  fixes the range of its first continuation byte (E0, ED, F0 and F4 narrow it), so that
  overlong forms, surrogates and values above 0x10FFFF are ill-formed.
\<close>

definition in_range :: "nat \<Rightarrow> nat \<Rightarrow> 8 word \<Rightarrow> bool" where
  "in_range lo hi b = (lo \<le> unat b \<and> unat b \<le> hi)"

definition low6 :: "8 word \<Rightarrow> nat" where
  "low6 b = unat b - 0x80"

fun utf8_decode :: "buffer \<Rightarrow> nat list" where
  "utf8_decode [] = []"
| "utf8_decode (b # bs) =
     (let n = unat b in
      if n < 0x80 then n # utf8_decode bs
      else if 0xC2 \<le> n \<and> n \<le> 0xDF then
        (case bs of
           [] \<Rightarrow> [0xFFFD]
         | c1 # r1 \<Rightarrow>
             if in_range 0x80 0xBF c1
             then ((n - 0xC0) * 64 + low6 c1) # utf8_decode r1
             else 0xFFFD # utf8_decode bs)
      else if 0xE0 \<le> n \<and> n \<le> 0xEF then
        (case bs of
           [] \<Rightarrow> [0xFFFD]
         | c1 # r1 \<Rightarrow>
             if in_range (if n = 0xE0 then 0xA0 else 0x80) (if n = 0xED then 0x9F else 0xBF) c1
             then (case r1 of
                     [] \<Rightarrow> [0xFFFD]
                   | c2 # r2 \<Rightarrow>
                       if in_range 0x80 0xBF c2
                       then ((n - 0xE0) * 4096 + low6 c1 * 64 + low6 c2) # utf8_decode r2
                       else 0xFFFD # utf8_decode r1)
             else 0xFFFD # utf8_decode bs)
      else if 0xF0 \<le> n \<and> n \<le> 0xF4 then
        (case bs of
           [] \<Rightarrow> [0xFFFD]
         | c1 # r1 \<Rightarrow>
             if in_range (if n = 0xF0 then 0x90 else 0x80) (if n = 0xF4 then 0x8F else 0xBF) c1
             then (case r1 of
                     [] \<Rightarrow> [0xFFFD]
                   | c2 # r2 \<Rightarrow>
                       if in_range 0x80 0xBF c2
                       then (case r2 of
                               [] \<Rightarrow> [0xFFFD]
                             | c3 # r3 \<Rightarrow>
                                 if in_range 0x80 0xBF c3
                                 then ((n - 0xF0) * 262144 + low6 c1 * 4096 + low6 c2 * 64
                                        + low6 c3) # utf8_decode r3
                                 else 0xFFFD # utf8_decode r2)
                       else 0xFFFD # utf8_decode r1)
             else 0xFFFD # utf8_decode bs)
      else 0xFFFD # utf8_decode bs)"

text \<open>A decoded code point as one code unit, or as a surrogate pair above 0xFFFF.\<close>

definition utf16_of_code_point :: "nat \<Rightarrow> js_string" where
  "utf16_of_code_point c =
     (if c < 0x10000 then [of_nat c]
      else [of_nat (0xD800 + (c - 0x10000) div 1024), of_nat (0xDC00 + (c - 0x10000) mod 1024)])"

definition Buffer_toString_utf8 :: "buffer \<Rightarrow> js_string" where
  "Buffer_toString_utf8 b = concat (map utf16_of_code_point (utf8_decode b))"

text \<open>
  A string is well formed when it has no surrogate outside a pair (what
  \<open>String.prototype.isWellFormed\<close> tests).
\<close>

fun well_formed :: "js_string \<Rightarrow> bool" where
  "well_formed [] = True"
| "well_formed [u] = (\<not> is_surrogate u)"
| "well_formed (u # v # rest) =
     (if is_high_surrogate u \<and> is_low_surrogate v then well_formed rest
      else \<not> is_surrogate u \<and> well_formed (v # rest))"

text \<open>The code points that UTF-8 can carry: all up to 0x10FFFF but the surrogates.\<close>

definition scalar :: "nat \<Rightarrow> bool" where
  "scalar c = (c < 0xD800 \<or> (0xE000 \<le> c \<and> c < 0x110000))"

text \<open>
  A buffer holds valid UTF-8 when it is, byte for byte, what the encoder writes for the
  string that the decoder reads from it.
\<close>

definition valid_utf8 :: "buffer \<Rightarrow> bool" where
  "valid_utf8 b = (Buffer_from_utf8 (Buffer_toString_utf8 b) = b)"

section \<open>The digest of \<open>crypto.createHash('sha256')\<close>\<close>

text \<open>
  The hash function of the platform's \<open>crypto\<close> module, as the standard defines it:
  the message is padded to whole 64-byte blocks, each block is expanded to a schedule
  of 64 words, and 64 rounds update a state of eight 32-bit words.
\<close>

type_synonym sha_state =
  "32 word \<times> 32 word \<times> 32 word \<times> 32 word \<times> 32 word \<times> 32 word \<times> 32 word \<times> 32 word"

definition round_constants :: "32 word list" where
  "round_constants =
     [1116352408, 1899447441, 3049323471, 3921009573, 961987163, 1508970993,
      2453635748, 2870763221, 3624381080, 310598401, 607225278, 1426881987,
      1925078388, 2162078206, 2614888103, 3248222580, 3835390401, 4022224774,
      264347078, 604807628, 770255983, 1249150122, 1555081692, 1996064986,
      2554220882, 2821834349, 2952996808, 3210313671, 3336571891, 3584528711,
      113926993, 338241895, 666307205, 773529912, 1294757372, 1396182291,
      1695183700, 1986661051, 2177026350, 2456956037, 2730485921, 2820302411,
      3259730800, 3345764771, 3516065817, 3600352804, 4094571909, 275423344,
      430227734, 506948616, 659060556, 883997877, 958139571, 1322822218,
      1537002063, 1747873779, 1955562222, 2024104815, 2227730452, 2361852424,
      2428436474, 2756734187, 3204031479, 3329325298]"

definition initial_state :: sha_state where
  "initial_state = (1779033703, 3144134277, 1013904242, 2773480762, 1359893119, 2600822924, 528734635, 1541459225)"

definition sha_ch :: "32 word \<Rightarrow> 32 word \<Rightarrow> 32 word \<Rightarrow> 32 word" where
  "sha_ch x y z = (x AND y) XOR (NOT x AND z)"

definition sha_maj :: "32 word \<Rightarrow> 32 word \<Rightarrow> 32 word \<Rightarrow> 32 word" where
  "sha_maj x y z = (x AND y) XOR (x AND z) XOR (y AND z)"

definition big_sigma0 :: "32 word \<Rightarrow> 32 word" where
  "big_sigma0 x = word_rotr 2 x XOR word_rotr 13 x XOR word_rotr 22 x"

definition big_sigma1 :: "32 word \<Rightarrow> 32 word" where
  "big_sigma1 x = word_rotr 6 x XOR word_rotr 11 x XOR word_rotr 25 x"

definition small_sigma0 :: "32 word \<Rightarrow> 32 word" where
  "small_sigma0 x = word_rotr 7 x XOR word_rotr 18 x XOR drop_bit 3 x"

definition small_sigma1 :: "32 word \<Rightarrow> 32 word" where
  "small_sigma1 x = word_rotr 17 x XOR word_rotr 19 x XOR drop_bit 10 x"

text \<open>Padding: the byte 0x80, zero bytes up to 56 modulo 64, the bit length in 8 bytes.\<close>

definition length_bytes :: "64 word \<Rightarrow> buffer" where
  "length_bytes n = map (\<lambda>i. ucast (drop_bit (8 * (7 - i)) n)) [0 ..< 8]"

definition pad :: "buffer \<Rightarrow> buffer" where
  "pad m =
     m @ [0x80] @ replicate ((119 - length m mod 64) mod 64) 0
       @ length_bytes (of_nat (8 * length m))"

text \<open>Four bytes as a big-endian word, and back.\<close>

definition word_of_bytes :: "8 word \<Rightarrow> 8 word \<Rightarrow> 8 word \<Rightarrow> 8 word \<Rightarrow> 32 word" where
  "word_of_bytes a b c d =
     push_bit 24 (ucast a) OR push_bit 16 (ucast b) OR push_bit 8 (ucast c) OR ucast d"

definition bytes_of_word :: "32 word \<Rightarrow> buffer" where
  "bytes_of_word w = [ucast (drop_bit 24 w), ucast (drop_bit 16 w), ucast (drop_bit 8 w), ucast w]"

fun words_of_bytes :: "buffer \<Rightarrow> 32 word list" where
  "words_of_bytes (a # b # c # d # rest) = word_of_bytes a b c d # words_of_bytes rest"
| "words_of_bytes _ = []"

text \<open>
  The schedule is kept with its newest word first: at the head of \<open>ws\<close> is
  \<open>W\<^bsub>t-1\<^esub>\<close>, so \<open>W\<^bsub>t-2\<^esub>\<close>, \<open>W\<^bsub>t-7\<^esub>\<close>, \<open>W\<^bsub>t-15\<^esub>\<close>
  and \<open>W\<^bsub>t-16\<^esub>\<close> are at positions 1, 6, 14 and 15.
\<close>

fun extend_schedule :: "nat \<Rightarrow> 32 word list \<Rightarrow> 32 word list" where
  "extend_schedule 0 ws = ws"
| "extend_schedule (Suc n) ws =
     extend_schedule n
       ((small_sigma1 (ws ! 1) + ws ! 6 + small_sigma0 (ws ! 14) + ws ! 15) # ws)"

definition schedule :: "buffer \<Rightarrow> 32 word list" where
  "schedule block = rev (extend_schedule 48 (rev (words_of_bytes block)))"

fun sha_round :: "sha_state \<Rightarrow> 32 word \<times> 32 word \<Rightarrow> sha_state" where
  "sha_round (a, b, c, d, e, f, g, h) (k, w) =
     (let t1 = h + big_sigma1 e + sha_ch e f g + k + w;
          t2 = big_sigma0 a + sha_maj a b c
      in (t1 + t2, a, b, c, d + t1, e, f, g))"

fun add_state :: "sha_state \<Rightarrow> sha_state \<Rightarrow> sha_state" where
  "add_state (a, b, c, d, e, f, g, h) (a', b', c', d', e', f', g', h') =
     (a + a', b + b', c + c', d + d', e + e', f + f', g + g', h + h')"

definition compress :: "sha_state \<Rightarrow> buffer \<Rightarrow> sha_state" where
  "compress st block = add_state st (foldl sha_round st (zip round_constants (schedule block)))"

function blocks :: "buffer \<Rightarrow> buffer list" where
  "blocks m = (if m = [] then [] else take 64 m # blocks (drop 64 m))"
  by pat_completeness auto
termination
  by (relation "measure length") auto

declare blocks.simps [simp del]

fun digest_bytes :: "sha_state \<Rightarrow> buffer" where
  "digest_bytes (a, b, c, d, e, f, g, h) =
     bytes_of_word a @ bytes_of_word b @ bytes_of_word c @ bytes_of_word d
       @ bytes_of_word e @ bytes_of_word f @ bytes_of_word g @ bytes_of_word h"

definition sha256 :: "buffer \<Rightarrow> buffer" where
  "sha256 m = digest_bytes (foldl compress initial_state (blocks (pad m)))"

section \<open>The cipher of class HexCrypto\<close>

text \<open>
  An object of the class holds the derived key. The argument of \<open>hash.update\<close> is a
  string, hashed as its UTF-8 bytes, or a buffer, hashed as it is.
\<close>

record HexCrypto =
  key :: buffer

datatype secret = SecretString js_string | SecretBuffer buffer

definition secret_bytes :: "secret \<Rightarrow> buffer" where
  "secret_bytes secretKey =
     (case secretKey of SecretString s \<Rightarrow> Buffer_from_utf8 s | SecretBuffer b \<Rightarrow> b)"

definition HexCrypto_constructor :: "secret \<Rightarrow> HexCrypto" where
  "HexCrypto_constructor secretKey = \<lparr> key = sha256 (secret_bytes secretKey) \<rparr>"

text \<open>
  The body of the loop of \<open>encrypt\<close> at position \<open>i\<close>: XOR with the key byte, XOR
  with the salt byte, then the shifts of the rotation on 32-bit integers, cut to 8 bits.
  The operator \<open>>>\<close> is the arithmetic shift.
\<close>

definition encrypt_byte :: "buffer \<Rightarrow> buffer \<Rightarrow> buffer \<Rightarrow> nat \<Rightarrow> 8 word" where
  "encrypt_byte k salt plaintextBuffer i =
     (let byte = buf_at plaintextBuffer i XOR buf_at k (i mod length k);
          byte = byte XOR buf_at salt (i mod length salt);
          shift = (i mod 7) + 1;
          byte = (push_bit shift byte OR signed_drop_bit (8 - shift) byte) AND 0xff
      in ucast byte)"

function encrypt_loop :: "buffer \<Rightarrow> buffer \<Rightarrow> buffer \<Rightarrow> nat \<Rightarrow> buffer \<Rightarrow> buffer" where
  "encrypt_loop k salt plaintextBuffer i encrypted =
     (if i < length plaintextBuffer
      then encrypt_loop k salt plaintextBuffer (i + 1)
             (encrypted[i := encrypt_byte k salt plaintextBuffer i])
      else encrypted)"
  by pat_completeness auto
termination
  by (relation "measure (\<lambda>(k, salt, p, i, e). length p - i)") auto

declare encrypt_loop.simps [simp del]

text \<open>The body of the loop of \<open>decrypt\<close>: the shifts the other way, then the two XORs.\<close>

definition decrypt_byte :: "buffer \<Rightarrow> buffer \<Rightarrow> buffer \<Rightarrow> nat \<Rightarrow> 8 word" where
  "decrypt_byte k salt encrypted i =
     (let byte = buf_at encrypted i;
          shift = (i mod 7) + 1;
          byte = (signed_drop_bit shift byte OR push_bit (8 - shift) byte) AND 0xff;
          byte = byte XOR buf_at salt (i mod length salt);
          byte = byte XOR buf_at k (i mod length k)
      in ucast byte)"

function decrypt_loop :: "buffer \<Rightarrow> buffer \<Rightarrow> buffer \<Rightarrow> nat \<Rightarrow> buffer \<Rightarrow> buffer" where
  "decrypt_loop k salt encrypted i decrypted =
     (if i < length encrypted
      then decrypt_loop k salt encrypted (i + 1)
             (decrypted[i := decrypt_byte k salt encrypted i])
      else decrypted)"
  by pat_completeness auto
termination
  by (relation "measure (\<lambda>(k, salt, e, i, d). length e - i)") auto

declare decrypt_loop.simps [simp del]

text \<open>
  \<open>encrypt\<close>. The salt is what \<open>crypto.randomBytes(8)\<close> returned in this call, so
  the model takes it as an argument. The buffer \<open>encrypted\<close> (the cipher bytes) and
  the buffer \<open>result\<close> (salt, then cipher bytes) have definitions of their own.
\<close>

definition encrypt_cipher :: "HexCrypto \<Rightarrow> buffer \<Rightarrow> js_string \<Rightarrow> buffer" where
  "encrypt_cipher this salt plaintext =
     (let plaintextBuffer = Buffer_from_utf8 plaintext;
          encrypted = replicate (length plaintextBuffer) 0
      in encrypt_loop (key this) salt plaintextBuffer 0 encrypted)"

definition encrypt_result :: "HexCrypto \<Rightarrow> buffer \<Rightarrow> js_string \<Rightarrow> buffer" where
  "encrypt_result this salt plaintext = salt @ encrypt_cipher this salt plaintext"

definition encrypt :: "HexCrypto \<Rightarrow> buffer \<Rightarrow> js_string \<Rightarrow> js_string" where
  "encrypt this salt plaintext = js ''0x'' @ toString_hex (encrypt_result this salt plaintext)"

text \<open>
  The first two steps of \<open>decrypt\<close> (the decode step of the specification): the
  prefix is dropped, the digits are read, and the bytes are cut at position 8.
  \<open>subarray\<close> clamps its bounds to the buffer.
\<close>

definition decode :: "js_string \<Rightarrow> error + buffer \<times> buffer" where
  "decode hexString =
     (let hex = (if startsWith hexString (js ''0x'') then slice hexString 2 else hexString);
          data = Buffer_from_hex hex;
          salt = take 8 data;
          encrypted = drop 8 data
      in Inr (salt, encrypted))"

text \<open>
  \<open>decrypt\<close>: the buffer \<open>decrypted\<close> that the loop fills (the recovered bytes),
  then its conversion to a string.
\<close>

definition decrypt_bytes :: "HexCrypto \<Rightarrow> js_string \<Rightarrow> error + buffer" where
  "decrypt_bytes this hexString =
     (case decode hexString of
        Inl e \<Rightarrow> Inl e
      | Inr (salt, encrypted) \<Rightarrow>
          (let decrypted = replicate (length encrypted) 0
           in Inr (decrypt_loop (key this) salt encrypted 0 decrypted)))"

definition decrypt :: "HexCrypto \<Rightarrow> js_string \<Rightarrow> error + js_string" where
  "decrypt this hexString =
     (case decrypt_bytes this hexString of
        Inl e \<Rightarrow> Inl e
      | Inr decrypted \<Rightarrow> Inr (Buffer_toString_utf8 decrypted))"

text \<open>The static helpers.\<close>

definition stringToHex :: "js_string \<Rightarrow> js_string" where
  "stringToHex str = js ''0x'' @ toString_hex (Buffer_from_utf8 str)"

definition hexToString :: "js_string \<Rightarrow> error + js_string" where
  "hexToString hex =
     (let cleanHex = (if startsWith hex (js ''0x'') then slice hex 2 else hex)
      in Inr (Buffer_toString_utf8 (Buffer_from_hex cleanHex)))"

text \<open>
  The chain tag. \<open>toChainTag\<close> is the expression that \<open>encryptForChain\<close> stores in
  \<open>chainData\<close>; \<open>fromChainTag\<close> is the conditional assignment at the head of
  \<open>decryptFromChain\<close>. \<open>message.length\<close> counts code units, and the time stamp is
  what \<open>Date.now()\<close> returned.
\<close>

definition toChainTag :: "js_string \<Rightarrow> js_string" where
  "toChainTag encrypted = js ''0xENC1'' @ slice encrypted 2"

definition fromChainTag :: "js_string \<Rightarrow> js_string" where
  "fromChainTag chainData =
     (if startsWith chainData (js ''0xENC1'') then js ''0x'' @ slice chainData 6 else chainData)"

definition decryptFromChain :: "HexCrypto \<Rightarrow> js_string \<Rightarrow> error + js_string" where
  "decryptFromChain this chainData = decrypt this (fromChainTag chainData)"

record chain_message =
  data :: js_string
  chainData :: js_string
  originalLength :: nat
  timestamp :: nat

definition encryptForChain :: "HexCrypto \<Rightarrow> buffer \<Rightarrow> nat \<Rightarrow> js_string \<Rightarrow> chain_message" where
  "encryptForChain this salt now message =
     (let encrypted = encrypt this salt message
      in \<lparr> data = encrypted, chainData = toChainTag encrypted,
           originalLength = length message, timestamp = now \<rparr>)"

section \<open>Strings and hexadecimal digits\<close>

lemma js_0x: "js ''0x'' = [48, 120]"
  by (simp add: js_def)

lemma js_0xENC1: "js ''0xENC1'' = [48, 120, 69, 78, 67, 49]"
  by (simp add: js_def)

lemma startsWith_iff: "startsWith s p \<longleftrightarrow> (\<exists>r. s = p @ r)"
proof
  assume "startsWith s p"
  then have "s = p @ drop (length p) s"
    unfolding startsWith_def by (metis append_take_drop_id)
  then show "\<exists>r. s = p @ r" ..
next
  assume "\<exists>r. s = p @ r"
  then show "startsWith s p" by (auto simp: startsWith_def)
qed

lemma strip_0x:
  "(if startsWith (js ''0x'' @ h) (js ''0x'') then slice (js ''0x'' @ h) 2 else js ''0x'' @ h) = h"
  by (simp add: startsWith_def slice_def js_0x)

lemma unat_hex_digit: "n < 16 \<Longrightarrow> unat (hex_digit n) = (if n < 10 then 48 + n else 87 + n)"
  by (simp add: hex_digit_def unat_of_nat del: of_nat_add)

lemma unhex_hex_digit: "n < 16 \<Longrightarrow> unhex (hex_digit n) = Some n"
  by (simp add: unhex_def unat_hex_digit Let_def)

lemma unat_byte_less: "unat (b :: 8 word) < 256"
  using unsigned_less [of b, where 'a = nat] by simp

lemma unat_byte_div16: "unat (b :: 8 word) div 16 < 16"
  using unat_byte_less [of b] by simp

lemma Buffer_from_hex_append:
  "Buffer_from_hex (toString_hex bs @ r) = bs @ Buffer_from_hex r"
  by (induction bs) (simp_all add: toString_hex_def hex_of_byte_def unhex_hex_digit unat_byte_div16)

lemma Buffer_from_hex_toString_hex: "Buffer_from_hex (toString_hex bs) = bs"
  using Buffer_from_hex_append [of bs "[]"] by simp

lemma length_toString_hex: "length (toString_hex bs) = 2 * length bs"
  by (induction bs) (simp_all add: toString_hex_def hex_of_byte_def)

section \<open>The rotation written with shifts\<close>

lemma mask_ff: "(0xff :: 32 word) = mask 8"
  by (simp add: mask_eq_exp_minus_1)

lemma rotl_index:
  "n < 8 \<Longrightarrow> s \<le> 7 \<Longrightarrow> (n + 8 - s) mod 8 = (if s \<le> n then n - s else 8 + n - (s::nat))"
  by (auto simp: mod_if le_mod_geq)

lemma rotr_index:
  "n < 8 \<Longrightarrow> s \<le> 7 \<Longrightarrow> (n + s) mod 8 = (if n + s < 8 then n + s else n + s - (8::nat))"
  by (auto simp: mod_if le_mod_geq)

lemma rotl_shifts:
  fixes x :: "8 word"
  assumes "1 \<le> s" "s \<le> 7"
  shows "(ucast ((push_bit s (ucast x :: 32 word) OR signed_drop_bit (8 - s) (ucast x)) AND 0xff)
           :: 8 word) = word_rotl s x"
  unfolding mask_ff
proof (rule bit_word_eqI)
  fix n
  assume "n < LENGTH(8)"
  with assms show "bit (ucast ((push_bit s (ucast x :: 32 word)
        OR signed_drop_bit (8 - s) (ucast x)) AND mask 8) :: 8 word) n = bit (word_rotl s x) n"
    by (auto simp: bit_simps rotl_index dest: bit_imp_le_length)
qed

lemma rotr_shifts:
  fixes x :: "8 word"
  assumes "1 \<le> s" "s \<le> 7"
  shows "(ucast ((signed_drop_bit s (ucast x :: 32 word) OR push_bit (8 - s) (ucast x)) AND 0xff)
           :: 8 word) = word_rotr s x"
  unfolding mask_ff
proof (rule bit_word_eqI)
  fix n
  assume "n < LENGTH(8)"
  with assms show "bit (ucast ((signed_drop_bit s (ucast x :: 32 word)
        OR push_bit (8 - s) (ucast x)) AND mask 8) :: 8 word) n = bit (word_rotr s x) n"
    by (auto simp: bit_simps rotr_index add.commute dest: bit_imp_le_length)
qed

lemma buf_at_byte_at: "buf_at b i = ucast (byte_at b i)"
  by (simp add: buf_at_def byte_at_def)

lemma ucast_xor_up: "(ucast (x::8 word) :: 32 word) XOR ucast y = ucast (x XOR y)"
  by (rule bit_word_eqI) (auto simp: bit_simps)

lemma ucast_down_up: "(ucast (ucast (x::8 word) :: 32 word) :: 8 word) = x"
  by (rule bit_word_eqI) (auto simp: bit_simps)

lemma encrypt_byte_rotl:
  "encrypt_byte k salt p i =
     word_rotl (i mod 7 + 1)
       ((byte_at p i XOR byte_at k (i mod length k)) XOR byte_at salt (i mod length salt))"
proof -
  have s: "1 \<le> i mod 7 + 1" "i mod 7 + 1 \<le> 7" by simp_all
  show ?thesis
    unfolding encrypt_byte_def Let_def buf_at_byte_at ucast_xor_up
    by (rule rotl_shifts [OF s])
qed

lemma decrypt_byte_rotr:
  "decrypt_byte k salt e i =
     (word_rotr (i mod 7 + 1) (byte_at e i) XOR byte_at salt (i mod length salt))
       XOR byte_at k (i mod length k)"
proof -
  have s: "1 \<le> i mod 7 + 1" "i mod 7 + 1 \<le> 7" by simp_all
  have m: "(x AND 0xff) = ucast (ucast x :: 8 word)" for x :: "32 word"
    unfolding mask_ff by (rule bit_word_eqI) (auto simp: bit_simps)
  show ?thesis
    unfolding decrypt_byte_def Let_def buf_at_byte_at m ucast_xor_up ucast_down_up
    using rotr_shifts [OF s, of "byte_at e i"] unfolding m ucast_down_up by simp
qed

section \<open>The loops as maps over the positions\<close>

lemma encrypt_loop_length:
  "length (encrypt_loop k salt p i e) = length e"
proof (induction k salt p i e rule: encrypt_loop.induct)
  case (1 k salt p i e)
  then show ?case
    by (subst encrypt_loop.simps) simp
qed

lemma encrypt_loop_map:
  "i \<le> length p \<Longrightarrow> length e = length p \<Longrightarrow>
   encrypt_loop k salt p i e = take i e @ map (encrypt_byte k salt p) [i ..< length p]"
proof (induction k salt p i e rule: encrypt_loop.induct)
  case (1 k salt p i e)
  show ?case
  proof (cases "i < length p")
    case True
    have "encrypt_loop k salt p i e
            = encrypt_loop k salt p (i + 1) (e[i := encrypt_byte k salt p i])"
      using True by (subst encrypt_loop.simps) simp
    also have "\<dots> = take (i + 1) (e[i := encrypt_byte k salt p i])
                       @ map (encrypt_byte k salt p) [i + 1 ..< length p]"
      using True "1.prems" by (intro "1.IH") simp_all
    also have "take (i + 1) (e[i := encrypt_byte k salt p i]) = take i e @ [encrypt_byte k salt p i]"
      using True "1.prems" by (simp add: take_Suc_conv_app_nth)
    finally show ?thesis using True by (simp add: upt_conv_Cons)
  next
    case False
    with "1.prems" show ?thesis by (subst encrypt_loop.simps) simp
  qed
qed

lemma decrypt_loop_map:
  "i \<le> length c \<Longrightarrow> length d = length c \<Longrightarrow>
   decrypt_loop k salt c i d = take i d @ map (decrypt_byte k salt c) [i ..< length c]"
proof (induction k salt c i d rule: decrypt_loop.induct)
  case (1 k salt c i d)
  show ?case
  proof (cases "i < length c")
    case True
    have "decrypt_loop k salt c i d
            = decrypt_loop k salt c (i + 1) (d[i := decrypt_byte k salt c i])"
      using True by (subst decrypt_loop.simps) simp
    also have "\<dots> = take (i + 1) (d[i := decrypt_byte k salt c i])
                       @ map (decrypt_byte k salt c) [i + 1 ..< length c]"
      using True "1.prems" by (intro "1.IH") simp_all
    also have "take (i + 1) (d[i := decrypt_byte k salt c i]) = take i d @ [decrypt_byte k salt c i]"
      using True "1.prems" by (simp add: take_Suc_conv_app_nth)
    finally show ?thesis using True by (simp add: upt_conv_Cons)
  next
    case False
    with "1.prems" show ?thesis by (subst decrypt_loop.simps) simp
  qed
qed

lemma encrypt_loop_from_0:
  "encrypt_loop k salt p 0 (replicate (length p) 0) = map (encrypt_byte k salt p) [0 ..< length p]"
  by (simp add: encrypt_loop_map)

lemma decrypt_loop_from_0:
  "decrypt_loop k salt c 0 (replicate (length c) 0) = map (decrypt_byte k salt c) [0 ..< length c]"
  by (simp add: decrypt_loop_map)

lemma cipher_round_trip:
  "decrypt_loop k salt (encrypt_loop k salt p 0 (replicate (length p) 0)) 0
     (replicate (length p) 0) = p"
proof -
  let ?c = "map (encrypt_byte k salt p) [0 ..< length p]"
  have "decrypt_loop k salt ?c 0 (replicate (length p) 0)
          = map (decrypt_byte k salt ?c) [0 ..< length p]"
    using decrypt_loop_from_0 [of k salt ?c] by simp
  also have "\<dots> = map (\<lambda>i. p ! i) [0 ..< length p]"
    by (rule map_cong) (simp_all add: decrypt_byte_rotr encrypt_byte_rotl byte_at_def word_bw_assocs)
  also have "\<dots> = p" by (simp add: map_nth)
  finally show ?thesis by (simp add: encrypt_loop_from_0)
qed

section \<open>Decoding what the UTF-8 encoder wrote\<close>

lemma unat_byte: "n < 256 \<Longrightarrow> unat (of_nat n :: 8 word) = n"
  by (simp add: unat_of_nat)

lemma split_64:
  fixes c :: nat
  obtains q r where "c = q * 64 + r" "r < 64" "c div 64 = q" "c mod 64 = r"
  by (metis div_mult_mod_eq mod_less_divisor zero_less_numeral)

lemma decode_3:
  assumes "0x800 \<le> c" "c < 0x10000" "scalar c"
  shows "utf8_decode (utf8_of_code_point c @ rest) = c # utf8_decode rest"
proof -
  obtain q1 r0 where c: "c = q1 * 64 + r0" "r0 < 64" "c div 64 = q1" "c mod 64 = r0"
    by (rule split_64)
  obtain q2 r1 where q: "q1 = q2 * 64 + r1" "r1 < 64" "q1 div 64 = q2" "q1 mod 64 = r1"
    by (rule split_64)
  have d: "c div 4096 = q2"
    using div_mult2_eq [of c 64 64] c(3) q(3) by simp
  define n0 where "n0 = 0xE0 + q2"
  define n1 where "n1 = 0x80 + r1"
  define n2 where "n2 = 0x80 + r0"
  have enc: "utf8_of_code_point c = [of_nat n0, of_nat n1, of_nat n2]"
    using assms by (simp add: utf8_of_code_point_def n0_def n1_def n2_def c(3,4) q(4) d del: of_nat_add)
  have r0: "0xE0 \<le> n0" "n0 \<le> 0xEF" using assms c q unfolding n0_def by simp_all
  have r1: "0x80 \<le> n1" "n1 \<le> 0xBF" using q unfolding n1_def by simp_all
  have r2: "0x80 \<le> n2" "n2 \<le> 0xBF" using c unfolding n2_def by simp_all
  have lo: "n0 = 0xE0 \<Longrightarrow> 0xA0 \<le> n1"
    using assms c(1,2) q(1,2) unfolding n0_def n1_def by simp
  have hi: "n0 = 0xED \<Longrightarrow> n1 \<le> 0x9F"
    using assms c(1,2) q(1,2) unfolding n0_def n1_def scalar_def by simp
  have u: "unat (of_nat n0 :: 8 word) = n0" "unat (of_nat n1 :: 8 word) = n1"
      "unat (of_nat n2 :: 8 word) = n2"
    using r0 r1 r2 by (simp_all add: unat_byte)
  have v: "(n0 - 0xE0) * 4096 + (n1 - 0x80) * 64 + (n2 - 0x80) = c"
    unfolding n0_def n1_def n2_def using c(1) q(1) by simp
  show ?thesis
    unfolding enc using r0 r1 r2 lo hi v by (simp add: u in_range_def low6_def Let_def)
qed

lemma decode_4:
  assumes "0x10000 \<le> c" "c < 0x110000"
  shows "utf8_decode (utf8_of_code_point c @ rest) = c # utf8_decode rest"
proof -
  obtain q1 r0 where c: "c = q1 * 64 + r0" "r0 < 64" "c div 64 = q1" "c mod 64 = r0"
    by (rule split_64)
  obtain q2 r1 where q: "q1 = q2 * 64 + r1" "r1 < 64" "q1 div 64 = q2" "q1 mod 64 = r1"
    by (rule split_64)
  obtain q3 r2 where p: "q2 = q3 * 64 + r2" "r2 < 64" "q2 div 64 = q3" "q2 mod 64 = r2"
    by (rule split_64)
  have d: "c div 4096 = q2"
    using div_mult2_eq [of c 64 64] c(3) q(3) by simp
  have e: "c div 262144 = q3"
    using div_mult2_eq [of c 4096 64] d p(3) by simp
  define n0 where "n0 = 0xF0 + q3"
  define n1 where "n1 = 0x80 + r2"
  define n2 where "n2 = 0x80 + r1"
  define n3 where "n3 = 0x80 + r0"
  have enc: "utf8_of_code_point c = [of_nat n0, of_nat n1, of_nat n2, of_nat n3]"
    using assms
    by (simp add: utf8_of_code_point_def n0_def n1_def n2_def n3_def c(3,4) q(4) p(4) d e
        del: of_nat_add)
  have r0: "0xF0 \<le> n0" "n0 \<le> 0xF4" using assms c q p unfolding n0_def by simp_all
  have r1: "0x80 \<le> n1" "n1 \<le> 0xBF" using p unfolding n1_def by simp_all
  have r2: "0x80 \<le> n2" "n2 \<le> 0xBF" using q unfolding n2_def by simp_all
  have r3: "0x80 \<le> n3" "n3 \<le> 0xBF" using c unfolding n3_def by simp_all
  have lo: "n0 = 0xF0 \<Longrightarrow> 0x90 \<le> n1"
    using assms c(1,2) q(1,2) p(1,2) unfolding n0_def n1_def by simp
  have hi: "n0 = 0xF4 \<Longrightarrow> n1 \<le> 0x8F"
    using assms c(1,2) q(1,2) p(1,2) unfolding n0_def n1_def by simp
  have u: "unat (of_nat n0 :: 8 word) = n0" "unat (of_nat n1 :: 8 word) = n1"
      "unat (of_nat n2 :: 8 word) = n2" "unat (of_nat n3 :: 8 word) = n3"
    using r0 r1 r2 r3 by (simp_all add: unat_byte)
  have v: "(n0 - 0xF0) * 262144 + (n1 - 0x80) * 4096 + (n2 - 0x80) * 64 + (n3 - 0x80) = c"
    unfolding n0_def n1_def n2_def n3_def using c(1) q(1) p(1) by simp
  show ?thesis
    unfolding enc using r0 r1 r2 r3 lo hi v by (simp add: u in_range_def low6_def Let_def)
qed

lemma decode_1:
  assumes "c < 0x80"
  shows "utf8_decode (utf8_of_code_point c @ rest) = c # utf8_decode rest"
  using assms by (simp add: utf8_of_code_point_def unat_byte Let_def)

lemma decode_2:
  assumes "0x80 \<le> c" "c < 0x800"
  shows "utf8_decode (utf8_of_code_point c @ rest) = c # utf8_decode rest"
proof -
  define n0 where "n0 = 0xC0 + c div 64"
  define n1 where "n1 = 0x80 + c mod 64"
  have enc: "utf8_of_code_point c = [of_nat n0, of_nat n1]"
    using assms by (simp add: utf8_of_code_point_def n0_def n1_def del: of_nat_add)
  have r0: "0xC2 \<le> n0" "n0 \<le> 0xDF" using assms unfolding n0_def by simp_all
  have r1: "0x80 \<le> n1" "n1 \<le> 0xBF" unfolding n1_def by simp_all
  have u: "unat (of_nat n0 :: 8 word) = n0" "unat (of_nat n1 :: 8 word) = n1"
    using r0 r1 by (simp_all add: unat_byte)
  have v: "(n0 - 0xC0) * 64 + (n1 - 0x80) = c"
    unfolding n0_def n1_def by simp
  show ?thesis
    unfolding enc using r0 r1 v by (simp add: u in_range_def low6_def Let_def)
qed

lemma utf8_decode_code_point:
  "scalar c \<Longrightarrow> utf8_decode (utf8_of_code_point c @ rest) = c # utf8_decode rest"
  using decode_1 [of c rest] decode_2 [of c rest] decode_3 [of c rest] decode_4 [of c rest]
  unfolding scalar_def by linarith

lemma Buffer_toString_utf8_code_point:
  "scalar c \<Longrightarrow>
   Buffer_toString_utf8 (utf8_of_code_point c @ rest)
     = utf16_of_code_point c @ Buffer_toString_utf8 rest"
  by (simp add: Buffer_toString_utf8_def utf8_decode_code_point)

lemma unat_unit_less: "unat (u :: 16 word) < 65536"
  using unsigned_less [of u, where 'a = nat] by simp

lemma utf16_single:
  "\<not> is_surrogate u \<Longrightarrow> scalar (unat u) \<and> utf16_of_code_point (unat u) = [u]"
  using unat_unit_less [of u]
  by (auto simp: is_surrogate_def is_high_surrogate_def is_low_surrogate_def scalar_def
      utf16_of_code_point_def)

lemma utf16_pair:
  assumes "is_high_surrogate u" "is_low_surrogate v"
  defines "c \<equiv> 0x10000 + (unat u - 0xD800) * 1024 + (unat v - 0xDC00)"
  shows "scalar c \<and> utf16_of_code_point c = [u, v]"
proof -
  define a where "a = unat u - 0xD800"
  define b where "b = unat v - 0xDC00"
  have a: "a < 1024" "unat u = 0xD800 + a"
    using assms(1) unfolding a_def is_high_surrogate_def by arith+
  have b: "b < 1024" "unat v = 0xDC00 + b"
    using assms(2) unfolding b_def is_low_surrogate_def by arith+
  have c: "c = 0x10000 + a * 1024 + b"
    unfolding c_def a_def b_def by simp
  have "scalar c" using a(1) b(1) unfolding c scalar_def by simp
  moreover have "(c - 0x10000) div 1024 = a" "(c - 0x10000) mod 1024 = b"
    using a(1) b(1) unfolding c by simp_all
  moreover have "(of_nat (0xD800 + a) :: 16 word) = u" "(of_nat (0xDC00 + b) :: 16 word) = v"
    using of_nat_unat [of u, where 'a = "16 word"] of_nat_unat [of v, where 'a = "16 word"]
    unfolding a(2) b(2) by simp_all
  moreover have "\<not> c < 0x10000" unfolding c by simp
  ultimately show ?thesis
    by (simp add: utf16_of_code_point_def del: of_nat_add)
qed

lemma utf8_round_trip:
  "well_formed s \<Longrightarrow> Buffer_toString_utf8 (Buffer_from_utf8 s) = s"
proof (induction s rule: well_formed.induct)
  case 1
  show ?case by (simp add: Buffer_toString_utf8_def)
next
  case (2 u)
  then have "\<not> is_surrogate u" by simp
  with utf16_single [of u] Buffer_toString_utf8_code_point [of "unat u" "[]"]
  show ?case by (simp add: Buffer_toString_utf8_def)
next
  case (3 u v rest)
  show ?case
  proof (cases "is_high_surrogate u \<and> is_low_surrogate v")
    case True
    with "3.prems" have "well_formed rest" by simp
    with True "3.IH"(1) have "Buffer_toString_utf8 (Buffer_from_utf8 rest) = rest" by simp
    with True utf16_pair [of u v]
      Buffer_toString_utf8_code_point
        [of "0x10000 + (unat u - 0xD800) * 1024 + (unat v - 0xDC00)" "Buffer_from_utf8 rest"]
    show ?thesis by simp
  next
    case False
    with "3.prems" have w: "\<not> is_surrogate u" "well_formed (v # rest)" by simp_all
    with False "3.IH"(2) have ih: "Buffer_toString_utf8 (Buffer_from_utf8 (v # rest)) = v # rest"
      by simp
    have "Buffer_from_utf8 (u # v # rest)
            = utf8_of_code_point (unat u) @ Buffer_from_utf8 (v # rest)"
      using False w(1) by auto
    with ih utf16_single [OF w(1)]
      Buffer_toString_utf8_code_point [of "unat u" "Buffer_from_utf8 (v # rest)"]
    show ?thesis by simp
  qed
qed

section \<open>Encoding what the UTF-8 decoder read\<close>

text \<open>
  A sequence that the decoder accepts is the encoding of the code point it yields. So
  the decoder either consumes the bytes of one code point or yields U+FFFD, and bytes
  that decode without U+FFFD are exactly the encoding of the decoded string.
\<close>

lemma byte_of_unat: "(of_nat (unat b) :: 8 word) = b"
  by simp

lemma enc_1:
  assumes "unat b < 0x80"
  shows "utf8_of_code_point (unat b) = [b]" "scalar (unat b)"
  using assms by (simp_all add: utf8_of_code_point_def scalar_def)

lemma enc_2:
  assumes "0xC2 \<le> unat b" "unat b \<le> 0xDF" "in_range 0x80 0xBF c1"
  defines "c \<equiv> (unat b - 0xC0) * 64 + low6 c1"
  shows "utf8_of_code_point c = [b, c1]" "scalar c"
proof -
  define a where "a = unat b - 0xC0"
  define r where "r = unat c1 - 0x80"
  have a: "2 \<le> a" "a < 32" "unat b = 0xC0 + a" using assms(1,2) unfolding a_def by arith+
  have r: "r < 64" "unat c1 = 0x80 + r" using assms(3) unfolding r_def in_range_def by arith+
  have c: "c = a * 64 + r" unfolding c_def a_def r_def low6_def by simp
  have d: "c div 64 = a" "c mod 64 = r" using r(1) unfolding c by simp_all
  have rng: "0x80 \<le> c" "c < 0x800" using a r(1) unfolding c by simp_all
  have "utf8_of_code_point c = [of_nat (0xC0 + a), of_nat (0x80 + r)]"
    using rng by (simp add: utf8_of_code_point_def d del: of_nat_add)
  also have "\<dots> = [b, c1]"
    using byte_of_unat [of b] byte_of_unat [of c1] unfolding a(3) r(2) by simp
  finally show "utf8_of_code_point c = [b, c1]" .
  show "scalar c" using rng by (simp add: scalar_def)
qed

lemma enc_3:
  assumes "0xE0 \<le> unat b" "unat b \<le> 0xEF"
    "in_range (if unat b = 0xE0 then 0xA0 else 0x80) (if unat b = 0xED then 0x9F else 0xBF) c1"
    "in_range 0x80 0xBF c2"
  defines "c \<equiv> (unat b - 0xE0) * 4096 + low6 c1 * 64 + low6 c2"
  shows "utf8_of_code_point c = [b, c1, c2]" "scalar c"
proof -
  define a where "a = unat b - 0xE0"
  define r1 where "r1 = unat c1 - 0x80"
  define r2 where "r2 = unat c2 - 0x80"
  have a: "a < 16" "unat b = 0xE0 + a" using assms(1,2) unfolding a_def by arith+
  have r1: "r1 < 64" "unat c1 = 0x80 + r1" "a = 0 \<Longrightarrow> 32 \<le> r1" "a = 13 \<Longrightarrow> r1 < 32"
    using assms(3) a(2) unfolding r1_def in_range_def by (auto split: if_splits)
  have r2: "r2 < 64" "unat c2 = 0x80 + r2" using assms(4) unfolding r2_def in_range_def by arith+
  define q where "q = a * 64 + r1"
  have cq: "c = q * 64 + r2" unfolding c_def q_def a_def r1_def r2_def low6_def by simp
  have d0: "c div 64 = q" "c mod 64 = r2" using r2(1) unfolding cq by simp_all
  have d1: "c div 64 mod 64 = r1" "c div 64 div 64 = a" using r1(1) unfolding d0 q_def by simp_all
  have d2: "c div 4096 = a" using div_mult2_eq [of c 64 64] d1(2) by simp
  have c: "c = a * 4096 + r1 * 64 + r2" unfolding cq q_def by simp
  have lo: "0x800 \<le> c"
  proof (cases "a = 0")
    case True
    with r1(3) show ?thesis unfolding c by simp
  next
    case False
    then have "1 \<le> a" by simp
    then show ?thesis unfolding c by simp
  qed
  have hi: "c < 0x10000" using a(1) r1(1) r2(1) unfolding c by simp
  have ns: "scalar c"
  proof (cases "a < 13")
    case True
    then have "c < 0xD800" using r1(1) r2(1) unfolding c by simp
    then show ?thesis by (simp add: scalar_def)
  next
    case False
    show ?thesis
    proof (cases "a = 13")
      case True
      with r1(4) have "c < 0xD800" using r2(1) unfolding c by simp
      then show ?thesis by (simp add: scalar_def)
    next
      case False
      with \<open>\<not> a < 13\<close> have "14 \<le> a" by simp
      then have "0xE000 \<le> c" unfolding c by simp
      with hi show ?thesis by (simp add: scalar_def)
    qed
  qed
  have "utf8_of_code_point c = [of_nat (0xE0 + a), of_nat (0x80 + r1), of_nat (0x80 + r2)]"
    using lo hi by (simp add: utf8_of_code_point_def d0(2) d1(1) d2 del: of_nat_add)
  also have "\<dots> = [b, c1, c2]"
    using byte_of_unat [of b] byte_of_unat [of c1] byte_of_unat [of c2]
    unfolding a(2) r1(2) r2(2) by simp
  finally show "utf8_of_code_point c = [b, c1, c2]" .
  show "scalar c" by (rule ns)
qed

lemma enc_4:
  assumes "0xF0 \<le> unat b" "unat b \<le> 0xF4"
    "in_range (if unat b = 0xF0 then 0x90 else 0x80) (if unat b = 0xF4 then 0x8F else 0xBF) c1"
    "in_range 0x80 0xBF c2" "in_range 0x80 0xBF c3"
  defines "c \<equiv> (unat b - 0xF0) * 262144 + low6 c1 * 4096 + low6 c2 * 64 + low6 c3"
  shows "utf8_of_code_point c = [b, c1, c2, c3]" "scalar c"
proof -
  define a where "a = unat b - 0xF0"
  define r1 where "r1 = unat c1 - 0x80"
  define r2 where "r2 = unat c2 - 0x80"
  define r3 where "r3 = unat c3 - 0x80"
  have a: "a < 5" "unat b = 0xF0 + a" using assms(1,2) unfolding a_def by arith+
  have r1: "r1 < 64" "unat c1 = 0x80 + r1" "a = 0 \<Longrightarrow> 16 \<le> r1" "a = 4 \<Longrightarrow> r1 < 16"
    using assms(3) a(2) unfolding r1_def in_range_def by (auto split: if_splits)
  have r2: "r2 < 64" "unat c2 = 0x80 + r2" using assms(4) unfolding r2_def in_range_def by arith+
  have r3: "r3 < 64" "unat c3 = 0x80 + r3" using assms(5) unfolding r3_def in_range_def by arith+
  define q where "q = a * 64 + r1"
  define p where "p = q * 64 + r2"
  have cp: "c = p * 64 + r3"
    unfolding c_def p_def q_def a_def r1_def r2_def r3_def low6_def by simp
  have d0: "c div 64 = p" "c mod 64 = r3" using r3(1) unfolding cp by simp_all
  have d1: "p div 64 = q" "p mod 64 = r2" using r2(1) unfolding p_def by simp_all
  have d2: "q div 64 = a" "q mod 64 = r1" using r1(1) unfolding q_def by simp_all
  have e1: "c div 4096 = q" using div_mult2_eq [of c 64 64] d0(1) d1(1) by simp
  have e2: "c div 262144 = a" using div_mult2_eq [of c 4096 64] e1 d2(1) by simp
  have c: "c = a * 262144 + r1 * 4096 + r2 * 64 + r3" unfolding cp p_def q_def by simp
  have lo: "0x10000 \<le> c"
  proof (cases "a = 0")
    case True
    with r1(3) show ?thesis unfolding c by simp
  next
    case False
    then have "1 \<le> a" by simp
    then show ?thesis unfolding c by simp
  qed
  have hi: "c < 0x110000"
  proof (cases "a = 4")
    case True
    with r1(4) r2(1) r3(1) show ?thesis unfolding c by simp
  next
    case False
    with a(1) have "a \<le> 3" by simp
    with r1(1) r2(1) r3(1) show ?thesis unfolding c by simp
  qed
  have "utf8_of_code_point c =
          [of_nat (0xF0 + a), of_nat (0x80 + r1), of_nat (0x80 + r2), of_nat (0x80 + r3)]"
    using lo by (simp add: utf8_of_code_point_def d0 d1 d2 e1 e2 del: of_nat_add)
  also have "\<dots> = [b, c1, c2, c3]"
    using byte_of_unat [of b] byte_of_unat [of c1] byte_of_unat [of c2] byte_of_unat [of c3]
    unfolding a(2) r1(2) r2(2) r3(2) by simp
  finally show "utf8_of_code_point c = [b, c1, c2, c3]" .
  show "scalar c" using lo hi by (simp add: scalar_def)
qed

lemma utf8_decode_step:
  "0xFFFD \<in> set (utf8_decode (x # bs)) \<or>
   (\<exists>c r. scalar c \<and> x # bs = utf8_of_code_point c @ r \<and>
          utf8_decode (x # bs) = c # utf8_decode r)"
proof -
  let ?n = "unat x"
  consider (one) "?n < 0x80"
    | (two) "0xC2 \<le> ?n" "?n \<le> 0xDF"
    | (three) "0xE0 \<le> ?n" "?n \<le> 0xEF"
    | (four) "0xF0 \<le> ?n" "?n \<le> 0xF4"
    | (none) "0x80 \<le> ?n" "?n < 0xC2 \<or> 0xF4 < ?n"
    by linarith
  then show ?thesis
  proof cases
    case one
    then have "utf8_decode (x # bs) = ?n # utf8_decode bs" by (simp add: Let_def)
    with enc_1 [OF one] show ?thesis by auto
  next
    case two
    then have h: "\<not> ?n < 0x80" by simp
    show ?thesis
    proof (cases bs)
      case Nil
      with two h show ?thesis by (simp add: Let_def)
    next
      case (Cons c1 r1)
      show ?thesis
      proof (cases "in_range 0x80 0xBF c1")
        case True
        with two h Cons
        have "utf8_decode (x # bs) = ((?n - 0xC0) * 64 + low6 c1) # utf8_decode r1"
          by (simp add: Let_def)
        with enc_2 [OF two True] Cons show ?thesis by auto
      next
        case False
        with two h Cons show ?thesis by (simp add: Let_def)
      qed
    qed
  next
    case three
    then have h: "\<not> ?n < 0x80" "\<not> (0xC2 \<le> ?n \<and> ?n \<le> 0xDF)" by simp_all
    let ?lo = "if ?n = 0xE0 then 0xA0 else 0x80"
    let ?hi = "if ?n = 0xED then 0x9F else 0xBF"
    show ?thesis
    proof (cases bs)
      case Nil
      with three h show ?thesis by (simp add: Let_def)
    next
      case c1: (Cons c1 r1)
      show ?thesis
      proof (cases "in_range ?lo ?hi c1")
        case False
        with three h c1 show ?thesis by (simp add: Let_def)
      next
        case r1: True
        show ?thesis
        proof (cases r1)
          case Nil
          with three h c1 r1 show ?thesis by (simp add: Let_def)
        next
          case c2: (Cons c2 r2)
          show ?thesis
          proof (cases "in_range 0x80 0xBF c2")
            case False
            with three h c1 r1 c2 show ?thesis by (simp add: Let_def)
          next
            case True
            with three h c1 r1 c2
            have "utf8_decode (x # bs)
                    = ((?n - 0xE0) * 4096 + low6 c1 * 64 + low6 c2) # utf8_decode r2"
              by (simp add: Let_def)
            with enc_3 [OF three r1 True] c1 c2 show ?thesis by auto
          qed
        qed
      qed
    qed
  next
    case four
    then have h: "\<not> ?n < 0x80" "\<not> (0xC2 \<le> ?n \<and> ?n \<le> 0xDF)" "\<not> (0xE0 \<le> ?n \<and> ?n \<le> 0xEF)"
      by simp_all
    let ?lo = "if ?n = 0xF0 then 0x90 else 0x80"
    let ?hi = "if ?n = 0xF4 then 0x8F else 0xBF"
    show ?thesis
    proof (cases bs)
      case Nil
      with four h show ?thesis by (simp add: Let_def)
    next
      case c1: (Cons c1 r1)
      show ?thesis
      proof (cases "in_range ?lo ?hi c1")
        case False
        with four h c1 show ?thesis by (simp add: Let_def)
      next
        case r1: True
        show ?thesis
        proof (cases r1)
          case Nil
          with four h c1 r1 show ?thesis by (simp add: Let_def)
        next
          case c2: (Cons c2 r2)
          show ?thesis
          proof (cases "in_range 0x80 0xBF c2")
            case False
            with four h c1 r1 c2 show ?thesis by (simp add: Let_def)
          next
            case r2: True
            show ?thesis
            proof (cases r2)
              case Nil
              with four h c1 r1 c2 r2 show ?thesis by (simp add: Let_def)
            next
              case c3: (Cons c3 r3)
              show ?thesis
              proof (cases "in_range 0x80 0xBF c3")
                case False
                with four h c1 r1 c2 r2 c3 show ?thesis by (simp add: Let_def)
              next
                case True
                with four h c1 r1 c2 r2 c3
                have "utf8_decode (x # bs)
                        = ((?n - 0xF0) * 262144 + low6 c1 * 4096 + low6 c2 * 64 + low6 c3)
                            # utf8_decode r3"
                  by (simp add: Let_def)
                with enc_4 [OF four r1 r2 True] c1 c2 c3 show ?thesis by auto
              qed
            qed
          qed
        qed
      qed
    qed
  next
    case none
    from none(2) show ?thesis
    proof
      assume "?n < 0xC2"
      with none(1) show ?thesis by (simp add: Let_def)
    next
      assume "0xF4 < ?n"
      with none(1) show ?thesis by (simp add: Let_def)
    qed
  qed
qed

lemma length_utf8_of_code_point: "0 < length (utf8_of_code_point c)"
  by (simp add: utf8_of_code_point_def)

lemma utf8_decode_no_replacement:
  "0xFFFD \<notin> set (utf8_decode b) \<Longrightarrow>
   list_all scalar (utf8_decode b) \<and> concat (map utf8_of_code_point (utf8_decode b)) = b"
proof (induction "length b" arbitrary: b rule: less_induct)
  case less
  show ?case
  proof (cases b)
    case Nil
    then show ?thesis by simp
  next
    case (Cons x bs)
    from less.prems have nf: "0xFFFD \<notin> set (utf8_decode (x # bs))"
      unfolding Cons .
    with utf8_decode_step [of x bs]
    obtain c r where "scalar c" "x # bs = utf8_of_code_point c @ r"
      "utf8_decode (x # bs) = c # utf8_decode r"
      by blast
    then have c: "scalar c" "b = utf8_of_code_point c @ r" "utf8_decode b = c # utf8_decode r"
      unfolding Cons by blast+
    have "length r < length b"
      using c(2) length_utf8_of_code_point [of c] by simp
    moreover have "0xFFFD \<notin> set (utf8_decode r)"
      using less.prems unfolding c(3) by simp
    ultimately have "list_all scalar (utf8_decode r) \<and>
        concat (map utf8_of_code_point (utf8_decode r)) = r"
      by (rule less.hyps)
    with c show ?thesis by simp
  qed
qed

lemma Buffer_from_utf8_code_point:
  assumes "scalar c"
  shows "Buffer_from_utf8 (utf16_of_code_point c @ s) = utf8_of_code_point c @ Buffer_from_utf8 s"
proof (cases "c < 0x10000")
  case True
  define u :: "16 word" where "u = of_nat c"
  have u: "unat u = c" using True by (simp add: u_def unat_of_nat)
  have ns: "\<not> is_surrogate u" "\<not> is_high_surrogate u"
    using assms True
    by (auto simp: is_surrogate_def is_high_surrogate_def is_low_surrogate_def u scalar_def)
  have "Buffer_from_utf8 (u # s) = utf8_of_code_point c @ Buffer_from_utf8 s"
    using ns u by (cases s) simp_all
  with True show ?thesis by (simp add: utf16_of_code_point_def u_def)
next
  case False
  define a where "a = (c - 0x10000) div 1024"
  define b where "b = (c - 0x10000) mod 1024"
  define u :: "16 word" where "u = of_nat (0xD800 + a)"
  define v :: "16 word" where "v = of_nat (0xDC00 + b)"
  have ab: "a < 1024" "b < 1024" "c = 0x10000 + a * 1024 + b"
    using assms False unfolding a_def b_def scalar_def by simp_all
  have u: "unat u = 0xD800 + a" using ab(1) by (simp add: u_def unat_of_nat del: of_nat_add)
  have v: "unat v = 0xDC00 + b" using ab(2) by (simp add: v_def unat_of_nat del: of_nat_add)
  have hl: "is_high_surrogate u" "is_low_surrogate v"
    using ab(1,2) by (simp_all add: is_high_surrogate_def is_low_surrogate_def u v)
  have "Buffer_from_utf8 (u # v # s) = utf8_of_code_point c @ Buffer_from_utf8 s"
    using hl by (simp add: u v ab(3))
  with False show ?thesis
    by (simp add: utf16_of_code_point_def u_def v_def a_def b_def del: of_nat_add)
qed

lemma Buffer_from_utf8_code_points:
  "list_all scalar cs \<Longrightarrow>
   Buffer_from_utf8 (concat (map utf16_of_code_point cs)) = concat (map utf8_of_code_point cs)"
  by (induction cs) (simp_all add: Buffer_from_utf8_code_point)

lemma replacement_in_string:
  "0xFFFD \<in> set (utf8_decode b) \<Longrightarrow> 0xFFFD \<in> set (Buffer_toString_utf8 b)"
  by (auto simp: Buffer_toString_utf8_def utf16_of_code_point_def intro!: bexI [of _ "0xFFFD"])

lemma invalid_utf8_replaced:
  "\<not> valid_utf8 b \<Longrightarrow> 0xFFFD \<in> set (Buffer_toString_utf8 b)"
proof (rule ccontr)
  assume n: "\<not> valid_utf8 b"
  assume "0xFFFD \<notin> set (Buffer_toString_utf8 b)"
  with replacement_in_string [of b] have "0xFFFD \<notin> set (utf8_decode b)" by blast
  from utf8_decode_no_replacement [OF this]
  have "Buffer_from_utf8 (Buffer_toString_utf8 b) = b"
    by (simp add: Buffer_toString_utf8_def Buffer_from_utf8_code_points)
  with n show False by (simp add: valid_utf8_def)
qed

lemma valid_utf8_encoded: "well_formed s \<Longrightarrow> valid_utf8 (Buffer_from_utf8 s)"
  by (simp add: valid_utf8_def utf8_round_trip)

section \<open>Evaluating the digest\<close>

text \<open>
  The digest of a message computed step by step: padding, schedule, the 64 rounds in
  groups of eight. The first two messages are the secret \<open>test\<close> of the
  conformance vector and the empty secret.
\<close>

lemma rotr32_index:
  "n < 32 \<Longrightarrow> s < 32 \<Longrightarrow> (n + s) mod 32 = (if n + s < 32 then n + s else n + s - (32::nat))"
  by (auto simp: mod_if le_mod_geq)

lemma rotr32: "n < 32 \<Longrightarrow> word_rotr n (x::32 word) = drop_bit n x OR push_bit (32 - n) x"
  by (rule bit_word_eqI)
    (auto simp: bit_simps rotr32_index add.commute dest: bit_imp_le_length)

lemma utf8_test: "Buffer_from_utf8 (js ''test'') = [116, 101, 115, 116]"
  by (simp add: js_def utf8_of_code_point_def is_surrogate_def is_high_surrogate_def
      is_low_surrogate_def)

lemma replicate_unfold: "replicate (numeral k) x = x # replicate (pred_numeral k) x"
  by (simp add: numeral_eq_Suc)

lemma extend_schedule_numeral:
  "extend_schedule (numeral k) ws =
     extend_schedule (pred_numeral k)
       ((small_sigma1 (ws ! 1) + ws ! 6 + small_sigma0 (ws ! 14) + ws ! 15) # ws)"
  by (simp add: numeral_eq_Suc)

lemma blocks_one: "length m = 64 \<Longrightarrow> blocks m = [m]"
  by (subst blocks.simps, subst blocks.simps) auto

lemma pad_test:
  "pad [116, 101, 115, 116] =
     [116, 101, 115, 116, 128, 0, 0, 0, 0, 0, 0, 0, 0, 0, 0, 0, 0, 0, 0, 0, 0, 0, 0, 0, 0, 0, 0, 0,
     0, 0, 0, 0, 0, 0, 0, 0, 0, 0, 0, 0, 0, 0, 0, 0, 0, 0, 0, 0, 0, 0, 0, 0, 0, 0, 0, 0, 0, 0, 0, 0,
     0, 0, 0, 32]"
  by (simp add: pad_def length_bytes_def upt_rec replicate_unfold)

lemma words_test:
  "words_of_bytes
     [116, 101, 115, 116, 128, 0, 0, 0, 0, 0, 0, 0, 0, 0, 0, 0, 0, 0, 0, 0, 0, 0, 0, 0, 0, 0, 0, 0,
     0, 0, 0, 0, 0, 0, 0, 0, 0, 0, 0, 0, 0, 0, 0, 0, 0, 0, 0, 0, 0, 0, 0, 0, 0, 0, 0, 0, 0, 0, 0, 0,
     0, 0, 0, 32] =
     [1952805748, 2147483648, 0, 0, 0, 0, 0, 0, 0, 0, 0, 0, 0, 0, 0, 32]"
  by (simp add: word_of_bytes_def)

lemma schedule_test:
  "schedule
     [116, 101, 115, 116, 128, 0, 0, 0, 0, 0, 0, 0, 0, 0, 0, 0, 0, 0, 0, 0, 0, 0, 0, 0, 0, 0, 0, 0,
     0, 0, 0, 0, 0, 0, 0, 0, 0, 0, 0, 0, 0, 0, 0, 0, 0, 0, 0, 0, 0, 0, 0, 0, 0, 0, 0, 0, 0, 0, 0, 0,
     0, 0, 0, 32] =
     [1952805748, 2147483648, 0, 0, 0, 0, 0, 0, 0, 0, 0, 0, 0, 0, 0, 32, 2238026612, 2148794368,
     2079689594, 2149602568, 1959563238, 537221121, 3591555068, 2356037832, 3142088058, 1767102370,
     3026005464, 101432668, 1400878063, 2132199719, 4229227784, 376202118, 3990247372, 2340373823,
     2003587485, 4282681800, 3875868941, 1150170981, 700772411, 1456798342, 3907551918, 2942021828,
     1551150140, 3549741272, 1324470118, 3629636184, 1194787727, 658023982, 3188753471, 1345526296,
     1243408219, 2147441097, 4268933754, 585992288, 3273782720, 3934365816, 1846098174, 851168347,
     869467151, 676077337, 2962638338, 4268413435, 2395522070, 300996483]"
  unfolding schedule_def words_test
  by (simp add: extend_schedule_numeral small_sigma0_def small_sigma1_def rotr32)

lemma rounds_test_0:
  "foldl sha_round
     (1779033703, 3144134277, 1013904242, 2773480762, 1359893119, 2600822924, 528734635, 1541459225)
     (zip [1116352408, 1899447441, 3049323471, 3921009573, 961987163, 1508970993, 2453635748, 2870763221]
          [1952805748, 2147483648, 0, 0, 0, 0, 0, 0]) =
     (3599308937, 1791840881, 206456617, 1129695660, 2773769738, 4224873562, 280309955, 4128179921)"
  by (simp add: big_sigma0_def big_sigma1_def sha_ch_def sha_maj_def rotr32)

lemma rounds_test_8:
  "foldl sha_round
     (3599308937, 1791840881, 206456617, 1129695660, 2773769738, 4224873562, 280309955, 4128179921)
     (zip [3624381080, 310598401, 607225278, 1426881987, 1925078388, 2162078206, 2614888103, 3248222580]
          [0, 0, 0, 0, 0, 0, 0, 32]) =
     (2364848688, 1756754673, 3306491531, 3403264585, 595071393, 2805817957, 1731376834, 576595734)"
  by (simp add: big_sigma0_def big_sigma1_def sha_ch_def sha_maj_def rotr32)

lemma rounds_test_16:
  "foldl sha_round
     (2364848688, 1756754673, 3306491531, 3403264585, 595071393, 2805817957, 1731376834, 576595734)
     (zip [3835390401, 4022224774, 264347078, 604807628, 770255983, 1249150122, 1555081692, 1996064986]
          [2238026612, 2148794368, 2079689594, 2149602568, 1959563238, 537221121, 3591555068, 2356037832]) =
     (1540105331, 3480568492, 3778715722, 4227209346, 4163752571, 1980688633, 2142995868, 3770717151)"
  by (simp add: big_sigma0_def big_sigma1_def sha_ch_def sha_maj_def rotr32)

lemma rounds_test_24:
  "foldl sha_round
     (1540105331, 3480568492, 3778715722, 4227209346, 4163752571, 1980688633, 2142995868, 3770717151)
     (zip [2554220882, 2821834349, 2952996808, 3210313671, 3336571891, 3584528711, 113926993, 338241895]
          [3142088058, 1767102370, 3026005464, 101432668, 1400878063, 2132199719, 4229227784, 376202118]) =
     (4061397271, 710784395, 3173287623, 437217810, 2245502339, 2139769750, 1388067470, 1298786940)"
  by (simp add: big_sigma0_def big_sigma1_def sha_ch_def sha_maj_def rotr32)

lemma rounds_test_32:
  "foldl sha_round
     (4061397271, 710784395, 3173287623, 437217810, 2245502339, 2139769750, 1388067470, 1298786940)
     (zip [666307205, 773529912, 1294757372, 1396182291, 1695183700, 1986661051, 2177026350, 2456956037]
          [3990247372, 2340373823, 2003587485, 4282681800, 3875868941, 1150170981, 700772411, 1456798342]) =
     (456877027, 4291727152, 3123443363, 2198377978, 3926723408, 942315936, 1148845642, 3377792475)"
  by (simp add: big_sigma0_def big_sigma1_def sha_ch_def sha_maj_def rotr32)

lemma rounds_test_40:
  "foldl sha_round
     (456877027, 4291727152, 3123443363, 2198377978, 3926723408, 942315936, 1148845642, 3377792475)
     (zip [2730485921, 2820302411, 3259730800, 3345764771, 3516065817, 3600352804, 4094571909, 275423344]
          [3907551918, 2942021828, 1551150140, 3549741272, 1324470118, 3629636184, 1194787727, 658023982]) =
     (2445881933, 211977804, 3962458226, 2247104222, 984787880, 1468879850, 1199511790, 1273984719)"
  by (simp add: big_sigma0_def big_sigma1_def sha_ch_def sha_maj_def rotr32)

lemma rounds_test_48:
  "foldl sha_round
     (2445881933, 211977804, 3962458226, 2247104222, 984787880, 1468879850, 1199511790, 1273984719)
     (zip [430227734, 506948616, 659060556, 883997877, 958139571, 1322822218, 1537002063, 1747873779]
          [3188753471, 1345526296, 1243408219, 2147441097, 4268933754, 585992288, 3273782720, 3934365816]) =
     (3388811765, 1342895798, 3015498494, 1141916902, 4031105752, 3869873281, 332535367, 3658655920)"
  by (simp add: big_sigma0_def big_sigma1_def sha_ch_def sha_maj_def rotr32)

lemma rounds_test_56:
  "foldl sha_round
     (3388811765, 1342895798, 3015498494, 1141916902, 4031105752, 3869873281, 332535367, 3658655920)
     (zip [1955562222, 2024104815, 2227730452, 2361852424, 2428436474, 2756734187, 3204031479, 3329325298]
          [1846098174, 851168347, 869467151, 676077337, 2962638338, 4268413435, 2395522070, 300996483]) =
     (897378842, 3437547232, 1572927278, 537582299, 1387330716, 2416318880, 2983826026, 1427061999)"
  by (simp add: big_sigma0_def big_sigma1_def sha_ch_def sha_maj_def rotr32)

lemma zip_test:
  "zip round_constants
     [1952805748, 2147483648, 0, 0, 0, 0, 0, 0, 0, 0, 0, 0, 0, 0, 0, 32, 2238026612, 2148794368,
     2079689594, 2149602568, 1959563238, 537221121, 3591555068, 2356037832, 3142088058, 1767102370,
     3026005464, 101432668, 1400878063, 2132199719, 4229227784, 376202118, 3990247372, 2340373823,
     2003587485, 4282681800, 3875868941, 1150170981, 700772411, 1456798342, 3907551918, 2942021828,
     1551150140, 3549741272, 1324470118, 3629636184, 1194787727, 658023982, 3188753471, 1345526296,
     1243408219, 2147441097, 4268933754, 585992288, 3273782720, 3934365816, 1846098174, 851168347,
     869467151, 676077337, 2962638338, 4268413435, 2395522070, 300996483] =
     (  zip [1116352408, 1899447441, 3049323471, 3921009573, 961987163, 1508970993, 2453635748, 2870763221]
            [1952805748, 2147483648, 0, 0, 0, 0, 0, 0] @
        zip [3624381080, 310598401, 607225278, 1426881987, 1925078388, 2162078206, 2614888103, 3248222580]
            [0, 0, 0, 0, 0, 0, 0, 32] @
        zip [3835390401, 4022224774, 264347078, 604807628, 770255983, 1249150122, 1555081692, 1996064986]
            [2238026612, 2148794368, 2079689594, 2149602568, 1959563238, 537221121, 3591555068, 2356037832] @
        zip [2554220882, 2821834349, 2952996808, 3210313671, 3336571891, 3584528711, 113926993, 338241895]
            [3142088058, 1767102370, 3026005464, 101432668, 1400878063, 2132199719, 4229227784, 376202118] @
        zip [666307205, 773529912, 1294757372, 1396182291, 1695183700, 1986661051, 2177026350, 2456956037]
            [3990247372, 2340373823, 2003587485, 4282681800, 3875868941, 1150170981, 700772411, 1456798342] @
        zip [2730485921, 2820302411, 3259730800, 3345764771, 3516065817, 3600352804, 4094571909, 275423344]
            [3907551918, 2942021828, 1551150140, 3549741272, 1324470118, 3629636184, 1194787727, 658023982] @
        zip [430227734, 506948616, 659060556, 883997877, 958139571, 1322822218, 1537002063, 1747873779]
            [3188753471, 1345526296, 1243408219, 2147441097, 4268933754, 585992288, 3273782720, 3934365816] @
        zip [1955562222, 2024104815, 2227730452, 2361852424, 2428436474, 2756734187, 3204031479, 3329325298]
            [1846098174, 851168347, 869467151, 676077337, 2962638338, 4268413435, 2395522070, 300996483])"
  by (simp add: round_constants_def)

lemma rounds_test:
  "foldl sha_round
     (1779033703, 3144134277, 1013904242, 2773480762, 1359893119, 2600822924, 528734635, 1541459225)
     (zip round_constants
       [1952805748, 2147483648, 0, 0, 0, 0, 0, 0, 0, 0, 0, 0, 0, 0, 0, 32, 2238026612, 2148794368,
     2079689594, 2149602568, 1959563238, 537221121, 3591555068, 2356037832, 3142088058, 1767102370,
     3026005464, 101432668, 1400878063, 2132199719, 4229227784, 376202118, 3990247372, 2340373823,
     2003587485, 4282681800, 3875868941, 1150170981, 700772411, 1456798342, 3907551918, 2942021828,
     1551150140, 3549741272, 1324470118, 3629636184, 1194787727, 658023982, 3188753471, 1345526296,
     1243408219, 2147441097, 4268933754, 585992288, 3273782720, 3934365816, 1846098174, 851168347,
     869467151, 676077337, 2962638338, 4268413435, 2395522070, 300996483]) =
     (897378842, 3437547232, 1572927278, 537582299, 1387330716, 2416318880, 2983826026, 1427061999)"
  unfolding zip_test foldl_append
    rounds_test_0 rounds_test_8 rounds_test_16 rounds_test_24 rounds_test_32 rounds_test_40 rounds_test_48 rounds_test_56
  by (rule refl)

lemma sha256_test:
  "sha256 [116, 101, 115, 116] =
     [159, 134, 208, 129, 136, 76, 125, 101, 154, 47, 234, 160, 197, 90, 208, 21, 163, 191, 79, 27,
     43, 11, 130, 44, 209, 93, 108, 21, 176, 240, 10, 8]"
  by (simp add: sha256_def pad_test blocks_one compress_def schedule_test rounds_test
      initial_state_def bytes_of_word_def)

lemma pad_empty:
  "pad [] =
     [128, 0, 0, 0, 0, 0, 0, 0, 0, 0, 0, 0, 0, 0, 0, 0, 0, 0, 0, 0, 0, 0, 0, 0, 0, 0, 0, 0, 0, 0, 0,
     0, 0, 0, 0, 0, 0, 0, 0, 0, 0, 0, 0, 0, 0, 0, 0, 0, 0, 0, 0, 0, 0, 0, 0, 0, 0, 0, 0, 0, 0, 0, 0,
     0]"
  by (simp add: pad_def length_bytes_def upt_rec replicate_unfold)

lemma words_empty:
  "words_of_bytes
     [128, 0, 0, 0, 0, 0, 0, 0, 0, 0, 0, 0, 0, 0, 0, 0, 0, 0, 0, 0, 0, 0, 0, 0, 0, 0, 0, 0, 0, 0, 0,
     0, 0, 0, 0, 0, 0, 0, 0, 0, 0, 0, 0, 0, 0, 0, 0, 0, 0, 0, 0, 0, 0, 0, 0, 0, 0, 0, 0, 0, 0, 0, 0,
     0] =
     [2147483648, 0, 0, 0, 0, 0, 0, 0, 0, 0, 0, 0, 0, 0, 0, 0]"
  by (simp add: word_of_bytes_def)

lemma schedule_empty:
  "schedule
     [128, 0, 0, 0, 0, 0, 0, 0, 0, 0, 0, 0, 0, 0, 0, 0, 0, 0, 0, 0, 0, 0, 0, 0, 0, 0, 0, 0, 0, 0, 0,
     0, 0, 0, 0, 0, 0, 0, 0, 0, 0, 0, 0, 0, 0, 0, 0, 0, 0, 0, 0, 0, 0, 0, 0, 0, 0, 0, 0, 0, 0, 0, 0,
     0] =
     [2147483648, 0, 0, 0, 0, 0, 0, 0, 0, 0, 0, 0, 0, 0, 0, 0, 2147483648, 0, 2117632, 0, 570427392,
     0, 84448578, 2147483648, 1476919296, 4235264, 1451269, 1711282176, 3592562048, 337794312,
     3594910044, 3374850048, 3287351444, 676112230, 109604294, 2742808854, 1904000662, 4274181962,
     2813755136, 2165675682, 2561075048, 62000258, 1562224585, 2975250741, 3286092305, 614207615,
     3297584367, 1575308336, 3741240933, 748767245, 1008022316, 30329261, 369937616, 195877528,
     907775968, 3526495142, 43741191, 1967544444, 133517113, 4161330627, 3704256008, 1581412744,
     1153231965, 996066459]"
  unfolding schedule_def words_empty
  by (simp add: extend_schedule_numeral small_sigma0_def small_sigma1_def rotr32)

lemma rounds_empty_0:
  "foldl sha_round
     (1779033703, 3144134277, 1013904242, 2773480762, 1359893119, 2600822924, 528734635, 1541459225)
     (zip [1116352408, 1899447441, 3049323471, 3921009573, 961987163, 1508970993, 2453635748, 2870763221]
          [2147483648, 0, 0, 0, 0, 0, 0, 0]) =
     (2060825014, 4028650896, 690895682, 1130821424, 1408847307, 2196627567, 1332035834, 3889194014)"
  by (simp add: big_sigma0_def big_sigma1_def sha_ch_def sha_maj_def rotr32)

lemma rounds_empty_8:
  "foldl sha_round
     (2060825014, 4028650896, 690895682, 1130821424, 1408847307, 2196627567, 1332035834, 3889194014)
     (zip [3624381080, 310598401, 607225278, 1426881987, 1925078388, 2162078206, 2614888103, 3248222580]
          [0, 0, 0, 0, 0, 0, 0, 0]) =
     (3019933109, 3096116699, 1170215847, 553833165, 1555621987, 483372089, 725774998, 3455974994)"
  by (simp add: big_sigma0_def big_sigma1_def sha_ch_def sha_maj_def rotr32)

lemma rounds_empty_16:
  "foldl sha_round
     (3019933109, 3096116699, 1170215847, 553833165, 1555621987, 483372089, 725774998, 3455974994)
     (zip [3835390401, 4022224774, 264347078, 604807628, 770255983, 1249150122, 1555081692, 1996064986]
          [2147483648, 0, 2117632, 0, 570427392, 0, 84448578, 2147483648]) =
     (2556161365, 1078820948, 2577845017, 1976037592, 741081741, 2976200464, 3263666206, 966081741)"
  by (simp add: big_sigma0_def big_sigma1_def sha_ch_def sha_maj_def rotr32)

lemma rounds_empty_24:
  "foldl sha_round
     (2556161365, 1078820948, 2577845017, 1976037592, 741081741, 2976200464, 3263666206, 966081741)
     (zip [2554220882, 2821834349, 2952996808, 3210313671, 3336571891, 3584528711, 113926993, 338241895]
          [1476919296, 4235264, 1451269, 1711282176, 3592562048, 337794312, 3594910044, 3374850048]) =
     (300352095, 2696613087, 1926471693, 1690082844, 3151463532, 1447716390, 2957685293, 2506713973)"
  by (simp add: big_sigma0_def big_sigma1_def sha_ch_def sha_maj_def rotr32)

lemma rounds_empty_32:
  "foldl sha_round
     (300352095, 2696613087, 1926471693, 1690082844, 3151463532, 1447716390, 2957685293, 2506713973)
     (zip [666307205, 773529912, 1294757372, 1396182291, 1695183700, 1986661051, 2177026350, 2456956037]
          [3287351444, 676112230, 109604294, 2742808854, 1904000662, 4274181962, 2813755136, 2165675682]) =
     (1234768305, 2656625711, 1457773646, 2694206301, 1902882853, 2242319396, 3892832895, 4206914285)"
  by (simp add: big_sigma0_def big_sigma1_def sha_ch_def sha_maj_def rotr32)

lemma rounds_empty_40:
  "foldl sha_round
     (1234768305, 2656625711, 1457773646, 2694206301, 1902882853, 2242319396, 3892832895, 4206914285)
     (zip [2730485921, 2820302411, 3259730800, 3345764771, 3516065817, 3600352804, 4094571909, 275423344]
          [2561075048, 62000258, 1562224585, 2975250741, 3286092305, 614207615, 3297584367, 1575308336]) =
     (911881421, 1419259244, 855262251, 2752082644, 3417569515, 2322236082, 3531982457, 2855016464)"
  by (simp add: big_sigma0_def big_sigma1_def sha_ch_def sha_maj_def rotr32)

lemma rounds_empty_48:
  "foldl sha_round
     (911881421, 1419259244, 855262251, 2752082644, 3417569515, 2322236082, 3531982457, 2855016464)
     (zip [430227734, 506948616, 659060556, 883997877, 958139571, 1322822218, 1537002063, 1747873779]
          [3741240933, 748767245, 1008022316, 30329261, 369937616, 195877528, 907775968, 3526495142]) =
     (23298068, 749689034, 974034039, 2981272720, 2918796810, 3850954136, 4254700398, 1134943992)"
  by (simp add: big_sigma0_def big_sigma1_def sha_ch_def sha_maj_def rotr32)

lemma rounds_empty_56:
  "foldl sha_round
     (23298068, 749689034, 974034039, 2981272720, 2918796810, 3850954136, 4254700398, 1134943992)
     (zip [1955562222, 2024104815, 2227730452, 2361852424, 2428436474, 2756734187, 3204031479, 3329325298]
          [43741191, 1967544444, 133517113, 4161330627, 3704256008, 1581412744, 1153231965, 996066459]) =
     (2040978907, 3717492111, 1586299222, 4095722474, 3600805733, 3382061760, 2232532848, 477227836)"
  by (simp add: big_sigma0_def big_sigma1_def sha_ch_def sha_maj_def rotr32)

lemma zip_empty:
  "zip round_constants
     [2147483648, 0, 0, 0, 0, 0, 0, 0, 0, 0, 0, 0, 0, 0, 0, 0, 2147483648, 0, 2117632, 0, 570427392,
     0, 84448578, 2147483648, 1476919296, 4235264, 1451269, 1711282176, 3592562048, 337794312,
     3594910044, 3374850048, 3287351444, 676112230, 109604294, 2742808854, 1904000662, 4274181962,
     2813755136, 2165675682, 2561075048, 62000258, 1562224585, 2975250741, 3286092305, 614207615,
     3297584367, 1575308336, 3741240933, 748767245, 1008022316, 30329261, 369937616, 195877528,
     907775968, 3526495142, 43741191, 1967544444, 133517113, 4161330627, 3704256008, 1581412744,
     1153231965, 996066459] =
     (  zip [1116352408, 1899447441, 3049323471, 3921009573, 961987163, 1508970993, 2453635748, 2870763221]
            [2147483648, 0, 0, 0, 0, 0, 0, 0] @
        zip [3624381080, 310598401, 607225278, 1426881987, 1925078388, 2162078206, 2614888103, 3248222580]
            [0, 0, 0, 0, 0, 0, 0, 0] @
        zip [3835390401, 4022224774, 264347078, 604807628, 770255983, 1249150122, 1555081692, 1996064986]
            [2147483648, 0, 2117632, 0, 570427392, 0, 84448578, 2147483648] @
        zip [2554220882, 2821834349, 2952996808, 3210313671, 3336571891, 3584528711, 113926993, 338241895]
            [1476919296, 4235264, 1451269, 1711282176, 3592562048, 337794312, 3594910044, 3374850048] @
        zip [666307205, 773529912, 1294757372, 1396182291, 1695183700, 1986661051, 2177026350, 2456956037]
            [3287351444, 676112230, 109604294, 2742808854, 1904000662, 4274181962, 2813755136, 2165675682] @
        zip [2730485921, 2820302411, 3259730800, 3345764771, 3516065817, 3600352804, 4094571909, 275423344]
            [2561075048, 62000258, 1562224585, 2975250741, 3286092305, 614207615, 3297584367, 1575308336] @
        zip [430227734, 506948616, 659060556, 883997877, 958139571, 1322822218, 1537002063, 1747873779]
            [3741240933, 748767245, 1008022316, 30329261, 369937616, 195877528, 907775968, 3526495142] @
        zip [1955562222, 2024104815, 2227730452, 2361852424, 2428436474, 2756734187, 3204031479, 3329325298]
            [43741191, 1967544444, 133517113, 4161330627, 3704256008, 1581412744, 1153231965, 996066459])"
  by (simp add: round_constants_def)

lemma rounds_empty:
  "foldl sha_round
     (1779033703, 3144134277, 1013904242, 2773480762, 1359893119, 2600822924, 528734635, 1541459225)
     (zip round_constants
       [2147483648, 0, 0, 0, 0, 0, 0, 0, 0, 0, 0, 0, 0, 0, 0, 0, 2147483648, 0, 2117632, 0, 570427392,
     0, 84448578, 2147483648, 1476919296, 4235264, 1451269, 1711282176, 3592562048, 337794312,
     3594910044, 3374850048, 3287351444, 676112230, 109604294, 2742808854, 1904000662, 4274181962,
     2813755136, 2165675682, 2561075048, 62000258, 1562224585, 2975250741, 3286092305, 614207615,
     3297584367, 1575308336, 3741240933, 748767245, 1008022316, 30329261, 369937616, 195877528,
     907775968, 3526495142, 43741191, 1967544444, 133517113, 4161330627, 3704256008, 1581412744,
     1153231965, 996066459]) =
     (2040978907, 3717492111, 1586299222, 4095722474, 3600805733, 3382061760, 2232532848, 477227836)"
  unfolding zip_empty foldl_append
    rounds_empty_0 rounds_empty_8 rounds_empty_16 rounds_empty_24 rounds_empty_32 rounds_empty_40 rounds_empty_48 rounds_empty_56
  by (rule refl)

lemma sha256_empty:
  "sha256 [] =
     [227, 176, 196, 66, 152, 252, 28, 20, 154, 251, 244, 200, 153, 111, 185, 36, 39, 174, 65, 228,
     100, 155, 147, 76, 164, 149, 153, 27, 120, 82, 184, 85]"
  by (simp add: sha256_def pad_empty blocks_one compress_def schedule_empty rounds_empty
      initial_state_def bytes_of_word_def)

text \<open>Two more secrets: the default of the demonstration, and one of two CJK characters.\<close>

lemma pad_default:
  "pad [109, 121, 95, 100, 101, 102, 97, 117, 108, 116, 95, 115, 101, 99, 114, 101, 116, 95, 107, 101, 121] =
     [109, 121, 95, 100, 101, 102, 97, 117, 108, 116, 95, 115, 101, 99, 114, 101, 116, 95, 107, 101,
     121, 128, 0, 0, 0, 0, 0, 0, 0, 0, 0, 0, 0, 0, 0, 0, 0, 0, 0, 0, 0, 0, 0, 0, 0, 0, 0, 0, 0, 0, 0,
     0, 0, 0, 0, 0, 0, 0, 0, 0, 0, 0, 0, 168]"
  by (simp add: pad_def length_bytes_def upt_rec replicate_unfold)

lemma words_default:
  "words_of_bytes
     [109, 121, 95, 100, 101, 102, 97, 117, 108, 116, 95, 115, 101, 99, 114, 101, 116, 95, 107, 101,
     121, 128, 0, 0, 0, 0, 0, 0, 0, 0, 0, 0, 0, 0, 0, 0, 0, 0, 0, 0, 0, 0, 0, 0, 0, 0, 0, 0, 0, 0, 0,
     0, 0, 0, 0, 0, 0, 0, 0, 0, 0, 0, 0, 168] =
     [1836670820, 1701208437, 1819565939, 1701016165, 1952410469, 2038431744, 0, 0, 0, 0, 0, 0, 0, 0,
     0, 168]"
  by (simp add: word_of_bytes_def)

lemma schedule_default:
  "schedule
     [109, 121, 95, 100, 101, 102, 97, 117, 108, 116, 95, 115, 101, 99, 114, 101, 116, 95, 107, 101,
     121, 128, 0, 0, 0, 0, 0, 0, 0, 0, 0, 0, 0, 0, 0, 0, 0, 0, 0, 0, 0, 0, 0, 0, 0, 0, 0, 0, 0, 0, 0,
     0, 0, 0, 0, 0, 0, 0, 0, 0, 0, 0, 0, 168] =
     [1836670820, 1701208437, 1819565939, 1701016165, 1952410469, 2038431744, 0, 0, 0, 0, 0, 0, 0, 0,
     0, 168, 3954489625, 1647450562, 1393129189, 3554636523, 433933181, 3499910216, 215439663,
     2857242205, 2850253801, 433679058, 2894269442, 2987558154, 3091629914, 517989657, 2380278011,
     3102936218, 633516728, 2485372507, 629475123, 3552641079, 4006889519, 2288973757, 2692635823,
     2444357998, 565020644, 3655808335, 2511332586, 550383407, 404944784, 2121379827, 639060935,
     2501294941, 2692199537, 3622521941, 2831451952, 193363394, 411879808, 2085013475, 3873062420,
     2597079441, 2623999020, 1865158635, 3665737904, 1581131572, 2729489038, 2503354306, 394354130,
     588025656]"
  unfolding schedule_def words_default
  by (simp add: extend_schedule_numeral small_sigma0_def small_sigma1_def rotr32)

lemma rounds_default_0:
  "foldl sha_round
     (1779033703, 3144134277, 1013904242, 2773480762, 1359893119, 2600822924, 528734635, 1541459225)
     (zip [1116352408, 1899447441, 3049323471, 3921009573, 961987163, 1508970993, 2453635748, 2870763221]
          [1836670820, 1701208437, 1819565939, 1701016165, 1952410469, 2038431744, 0, 0]) =
     (2790539051, 99347091, 160788795, 2758005601, 233513411, 3235503458, 3085978443, 2096041956)"
  by (simp add: big_sigma0_def big_sigma1_def sha_ch_def sha_maj_def rotr32)

lemma rounds_default_8:
  "foldl sha_round
     (2790539051, 99347091, 160788795, 2758005601, 233513411, 3235503458, 3085978443, 2096041956)
     (zip [3624381080, 310598401, 607225278, 1426881987, 1925078388, 2162078206, 2614888103, 3248222580]
          [0, 0, 0, 0, 0, 0, 0, 168]) =
     (661190047, 2552432450, 2177514187, 2851047176, 2608764664, 3927216509, 905961818, 1341612559)"
  by (simp add: big_sigma0_def big_sigma1_def sha_ch_def sha_maj_def rotr32)

lemma rounds_default_16:
  "foldl sha_round
     (661190047, 2552432450, 2177514187, 2851047176, 2608764664, 3927216509, 905961818, 1341612559)
     (zip [3835390401, 4022224774, 264347078, 604807628, 770255983, 1249150122, 1555081692, 1996064986]
          [3954489625, 1647450562, 1393129189, 3554636523, 433933181, 3499910216, 215439663, 2857242205]) =
     (3595802994, 4074105016, 1059352755, 244247864, 262707186, 2984680629, 3052595530, 644802256)"
  by (simp add: big_sigma0_def big_sigma1_def sha_ch_def sha_maj_def rotr32)

lemma rounds_default_24:
  "foldl sha_round
     (3595802994, 4074105016, 1059352755, 244247864, 262707186, 2984680629, 3052595530, 644802256)
     (zip [2554220882, 2821834349, 2952996808, 3210313671, 3336571891, 3584528711, 113926993, 338241895]
          [2850253801, 433679058, 2894269442, 2987558154, 3091629914, 517989657, 2380278011, 3102936218]) =
     (4169607085, 2813647175, 3778138400, 1844314922, 3435094513, 174705998, 112155168, 1650857087)"
  by (simp add: big_sigma0_def big_sigma1_def sha_ch_def sha_maj_def rotr32)

lemma rounds_default_32:
  "foldl sha_round
     (4169607085, 2813647175, 3778138400, 1844314922, 3435094513, 174705998, 112155168, 1650857087)
     (zip [666307205, 773529912, 1294757372, 1396182291, 1695183700, 1986661051, 2177026350, 2456956037]
          [633516728, 2485372507, 629475123, 3552641079, 4006889519, 2288973757, 2692635823, 2444357998]) =
     (1314560533, 692142823, 3147060925, 1953793227, 2941521029, 920443201, 3949843603, 1678999771)"
  by (simp add: big_sigma0_def big_sigma1_def sha_ch_def sha_maj_def rotr32)

lemma rounds_default_40:
  "foldl sha_round
     (1314560533, 692142823, 3147060925, 1953793227, 2941521029, 920443201, 3949843603, 1678999771)
     (zip [2730485921, 2820302411, 3259730800, 3345764771, 3516065817, 3600352804, 4094571909, 275423344]
          [565020644, 3655808335, 2511332586, 550383407, 404944784, 2121379827, 639060935, 2501294941]) =
     (2037028033, 674862938, 4166960398, 1370692893, 2211814778, 989932172, 508441059, 650515415)"
  by (simp add: big_sigma0_def big_sigma1_def sha_ch_def sha_maj_def rotr32)

lemma rounds_default_48:
  "foldl sha_round
     (2037028033, 674862938, 4166960398, 1370692893, 2211814778, 989932172, 508441059, 650515415)
     (zip [430227734, 506948616, 659060556, 883997877, 958139571, 1322822218, 1537002063, 1747873779]
          [2692199537, 3622521941, 2831451952, 193363394, 411879808, 2085013475, 3873062420, 2597079441]) =
     (970789095, 2638469043, 3090844784, 1431111921, 1059348350, 3455361861, 3173393732, 3587492753)"
  by (simp add: big_sigma0_def big_sigma1_def sha_ch_def sha_maj_def rotr32)

lemma rounds_default_56:
  "foldl sha_round
     (970789095, 2638469043, 3090844784, 1431111921, 1059348350, 3455361861, 3173393732, 3587492753)
     (zip [1955562222, 2024104815, 2227730452, 2361852424, 2428436474, 2756734187, 3204031479, 3329325298]
          [2623999020, 1865158635, 3665737904, 1581131572, 2729489038, 2503354306, 394354130, 588025656]) =
     (676803037, 3407696399, 3765967377, 1869929558, 2114541020, 2845421046, 1686886021, 2865746061)"
  by (simp add: big_sigma0_def big_sigma1_def sha_ch_def sha_maj_def rotr32)

lemma zip_default:
  "zip round_constants
     [1836670820, 1701208437, 1819565939, 1701016165, 1952410469, 2038431744, 0, 0, 0, 0, 0, 0, 0, 0,
     0, 168, 3954489625, 1647450562, 1393129189, 3554636523, 433933181, 3499910216, 215439663,
     2857242205, 2850253801, 433679058, 2894269442, 2987558154, 3091629914, 517989657, 2380278011,
     3102936218, 633516728, 2485372507, 629475123, 3552641079, 4006889519, 2288973757, 2692635823,
     2444357998, 565020644, 3655808335, 2511332586, 550383407, 404944784, 2121379827, 639060935,
     2501294941, 2692199537, 3622521941, 2831451952, 193363394, 411879808, 2085013475, 3873062420,
     2597079441, 2623999020, 1865158635, 3665737904, 1581131572, 2729489038, 2503354306, 394354130,
     588025656] =
     (  zip [1116352408, 1899447441, 3049323471, 3921009573, 961987163, 1508970993, 2453635748, 2870763221]
            [1836670820, 1701208437, 1819565939, 1701016165, 1952410469, 2038431744, 0, 0] @
        zip [3624381080, 310598401, 607225278, 1426881987, 1925078388, 2162078206, 2614888103, 3248222580]
            [0, 0, 0, 0, 0, 0, 0, 168] @
        zip [3835390401, 4022224774, 264347078, 604807628, 770255983, 1249150122, 1555081692, 1996064986]
            [3954489625, 1647450562, 1393129189, 3554636523, 433933181, 3499910216, 215439663, 2857242205] @
        zip [2554220882, 2821834349, 2952996808, 3210313671, 3336571891, 3584528711, 113926993, 338241895]
            [2850253801, 433679058, 2894269442, 2987558154, 3091629914, 517989657, 2380278011, 3102936218] @
        zip [666307205, 773529912, 1294757372, 1396182291, 1695183700, 1986661051, 2177026350, 2456956037]
            [633516728, 2485372507, 629475123, 3552641079, 4006889519, 2288973757, 2692635823, 2444357998] @
        zip [2730485921, 2820302411, 3259730800, 3345764771, 3516065817, 3600352804, 4094571909, 275423344]
            [565020644, 3655808335, 2511332586, 550383407, 404944784, 2121379827, 639060935, 2501294941] @
        zip [430227734, 506948616, 659060556, 883997877, 958139571, 1322822218, 1537002063, 1747873779]
            [2692199537, 3622521941, 2831451952, 193363394, 411879808, 2085013475, 3873062420, 2597079441] @
        zip [1955562222, 2024104815, 2227730452, 2361852424, 2428436474, 2756734187, 3204031479, 3329325298]
            [2623999020, 1865158635, 3665737904, 1581131572, 2729489038, 2503354306, 394354130, 588025656])"
  by (simp add: round_constants_def)

lemma rounds_default:
  "foldl sha_round
     (1779033703, 3144134277, 1013904242, 2773480762, 1359893119, 2600822924, 528734635, 1541459225)
     (zip round_constants
       [1836670820, 1701208437, 1819565939, 1701016165, 1952410469, 2038431744, 0, 0, 0, 0, 0, 0, 0, 0,
     0, 168, 3954489625, 1647450562, 1393129189, 3554636523, 433933181, 3499910216, 215439663,
     2857242205, 2850253801, 433679058, 2894269442, 2987558154, 3091629914, 517989657, 2380278011,
     3102936218, 633516728, 2485372507, 629475123, 3552641079, 4006889519, 2288973757, 2692635823,
     2444357998, 565020644, 3655808335, 2511332586, 550383407, 404944784, 2121379827, 639060935,
     2501294941, 2692199537, 3622521941, 2831451952, 193363394, 411879808, 2085013475, 3873062420,
     2597079441, 2623999020, 1865158635, 3665737904, 1581131572, 2729489038, 2503354306, 394354130,
     588025656]) =
     (676803037, 3407696399, 3765967377, 1869929558, 2114541020, 2845421046, 1686886021, 2865746061)"
  unfolding zip_default foldl_append
    rounds_default_0 rounds_default_8 rounds_default_16 rounds_default_24 rounds_default_32 rounds_default_40 rounds_default_48 rounds_default_56
  by (rule refl)

lemma sha256_default:
  "sha256 [109, 121, 95, 100, 101, 102, 97, 117, 108, 116, 95, 115, 101, 99, 114, 101, 116, 95, 107, 101, 121] =
     [146, 97, 24, 68, 134, 133, 0, 148, 28, 231, 13, 131, 20, 196, 209, 144, 207, 23, 168, 91, 68,
     159, 22, 130, 132, 15, 176, 48, 6, 176, 157, 166]"
  by (simp add: sha256_def pad_default blocks_one compress_def schedule_default rounds_default
      initial_state_def bytes_of_word_def)

lemma pad_cjk:
  "pad [229, 175, 134, 233, 146, 165] =
     [229, 175, 134, 233, 146, 165, 128, 0, 0, 0, 0, 0, 0, 0, 0, 0, 0, 0, 0, 0, 0, 0, 0, 0, 0, 0, 0,
     0, 0, 0, 0, 0, 0, 0, 0, 0, 0, 0, 0, 0, 0, 0, 0, 0, 0, 0, 0, 0, 0, 0, 0, 0, 0, 0, 0, 0, 0, 0, 0,
     0, 0, 0, 0, 48]"
  by (simp add: pad_def length_bytes_def upt_rec replicate_unfold)

lemma words_cjk:
  "words_of_bytes
     [229, 175, 134, 233, 146, 165, 128, 0, 0, 0, 0, 0, 0, 0, 0, 0, 0, 0, 0, 0, 0, 0, 0, 0, 0, 0, 0,
     0, 0, 0, 0, 0, 0, 0, 0, 0, 0, 0, 0, 0, 0, 0, 0, 0, 0, 0, 0, 0, 0, 0, 0, 0, 0, 0, 0, 0, 0, 0, 0,
     0, 0, 0, 0, 48] =
     [3853485801, 2460319744, 0, 0, 0, 0, 0, 0, 0, 0, 0, 0, 0, 0, 0, 48]"
  by (simp add: word_of_bytes_def)

lemma schedule_cjk:
  "schedule
     [229, 175, 134, 233, 146, 165, 128, 0, 0, 0, 0, 0, 0, 0, 0, 0, 0, 0, 0, 0, 0, 0, 0, 0, 0, 0, 0,
     0, 0, 0, 0, 0, 0, 0, 0, 0, 0, 0, 0, 0, 0, 0, 0, 0, 0, 0, 0, 0, 0, 0, 0, 0, 0, 0, 0, 0, 0, 0, 0,
     0, 0, 0, 0, 48] =
     [3853485801, 2460319744, 0, 0, 0, 0, 0, 0, 0, 0, 0, 0, 0, 0, 0, 48, 1495361170, 2462285824,
     2676830189, 2955209689, 841785212, 3904628524, 3697087652, 3899338309, 3149226720, 2455602144,
     3441923021, 2748672897, 610795007, 4109706606, 1237360011, 1745876244, 1013152801, 3881019145,
     3029398901, 1441254364, 1214791382, 1712819742, 3126708860, 3932032260, 3003094764, 1960101715,
     2859745216, 3982001525, 2900319602, 978013706, 1374673405, 2228697891, 2952029995, 3443703912,
     2720333212, 3841564356, 932323491, 1361798379, 727410303, 2748325351, 4192528836, 3226196894,
     1350521962, 3809890069, 4285968913, 1524149754, 512802308, 494699737]"
  unfolding schedule_def words_cjk
  by (simp add: extend_schedule_numeral small_sigma0_def small_sigma1_def rotr32)

lemma rounds_cjk_0:
  "foldl sha_round
     (1779033703, 3144134277, 1013904242, 2773480762, 1359893119, 2600822924, 528734635, 1541459225)
     (zip [1116352408, 1899447441, 3049323471, 3921009573, 961987163, 1508970993, 2453635748, 2870763221]
          [3853485801, 2460319744, 0, 0, 0, 0, 0, 0]) =
     (1565169638, 3200212202, 3355025198, 3102134700, 1948293077, 2886649144, 271693005, 3225739626)"
  by (simp add: big_sigma0_def big_sigma1_def sha_ch_def sha_maj_def rotr32)

lemma rounds_cjk_8:
  "foldl sha_round
     (1565169638, 3200212202, 3355025198, 3102134700, 1948293077, 2886649144, 271693005, 3225739626)
     (zip [3624381080, 310598401, 607225278, 1426881987, 1925078388, 2162078206, 2614888103, 3248222580]
          [0, 0, 0, 0, 0, 0, 0, 48]) =
     (1728595953, 3226335476, 4228986380, 3005871635, 2226705471, 2250087310, 1001148756, 2281204077)"
  by (simp add: big_sigma0_def big_sigma1_def sha_ch_def sha_maj_def rotr32)

lemma rounds_cjk_16:
  "foldl sha_round
     (1728595953, 3226335476, 4228986380, 3005871635, 2226705471, 2250087310, 1001148756, 2281204077)
     (zip [3835390401, 4022224774, 264347078, 604807628, 770255983, 1249150122, 1555081692, 1996064986]
          [1495361170, 2462285824, 2676830189, 2955209689, 841785212, 3904628524, 3697087652, 3899338309]) =
     (2278568290, 1441162675, 2228610000, 2412824386, 1840798860, 1180169926, 3906113508, 129331618)"
  by (simp add: big_sigma0_def big_sigma1_def sha_ch_def sha_maj_def rotr32)

lemma rounds_cjk_24:
  "foldl sha_round
     (2278568290, 1441162675, 2228610000, 2412824386, 1840798860, 1180169926, 3906113508, 129331618)
     (zip [2554220882, 2821834349, 2952996808, 3210313671, 3336571891, 3584528711, 113926993, 338241895]
          [3149226720, 2455602144, 3441923021, 2748672897, 610795007, 4109706606, 1237360011, 1745876244]) =
     (1695066094, 3177104675, 1449247180, 2832838187, 4125472305, 3598378536, 3997940191, 3632091535)"
  by (simp add: big_sigma0_def big_sigma1_def sha_ch_def sha_maj_def rotr32)

lemma rounds_cjk_32:
  "foldl sha_round
     (1695066094, 3177104675, 1449247180, 2832838187, 4125472305, 3598378536, 3997940191, 3632091535)
     (zip [666307205, 773529912, 1294757372, 1396182291, 1695183700, 1986661051, 2177026350, 2456956037]
          [1013152801, 3881019145, 3029398901, 1441254364, 1214791382, 1712819742, 3126708860, 3932032260]) =
     (2033050718, 2979592733, 1728711198, 2153263877, 4120311763, 2550502894, 299018723, 1610561887)"
  by (simp add: big_sigma0_def big_sigma1_def sha_ch_def sha_maj_def rotr32)

lemma rounds_cjk_40:
  "foldl sha_round
     (2033050718, 2979592733, 1728711198, 2153263877, 4120311763, 2550502894, 299018723, 1610561887)
     (zip [2730485921, 2820302411, 3259730800, 3345764771, 3516065817, 3600352804, 4094571909, 275423344]
          [3003094764, 1960101715, 2859745216, 3982001525, 2900319602, 978013706, 1374673405, 2228697891]) =
     (4249088425, 3347988208, 3390057994, 916327602, 1442990150, 1318363229, 441666136, 2097496043)"
  by (simp add: big_sigma0_def big_sigma1_def sha_ch_def sha_maj_def rotr32)

lemma rounds_cjk_48:
  "foldl sha_round
     (4249088425, 3347988208, 3390057994, 916327602, 1442990150, 1318363229, 441666136, 2097496043)
     (zip [430227734, 506948616, 659060556, 883997877, 958139571, 1322822218, 1537002063, 1747873779]
          [2952029995, 3443703912, 2720333212, 3841564356, 932323491, 1361798379, 727410303, 2748325351]) =
     (2733234143, 1860273109, 2786462585, 1244991927, 2780515169, 2506620847, 629548443, 2104210038)"
  by (simp add: big_sigma0_def big_sigma1_def sha_ch_def sha_maj_def rotr32)

lemma rounds_cjk_56:
  "foldl sha_round
     (2733234143, 1860273109, 2786462585, 1244991927, 2780515169, 2506620847, 629548443, 2104210038)
     (zip [1955562222, 2024104815, 2227730452, 2361852424, 2428436474, 2756734187, 3204031479, 3329325298]
          [4192528836, 3226196894, 1350521962, 3809890069, 4285968913, 1524149754, 512802308, 494699737]) =
     (2356274216, 2270511598, 926611884, 244113187, 23840356, 667686833, 200474007, 3639232234)"
  by (simp add: big_sigma0_def big_sigma1_def sha_ch_def sha_maj_def rotr32)

lemma zip_cjk:
  "zip round_constants
     [3853485801, 2460319744, 0, 0, 0, 0, 0, 0, 0, 0, 0, 0, 0, 0, 0, 48, 1495361170, 2462285824,
     2676830189, 2955209689, 841785212, 3904628524, 3697087652, 3899338309, 3149226720, 2455602144,
     3441923021, 2748672897, 610795007, 4109706606, 1237360011, 1745876244, 1013152801, 3881019145,
     3029398901, 1441254364, 1214791382, 1712819742, 3126708860, 3932032260, 3003094764, 1960101715,
     2859745216, 3982001525, 2900319602, 978013706, 1374673405, 2228697891, 2952029995, 3443703912,
     2720333212, 3841564356, 932323491, 1361798379, 727410303, 2748325351, 4192528836, 3226196894,
     1350521962, 3809890069, 4285968913, 1524149754, 512802308, 494699737] =
     (  zip [1116352408, 1899447441, 3049323471, 3921009573, 961987163, 1508970993, 2453635748, 2870763221]
            [3853485801, 2460319744, 0, 0, 0, 0, 0, 0] @
        zip [3624381080, 310598401, 607225278, 1426881987, 1925078388, 2162078206, 2614888103, 3248222580]
            [0, 0, 0, 0, 0, 0, 0, 48] @
        zip [3835390401, 4022224774, 264347078, 604807628, 770255983, 1249150122, 1555081692, 1996064986]
            [1495361170, 2462285824, 2676830189, 2955209689, 841785212, 3904628524, 3697087652, 3899338309] @
        zip [2554220882, 2821834349, 2952996808, 3210313671, 3336571891, 3584528711, 113926993, 338241895]
            [3149226720, 2455602144, 3441923021, 2748672897, 610795007, 4109706606, 1237360011, 1745876244] @
        zip [666307205, 773529912, 1294757372, 1396182291, 1695183700, 1986661051, 2177026350, 2456956037]
            [1013152801, 3881019145, 3029398901, 1441254364, 1214791382, 1712819742, 3126708860, 3932032260] @
        zip [2730485921, 2820302411, 3259730800, 3345764771, 3516065817, 3600352804, 4094571909, 275423344]
            [3003094764, 1960101715, 2859745216, 3982001525, 2900319602, 978013706, 1374673405, 2228697891] @
        zip [430227734, 506948616, 659060556, 883997877, 958139571, 1322822218, 1537002063, 1747873779]
            [2952029995, 3443703912, 2720333212, 3841564356, 932323491, 1361798379, 727410303, 2748325351] @
        zip [1955562222, 2024104815, 2227730452, 2361852424, 2428436474, 2756734187, 3204031479, 3329325298]
            [4192528836, 3226196894, 1350521962, 3809890069, 4285968913, 1524149754, 512802308, 494699737])"
  by (simp add: round_constants_def)

lemma rounds_cjk:
  "foldl sha_round
     (1779033703, 3144134277, 1013904242, 2773480762, 1359893119, 2600822924, 528734635, 1541459225)
     (zip round_constants
       [3853485801, 2460319744, 0, 0, 0, 0, 0, 0, 0, 0, 0, 0, 0, 0, 0, 48, 1495361170, 2462285824,
     2676830189, 2955209689, 841785212, 3904628524, 3697087652, 3899338309, 3149226720, 2455602144,
     3441923021, 2748672897, 610795007, 4109706606, 1237360011, 1745876244, 1013152801, 3881019145,
     3029398901, 1441254364, 1214791382, 1712819742, 3126708860, 3932032260, 3003094764, 1960101715,
     2859745216, 3982001525, 2900319602, 978013706, 1374673405, 2228697891, 2952029995, 3443703912,
     2720333212, 3841564356, 932323491, 1361798379, 727410303, 2748325351, 4192528836, 3226196894,
     1350521962, 3809890069, 4285968913, 1524149754, 512802308, 494699737]) =
     (2356274216, 2270511598, 926611884, 244113187, 23840356, 667686833, 200474007, 3639232234)"
  unfolding zip_cjk foldl_append
    rounds_cjk_0 rounds_cjk_8 rounds_cjk_16 rounds_cjk_24 rounds_cjk_32 rounds_cjk_40 rounds_cjk_48 rounds_cjk_56
  by (rule refl)

lemma sha256_cjk:
  "sha256 [229, 175, 134, 233, 146, 165] =
     [246, 123, 202, 143, 66, 188, 240, 115, 115, 169, 237, 30, 179, 220, 212, 93, 82, 122, 24, 227,
     194, 209, 128, 61, 43, 118, 215, 66, 52, 203, 20, 3]"
  by (simp add: sha256_def pad_cjk blocks_one compress_def schedule_cjk rounds_cjk
      initial_state_def bytes_of_word_def)

text \<open>A message of 56 bytes, which takes two blocks.\<close>

lemma pad_two_blocks:
  "pad [97, 98, 99, 100, 98, 99, 100, 101, 99, 100, 101, 102, 100, 101, 102, 103, 101, 102, 103, 104,
     102, 103, 104, 105, 103, 104, 105, 106, 104, 105, 106, 107, 105, 106, 107, 108, 106, 107, 108,
     109, 107, 108, 109, 110, 108, 109, 110, 111, 109, 110, 111, 112, 110, 111, 112, 113] =
     [97, 98, 99, 100, 98, 99, 100, 101, 99, 100, 101, 102, 100, 101, 102, 103, 101, 102, 103, 104,
     102, 103, 104, 105, 103, 104, 105, 106, 104, 105, 106, 107, 105, 106, 107, 108, 106, 107, 108,
     109, 107, 108, 109, 110, 108, 109, 110, 111, 109, 110, 111, 112, 110, 111, 112, 113, 128, 0, 0,
     0, 0, 0, 0, 0, 0, 0, 0, 0, 0, 0, 0, 0, 0, 0, 0, 0, 0, 0, 0, 0, 0, 0, 0, 0, 0, 0, 0, 0, 0, 0, 0,
     0, 0, 0, 0, 0, 0, 0, 0, 0, 0, 0, 0, 0, 0, 0, 0, 0, 0, 0, 0, 0, 0, 0, 0, 0, 0, 0, 0, 0, 0, 0, 0,
     0, 0, 0, 1, 192]"
  by (simp add: pad_def length_bytes_def upt_rec replicate_unfold)

lemma blocks_two_blocks:
  "blocks
     [97, 98, 99, 100, 98, 99, 100, 101, 99, 100, 101, 102, 100, 101, 102, 103, 101, 102, 103, 104,
     102, 103, 104, 105, 103, 104, 105, 106, 104, 105, 106, 107, 105, 106, 107, 108, 106, 107, 108,
     109, 107, 108, 109, 110, 108, 109, 110, 111, 109, 110, 111, 112, 110, 111, 112, 113, 128, 0, 0,
     0, 0, 0, 0, 0, 0, 0, 0, 0, 0, 0, 0, 0, 0, 0, 0, 0, 0, 0, 0, 0, 0, 0, 0, 0, 0, 0, 0, 0, 0, 0, 0,
     0, 0, 0, 0, 0, 0, 0, 0, 0, 0, 0, 0, 0, 0, 0, 0, 0, 0, 0, 0, 0, 0, 0, 0, 0, 0, 0, 0, 0, 0, 0, 0,
     0, 0, 0, 1, 192] =
     [[97, 98, 99, 100, 98, 99, 100, 101, 99, 100, 101, 102, 100, 101, 102, 103, 101, 102, 103, 104,
     102, 103, 104, 105, 103, 104, 105, 106, 104, 105, 106, 107, 105, 106, 107, 108, 106, 107, 108,
     109, 107, 108, 109, 110, 108, 109, 110, 111, 109, 110, 111, 112, 110, 111, 112, 113, 128, 0, 0,
     0, 0, 0, 0, 0],
      [0, 0, 0, 0, 0, 0, 0, 0, 0, 0, 0, 0, 0, 0, 0, 0, 0, 0, 0, 0, 0, 0, 0, 0, 0, 0, 0, 0, 0, 0, 0, 0,
     0, 0, 0, 0, 0, 0, 0, 0, 0, 0, 0, 0, 0, 0, 0, 0, 0, 0, 0, 0, 0, 0, 0, 0, 0, 0, 0, 0, 0, 0, 1,
     192]]"
  by (subst blocks.simps, subst blocks.simps, subst blocks.simps) simp

lemma words_two_blocks_0:
  "words_of_bytes
     [97, 98, 99, 100, 98, 99, 100, 101, 99, 100, 101, 102, 100, 101, 102, 103, 101, 102, 103, 104,
     102, 103, 104, 105, 103, 104, 105, 106, 104, 105, 106, 107, 105, 106, 107, 108, 106, 107, 108,
     109, 107, 108, 109, 110, 108, 109, 110, 111, 109, 110, 111, 112, 110, 111, 112, 113, 128, 0, 0,
     0, 0, 0, 0, 0] =
     [1633837924, 1650680933, 1667523942, 1684366951, 1701209960, 1718052969, 1734895978, 1751738987,
     1768581996, 1785425005, 1802268014, 1819111023, 1835954032, 1852797041, 2147483648, 0]"
  by (simp add: word_of_bytes_def)

lemma schedule_two_blocks_0:
  "schedule
     [97, 98, 99, 100, 98, 99, 100, 101, 99, 100, 101, 102, 100, 101, 102, 103, 101, 102, 103, 104,
     102, 103, 104, 105, 103, 104, 105, 106, 104, 105, 106, 107, 105, 106, 107, 108, 106, 107, 108,
     109, 107, 108, 109, 110, 108, 109, 110, 111, 109, 110, 111, 112, 110, 111, 112, 113, 128, 0, 0,
     0, 0, 0, 0, 0] =
     [1633837924, 1650680933, 1667523942, 1684366951, 1701209960, 1718052969, 1734895978, 1751738987,
     1768581996, 1785425005, 1802268014, 1819111023, 1835954032, 1852797041, 2147483648, 0,
     3951039149, 2814619282, 1994996642, 3124946755, 2460557828, 3628590942, 2652241974, 2994776011,
     3723171094, 4083517172, 2526859336, 3914979741, 1791803628, 4115443864, 720483034, 3998860489,
     2822103402, 503268393, 3605092697, 3281505646, 1863844298, 559366661, 905935492, 2537811576,
     3829498855, 218755085, 2626269012, 70081519, 1911633104, 261420131, 2118769763, 1868941719,
     191915395, 395514570, 1345344745, 3121765433, 2123600585, 3586894366, 2027968605, 4142358812,
     2328375502, 2336727811, 4251869823, 2356030570, 1073851889, 440258711, 2849992546, 1789266489]"
  unfolding schedule_def words_two_blocks_0
  by (simp add: extend_schedule_numeral small_sigma0_def small_sigma1_def rotr32)

lemma rounds_two_blocks_0_0:
  "foldl sha_round
     (1779033703, 3144134277, 1013904242, 2773480762, 1359893119, 2600822924, 528734635, 1541459225)
     (zip [1116352408, 1899447441, 3049323471, 3921009573, 961987163, 1508970993, 2453635748, 2870763221]
          [1633837924, 1650680933, 1667523942, 1684366951, 1701209960, 1718052969, 1734895978, 1751738987]) =
     (3526878939, 1213740471, 1439231816, 4179739154, 2751582737, 967160522, 2147032212, 96794762)"
  by (simp add: big_sigma0_def big_sigma1_def sha_ch_def sha_maj_def rotr32)

lemma rounds_two_blocks_0_8:
  "foldl sha_round
     (3526878939, 1213740471, 1439231816, 4179739154, 2751582737, 967160522, 2147032212, 96794762)
     (zip [3624381080, 310598401, 607225278, 1426881987, 1925078388, 2162078206, 2614888103, 3248222580]
          [1768581996, 1785425005, 1802268014, 1819111023, 1835954032, 1852797041, 2147483648, 0]) =
     (3276300692, 3709258675, 3599656023, 270157921, 345417039, 2439163373, 2453928111, 2207911881)"
  by (simp add: big_sigma0_def big_sigma1_def sha_ch_def sha_maj_def rotr32)

lemma rounds_two_blocks_0_16:
  "foldl sha_round
     (3276300692, 3709258675, 3599656023, 270157921, 345417039, 2439163373, 2453928111, 2207911881)
     (zip [3835390401, 4022224774, 264347078, 604807628, 770255983, 1249150122, 1555081692, 1996064986]
          [3951039149, 2814619282, 1994996642, 3124946755, 2460557828, 3628590942, 2652241974, 2994776011]) =
     (1509746361, 2922261839, 455829176, 3607806333, 2731005213, 4034198677, 3579883560, 2093396578)"
  by (simp add: big_sigma0_def big_sigma1_def sha_ch_def sha_maj_def rotr32)

lemma rounds_two_blocks_0_24:
  "foldl sha_round
     (1509746361, 2922261839, 455829176, 3607806333, 2731005213, 4034198677, 3579883560, 2093396578)
     (zip [2554220882, 2821834349, 2952996808, 3210313671, 3336571891, 3584528711, 113926993, 338241895]
          [3723171094, 4083517172, 2526859336, 3914979741, 1791803628, 4115443864, 720483034, 3998860489]) =
     (1434561287, 3947099117, 3748745632, 1958540392, 3751280773, 104192128, 1982450017, 1923854029)"
  by (simp add: big_sigma0_def big_sigma1_def sha_ch_def sha_maj_def rotr32)

lemma rounds_two_blocks_0_32:
  "foldl sha_round
     (1434561287, 3947099117, 3748745632, 1958540392, 3751280773, 104192128, 1982450017, 1923854029)
     (zip [666307205, 773529912, 1294757372, 1396182291, 1695183700, 1986661051, 2177026350, 2456956037]
          [2822103402, 503268393, 3605092697, 3281505646, 1863844298, 559366661, 905935492, 2537811576]) =
     (2118987960, 2444008797, 2844112062, 743822246, 2673580909, 1759040912, 4146852691, 2959589807)"
  by (simp add: big_sigma0_def big_sigma1_def sha_ch_def sha_maj_def rotr32)

lemma rounds_two_blocks_0_40:
  "foldl sha_round
     (2118987960, 2444008797, 2844112062, 743822246, 2673580909, 1759040912, 4146852691, 2959589807)
     (zip [2730485921, 2820302411, 3259730800, 3345764771, 3516065817, 3600352804, 4094571909, 275423344]
          [3829498855, 218755085, 2626269012, 70081519, 1911633104, 261420131, 2118769763, 1868941719]) =
     (332932929, 375122381, 418435485, 3732005618, 2810194509, 2760110208, 1804093228, 4284597814)"
  by (simp add: big_sigma0_def big_sigma1_def sha_ch_def sha_maj_def rotr32)

lemma rounds_two_blocks_0_48:
  "foldl sha_round
     (332932929, 375122381, 418435485, 3732005618, 2810194509, 2760110208, 1804093228, 4284597814)
     (zip [430227734, 506948616, 659060556, 883997877, 958139571, 1322822218, 1537002063, 1747873779]
          [191915395, 395514570, 1345344745, 3121765433, 2123600585, 3586894366, 2027968605, 4142358812]) =
     (2656552096, 4178031379, 493742202, 3100988953, 4005639496, 1638143761, 876854996, 478177889)"
  by (simp add: big_sigma0_def big_sigma1_def sha_ch_def sha_maj_def rotr32)

lemma rounds_two_blocks_0_56:
  "foldl sha_round
     (2656552096, 4178031379, 493742202, 3100988953, 4005639496, 1638143761, 876854996, 478177889)
     (zip [1955562222, 2024104815, 2227730452, 2361852424, 2428436474, 2756734187, 3204031479, 3329325298]
          [2328375502, 2336727811, 4251869823, 2356030570, 1073851889, 440258711, 2849992546, 1789266489]) =
     (467431279, 2249353488, 4143203320, 3170691362, 634536714, 801148805, 2898745622, 2519565857)"
  by (simp add: big_sigma0_def big_sigma1_def sha_ch_def sha_maj_def rotr32)

lemma zip_two_blocks_0:
  "zip round_constants
     [1633837924, 1650680933, 1667523942, 1684366951, 1701209960, 1718052969, 1734895978, 1751738987,
     1768581996, 1785425005, 1802268014, 1819111023, 1835954032, 1852797041, 2147483648, 0,
     3951039149, 2814619282, 1994996642, 3124946755, 2460557828, 3628590942, 2652241974, 2994776011,
     3723171094, 4083517172, 2526859336, 3914979741, 1791803628, 4115443864, 720483034, 3998860489,
     2822103402, 503268393, 3605092697, 3281505646, 1863844298, 559366661, 905935492, 2537811576,
     3829498855, 218755085, 2626269012, 70081519, 1911633104, 261420131, 2118769763, 1868941719,
     191915395, 395514570, 1345344745, 3121765433, 2123600585, 3586894366, 2027968605, 4142358812,
     2328375502, 2336727811, 4251869823, 2356030570, 1073851889, 440258711, 2849992546, 1789266489] =
     (  zip [1116352408, 1899447441, 3049323471, 3921009573, 961987163, 1508970993, 2453635748, 2870763221]
            [1633837924, 1650680933, 1667523942, 1684366951, 1701209960, 1718052969, 1734895978, 1751738987] @
        zip [3624381080, 310598401, 607225278, 1426881987, 1925078388, 2162078206, 2614888103, 3248222580]
            [1768581996, 1785425005, 1802268014, 1819111023, 1835954032, 1852797041, 2147483648, 0] @
        zip [3835390401, 4022224774, 264347078, 604807628, 770255983, 1249150122, 1555081692, 1996064986]
            [3951039149, 2814619282, 1994996642, 3124946755, 2460557828, 3628590942, 2652241974, 2994776011] @
        zip [2554220882, 2821834349, 2952996808, 3210313671, 3336571891, 3584528711, 113926993, 338241895]
            [3723171094, 4083517172, 2526859336, 3914979741, 1791803628, 4115443864, 720483034, 3998860489] @
        zip [666307205, 773529912, 1294757372, 1396182291, 1695183700, 1986661051, 2177026350, 2456956037]
            [2822103402, 503268393, 3605092697, 3281505646, 1863844298, 559366661, 905935492, 2537811576] @
        zip [2730485921, 2820302411, 3259730800, 3345764771, 3516065817, 3600352804, 4094571909, 275423344]
            [3829498855, 218755085, 2626269012, 70081519, 1911633104, 261420131, 2118769763, 1868941719] @
        zip [430227734, 506948616, 659060556, 883997877, 958139571, 1322822218, 1537002063, 1747873779]
            [191915395, 395514570, 1345344745, 3121765433, 2123600585, 3586894366, 2027968605, 4142358812] @
        zip [1955562222, 2024104815, 2227730452, 2361852424, 2428436474, 2756734187, 3204031479, 3329325298]
            [2328375502, 2336727811, 4251869823, 2356030570, 1073851889, 440258711, 2849992546, 1789266489])"
  by (simp add: round_constants_def)

lemma rounds_two_blocks_0:
  "foldl sha_round
     (1779033703, 3144134277, 1013904242, 2773480762, 1359893119, 2600822924, 528734635, 1541459225)
     (zip round_constants
       [1633837924, 1650680933, 1667523942, 1684366951, 1701209960, 1718052969, 1734895978, 1751738987,
     1768581996, 1785425005, 1802268014, 1819111023, 1835954032, 1852797041, 2147483648, 0,
     3951039149, 2814619282, 1994996642, 3124946755, 2460557828, 3628590942, 2652241974, 2994776011,
     3723171094, 4083517172, 2526859336, 3914979741, 1791803628, 4115443864, 720483034, 3998860489,
     2822103402, 503268393, 3605092697, 3281505646, 1863844298, 559366661, 905935492, 2537811576,
     3829498855, 218755085, 2626269012, 70081519, 1911633104, 261420131, 2118769763, 1868941719,
     191915395, 395514570, 1345344745, 3121765433, 2123600585, 3586894366, 2027968605, 4142358812,
     2328375502, 2336727811, 4251869823, 2356030570, 1073851889, 440258711, 2849992546, 1789266489]) =
     (467431279, 2249353488, 4143203320, 3170691362, 634536714, 801148805, 2898745622, 2519565857)"
  unfolding zip_two_blocks_0 foldl_append
    rounds_two_blocks_0_0 rounds_two_blocks_0_8 rounds_two_blocks_0_16 rounds_two_blocks_0_24 rounds_two_blocks_0_32 rounds_two_blocks_0_40 rounds_two_blocks_0_48 rounds_two_blocks_0_56
  by (rule refl)

lemma compress_two_blocks_0:
  "compress
     (1779033703, 3144134277, 1013904242, 2773480762, 1359893119, 2600822924, 528734635, 1541459225)
     [97, 98, 99, 100, 98, 99, 100, 101, 99, 100, 101, 102, 100, 101, 102, 103, 101, 102, 103, 104,
     102, 103, 104, 105, 103, 104, 105, 106, 104, 105, 106, 107, 105, 106, 107, 108, 106, 107, 108,
     109, 107, 108, 109, 110, 108, 109, 110, 111, 109, 110, 111, 112, 110, 111, 112, 113, 128, 0, 0,
     0, 0, 0, 0, 0] =
     (2246464982, 1098520469, 862140266, 1649204828, 1994429833, 3401971729, 3427480257, 4061025082)"
  by (simp add: compress_def schedule_two_blocks_0 rounds_two_blocks_0)

lemma words_two_blocks_1:
  "words_of_bytes
     [0, 0, 0, 0, 0, 0, 0, 0, 0, 0, 0, 0, 0, 0, 0, 0, 0, 0, 0, 0, 0, 0, 0, 0, 0, 0, 0, 0, 0, 0, 0, 0,
     0, 0, 0, 0, 0, 0, 0, 0, 0, 0, 0, 0, 0, 0, 0, 0, 0, 0, 0, 0, 0, 0, 0, 0, 0, 0, 0, 0, 0, 0, 1,
     192] =
     [0, 0, 0, 0, 0, 0, 0, 0, 0, 0, 0, 0, 0, 0, 0, 448]"
  by (simp add: word_of_bytes_def)

lemma schedule_two_blocks_1:
  "schedule
     [0, 0, 0, 0, 0, 0, 0, 0, 0, 0, 0, 0, 0, 0, 0, 0, 0, 0, 0, 0, 0, 0, 0, 0, 0, 0, 0, 0, 0, 0, 0, 0,
     0, 0, 0, 0, 0, 0, 0, 0, 0, 0, 0, 0, 0, 0, 0, 0, 0, 0, 0, 0, 0, 0, 0, 0, 0, 0, 0, 0, 0, 0, 1,
     192] =
     [0, 0, 0, 0, 0, 0, 0, 0, 0, 0, 0, 0, 0, 0, 0, 448, 0, 14155776, 0, 13943, 0, 502620173, 448,
     469782556, 28311552, 571116948, 41829, 393222119, 1674805301, 151697171, 1282750922, 253339849,
     1576317124, 3797353322, 3380328177, 3316936525, 4163189838, 2774061449, 2020172421, 3976663423,
     275994870, 957015190, 1448087714, 3307044164, 2658453874, 1712633185, 821826205, 2596701352,
     728075709, 3801151379, 2666246732, 2534651358, 1090919095, 3760382523, 124913566, 2111974812,
     3367516024, 1973917769, 3644702171, 167996573, 3410979526, 2185205730, 3928959610, 3103886162]"
  unfolding schedule_def words_two_blocks_1
  by (simp add: extend_schedule_numeral small_sigma0_def small_sigma1_def rotr32)

lemma rounds_two_blocks_1_0:
  "foldl sha_round
     (2246464982, 1098520469, 862140266, 1649204828, 1994429833, 3401971729, 3427480257, 4061025082)
     (zip [1116352408, 1899447441, 3049323471, 3921009573, 961987163, 1508970993, 2453635748, 2870763221]
          [0, 0, 0, 0, 0, 0, 0, 0]) =
     (3214578592, 2310775793, 1055616006, 408575353, 94027217, 171237123, 4263562662, 2382311425)"
  by (simp add: big_sigma0_def big_sigma1_def sha_ch_def sha_maj_def rotr32)

lemma rounds_two_blocks_1_8:
  "foldl sha_round
     (3214578592, 2310775793, 1055616006, 408575353, 94027217, 171237123, 4263562662, 2382311425)
     (zip [3624381080, 310598401, 607225278, 1426881987, 1925078388, 2162078206, 2614888103, 3248222580]
          [0, 0, 0, 0, 0, 0, 0, 448]) =
     (380161145, 216685756, 3611328762, 904829293, 264970095, 1614112072, 1756006719, 1545921186)"
  by (simp add: big_sigma0_def big_sigma1_def sha_ch_def sha_maj_def rotr32)

lemma rounds_two_blocks_1_16:
  "foldl sha_round
     (380161145, 216685756, 3611328762, 904829293, 264970095, 1614112072, 1756006719, 1545921186)
     (zip [3835390401, 4022224774, 264347078, 604807628, 770255983, 1249150122, 1555081692, 1996064986]
          [0, 14155776, 0, 13943, 0, 502620173, 448, 469782556]) =
     (2753125265, 4047168859, 3561867290, 548067481, 3990607597, 2523570823, 1538057773, 3427232242)"
  by (simp add: big_sigma0_def big_sigma1_def sha_ch_def sha_maj_def rotr32)

lemma rounds_two_blocks_1_24:
  "foldl sha_round
     (2753125265, 4047168859, 3561867290, 548067481, 3990607597, 2523570823, 1538057773, 3427232242)
     (zip [2554220882, 2821834349, 2952996808, 3210313671, 3336571891, 3584528711, 113926993, 338241895]
          [28311552, 571116948, 41829, 393222119, 1674805301, 151697171, 1282750922, 253339849]) =
     (2968170949, 49232479, 486170288, 3646469417, 4141431122, 1570834021, 1816779679, 3271203249)"
  by (simp add: big_sigma0_def big_sigma1_def sha_ch_def sha_maj_def rotr32)

lemma rounds_two_blocks_1_32:
  "foldl sha_round
     (2968170949, 49232479, 486170288, 3646469417, 4141431122, 1570834021, 1816779679, 3271203249)
     (zip [666307205, 773529912, 1294757372, 1396182291, 1695183700, 1986661051, 2177026350, 2456956037]
          [1576317124, 3797353322, 3380328177, 3316936525, 4163189838, 2774061449, 2020172421, 3976663423]) =
     (572230234, 2915728022, 3645466667, 789694777, 193119723, 3335316735, 853118984, 4275359261)"
  by (simp add: big_sigma0_def big_sigma1_def sha_ch_def sha_maj_def rotr32)

lemma rounds_two_blocks_1_40:
  "foldl sha_round
     (572230234, 2915728022, 3645466667, 789694777, 193119723, 3335316735, 853118984, 4275359261)
     (zip [2730485921, 2820302411, 3259730800, 3345764771, 3516065817, 3600352804, 4094571909, 275423344]
          [275994870, 957015190, 1448087714, 3307044164, 2658453874, 1712633185, 821826205, 2596701352]) =
     (3610594651, 187892647, 273317300, 253054481, 2866109291, 3152135066, 1397287158, 1872041931)"
  by (simp add: big_sigma0_def big_sigma1_def sha_ch_def sha_maj_def rotr32)

lemma rounds_two_blocks_1_48:
  "foldl sha_round
     (3610594651, 187892647, 273317300, 253054481, 2866109291, 3152135066, 1397287158, 1872041931)
     (zip [430227734, 506948616, 659060556, 883997877, 958139571, 1322822218, 1537002063, 1747873779]
          [728075709, 3801151379, 2666246732, 2534651358, 1090919095, 3760382523, 124913566, 2111974812]) =
     (2459248400, 3656433941, 3959576074, 1321889696, 577242838, 1648447684, 1901191054, 2560544881)"
  by (simp add: big_sigma0_def big_sigma1_def sha_ch_def sha_maj_def rotr32)

lemma rounds_two_blocks_1_56:
  "foldl sha_round
     (2459248400, 3656433941, 3959576074, 1321889696, 577242838, 1648447684, 1901191054, 2560544881)
     (zip [1955562222, 2024104815, 2227730452, 2361852424, 2428436474, 2756734187, 3204031479, 3329325298]
          [3367516024, 1973917769, 3644702171, 167996573, 3410979526, 2185205730, 3928959610, 3103886162]) =
     (2661749899, 2425102627, 2992434985, 2851176925, 744246992, 2587437398, 715242259, 667726727)"
  by (simp add: big_sigma0_def big_sigma1_def sha_ch_def sha_maj_def rotr32)

lemma zip_two_blocks_1:
  "zip round_constants
     [0, 0, 0, 0, 0, 0, 0, 0, 0, 0, 0, 0, 0, 0, 0, 448, 0, 14155776, 0, 13943, 0, 502620173, 448,
     469782556, 28311552, 571116948, 41829, 393222119, 1674805301, 151697171, 1282750922, 253339849,
     1576317124, 3797353322, 3380328177, 3316936525, 4163189838, 2774061449, 2020172421, 3976663423,
     275994870, 957015190, 1448087714, 3307044164, 2658453874, 1712633185, 821826205, 2596701352,
     728075709, 3801151379, 2666246732, 2534651358, 1090919095, 3760382523, 124913566, 2111974812,
     3367516024, 1973917769, 3644702171, 167996573, 3410979526, 2185205730, 3928959610, 3103886162] =
     (  zip [1116352408, 1899447441, 3049323471, 3921009573, 961987163, 1508970993, 2453635748, 2870763221]
            [0, 0, 0, 0, 0, 0, 0, 0] @
        zip [3624381080, 310598401, 607225278, 1426881987, 1925078388, 2162078206, 2614888103, 3248222580]
            [0, 0, 0, 0, 0, 0, 0, 448] @
        zip [3835390401, 4022224774, 264347078, 604807628, 770255983, 1249150122, 1555081692, 1996064986]
            [0, 14155776, 0, 13943, 0, 502620173, 448, 469782556] @
        zip [2554220882, 2821834349, 2952996808, 3210313671, 3336571891, 3584528711, 113926993, 338241895]
            [28311552, 571116948, 41829, 393222119, 1674805301, 151697171, 1282750922, 253339849] @
        zip [666307205, 773529912, 1294757372, 1396182291, 1695183700, 1986661051, 2177026350, 2456956037]
            [1576317124, 3797353322, 3380328177, 3316936525, 4163189838, 2774061449, 2020172421, 3976663423] @
        zip [2730485921, 2820302411, 3259730800, 3345764771, 3516065817, 3600352804, 4094571909, 275423344]
            [275994870, 957015190, 1448087714, 3307044164, 2658453874, 1712633185, 821826205, 2596701352] @
        zip [430227734, 506948616, 659060556, 883997877, 958139571, 1322822218, 1537002063, 1747873779]
            [728075709, 3801151379, 2666246732, 2534651358, 1090919095, 3760382523, 124913566, 2111974812] @
        zip [1955562222, 2024104815, 2227730452, 2361852424, 2428436474, 2756734187, 3204031479, 3329325298]
            [3367516024, 1973917769, 3644702171, 167996573, 3410979526, 2185205730, 3928959610, 3103886162])"
  by (simp add: round_constants_def)

lemma rounds_two_blocks_1:
  "foldl sha_round
     (2246464982, 1098520469, 862140266, 1649204828, 1994429833, 3401971729, 3427480257, 4061025082)
     (zip round_constants
       [0, 0, 0, 0, 0, 0, 0, 0, 0, 0, 0, 0, 0, 0, 0, 448, 0, 14155776, 0, 13943, 0, 502620173, 448,
     469782556, 28311552, 571116948, 41829, 393222119, 1674805301, 151697171, 1282750922, 253339849,
     1576317124, 3797353322, 3380328177, 3316936525, 4163189838, 2774061449, 2020172421, 3976663423,
     275994870, 957015190, 1448087714, 3307044164, 2658453874, 1712633185, 821826205, 2596701352,
     728075709, 3801151379, 2666246732, 2534651358, 1090919095, 3760382523, 124913566, 2111974812,
     3367516024, 1973917769, 3644702171, 167996573, 3410979526, 2185205730, 3928959610, 3103886162]) =
     (2661749899, 2425102627, 2992434985, 2851176925, 744246992, 2587437398, 715242259, 667726727)"
  unfolding zip_two_blocks_1 foldl_append
    rounds_two_blocks_1_0 rounds_two_blocks_1_8 rounds_two_blocks_1_16 rounds_two_blocks_1_24 rounds_two_blocks_1_32 rounds_two_blocks_1_40 rounds_two_blocks_1_48 rounds_two_blocks_1_56
  by (rule refl)

lemma compress_two_blocks_1:
  "compress
     (2246464982, 1098520469, 862140266, 1649204828, 1994429833, 3401971729, 3427480257, 4061025082)
     [0, 0, 0, 0, 0, 0, 0, 0, 0, 0, 0, 0, 0, 0, 0, 0, 0, 0, 0, 0, 0, 0, 0, 0, 0, 0, 0, 0, 0, 0, 0, 0,
     0, 0, 0, 0, 0, 0, 0, 0, 0, 0, 0, 0, 0, 0, 0, 0, 0, 0, 0, 0, 0, 0, 0, 0, 0, 0, 0, 0, 0, 0, 1,
     192] =
     (613247585, 3523623096, 3854575251, 205414457, 2738676825, 1694441831, 4142722516, 433784513)"
  by (simp add: compress_def schedule_two_blocks_1 rounds_two_blocks_1)

lemma sha256_two_blocks:
  "sha256 [97, 98, 99, 100, 98, 99, 100, 101, 99, 100, 101, 102, 100, 101, 102, 103, 101, 102, 103, 104,
     102, 103, 104, 105, 103, 104, 105, 106, 104, 105, 106, 107, 105, 106, 107, 108, 106, 107, 108,
     109, 107, 108, 109, 110, 108, 109, 110, 111, 109, 110, 111, 112, 110, 111, 112, 113] =
     [36, 141, 106, 97, 210, 6, 56, 184, 229, 192, 38, 147, 12, 62, 96, 57, 163, 60, 228, 89, 100,
     255, 33, 103, 246, 236, 237, 212, 25, 219, 6, 193]"
  by (simp add: sha256_def pad_two_blocks blocks_two_blocks initial_state_def compress_two_blocks_0 compress_two_blocks_1
      bytes_of_word_def)

lemma length_digest_bytes: "length (digest_bytes st) = 32"
  by (induction st rule: digest_bytes.induct) (simp add: bytes_of_word_def)

lemma length_sha256: "length (sha256 m) = 32"
  by (simp add: sha256_def length_digest_bytes)

section \<open>Lengths of the outputs of encrypt\<close>

text \<open>
  Claim C5. For every plaintext, key and 8-byte salt: the cipher bytes are as many as the
  UTF-8 bytes of the plaintext, the encoded message (salt, then cipher bytes) has 8 more
  bytes, and the returned hex string has 2 + 2 * (8 + that number) characters.
\<close>

theorem encrypt_lengths:
  "length salt = 8 \<Longrightarrow>
   length (encrypt_cipher this salt plaintext) = length (Buffer_from_utf8 plaintext) \<and>
   length (encrypt_result this salt plaintext) = 8 + length (Buffer_from_utf8 plaintext) \<and>
   length (encrypt this salt plaintext) = 2 + 2 * (8 + length (Buffer_from_utf8 plaintext))"
  by (simp add: encrypt_def encrypt_result_def encrypt_cipher_def Let_def encrypt_loop_length
      length_toString_hex js_0x)

theorem encrypt_lengths_witness:
  "length [1, 2, 3, 4, 5, 6, 7, 8 :: 8 word] = 8 \<and>
   length (encrypt_cipher \<lparr>key = replicate 32 7\<rparr> [1, 2, 3, 4, 5, 6, 7, 8] (js ''Hi'')) = 2 \<and>
   length (encrypt_result \<lparr>key = replicate 32 7\<rparr> [1, 2, 3, 4, 5, 6, 7, 8] (js ''Hi'')) = 10 \<and>
   length (encrypt \<lparr>key = replicate 32 7\<rparr> [1, 2, 3, 4, 5, 6, 7, 8] (js ''Hi'')) = 22"
  using encrypt_lengths [of "[1, 2, 3, 4, 5, 6, 7, 8]" "\<lparr>key = replicate 32 7\<rparr>" "js ''Hi''"]
  by (simp add: js_def utf8_of_code_point_def is_surrogate_def is_high_surrogate_def
      is_low_surrogate_def)

section \<open>The chain tag\<close>

text \<open>
  Claim C7. For every string X that begins with 0x (every encoded hex string does),
  unwrapping the tagged form of X gives X back; and every string that does not begin with
  the literal 0xENC1 passes through the unwrapping unchanged.
\<close>

theorem chain_tag_round_trip:
  "(startsWith X (js ''0x'') \<longrightarrow> fromChainTag (toChainTag X) = X) \<and>
   (\<not> startsWith c (js ''0xENC1'') \<longrightarrow> fromChainTag c = c)"
  by (auto simp: startsWith_iff fromChainTag_def toChainTag_def slice_def js_0x js_0xENC1)

theorem chain_tag_round_trip_witness:
  "startsWith (js ''0x00ff'') (js ''0x'') \<and>
   fromChainTag (toChainTag (js ''0x00ff'')) = js ''0x00ff'' \<and>
   \<not> startsWith (js ''0x00ff'') (js ''0xENC1'') \<and>
   fromChainTag (js ''0x00ff'') = js ''0x00ff''"
proof -
  have a: "startsWith (js ''0x00ff'') (js ''0x'')"
    by (simp add: startsWith_def js_def)
  have b: "\<not> startsWith (js ''0x00ff'') (js ''0xENC1'')"
    by (simp add: startsWith_def js_def)
  from a b chain_tag_round_trip [of "js ''0x00ff''" "js ''0x00ff''"] show ?thesis by simp
qed

section \<open>Decrypting what encrypt returned\<close>

lemma encrypt_cipher_map:
  "encrypt_cipher this salt P =
     map (encrypt_byte (key this) salt (Buffer_from_utf8 P)) [0 ..< length (Buffer_from_utf8 P)]"
  by (simp add: encrypt_cipher_def Let_def encrypt_loop_from_0)

lemma length_encrypt_cipher:
  "length (encrypt_cipher this salt P) = length (Buffer_from_utf8 P)"
  by (simp add: encrypt_cipher_map)

lemma decode_hex_of:
  "decode (js ''0x'' @ toString_hex bs) = Inr (take 8 bs, drop 8 bs)"
  by (simp add: decode_def Let_def strip_0x Buffer_from_hex_toString_hex)

lemma decode_encrypt:
  "length salt = 8 \<Longrightarrow> decode (encrypt this salt P) = Inr (salt, encrypt_cipher this salt P)"
  by (simp add: encrypt_def encrypt_result_def decode_hex_of)

lemma decrypt_encrypt:
  assumes "length salt = 8"
  shows "decrypt this (encrypt this salt P) = Inr (Buffer_toString_utf8 (Buffer_from_utf8 P))"
proof -
  have "decrypt_loop (key this) salt (encrypt_cipher this salt P) 0
          (replicate (length (encrypt_cipher this salt P)) 0) = Buffer_from_utf8 P"
    using cipher_round_trip [of "key this" salt "Buffer_from_utf8 P"]
    by (simp add: encrypt_cipher_def Let_def encrypt_loop_length)
  then show ?thesis
    by (simp add: decrypt_def decrypt_bytes_def decode_encrypt [OF assms] Let_def)
qed

lemma fromChainTag_encrypt:
  "fromChainTag (toChainTag (encrypt this salt P)) = encrypt this salt P"
  by (simp add: fromChainTag_def toChainTag_def encrypt_def startsWith_def slice_def js_0x js_0xENC1)

lemma decryptFromChain_encryptForChain:
  assumes "length salt = 8"
  shows "decryptFromChain this (chainData (encryptForChain this salt now P))
           = Inr (Buffer_toString_utf8 (Buffer_from_utf8 P))"
  by (simp add: decryptFromChain_def encryptForChain_def Let_def fromChainTag_encrypt
      decrypt_encrypt [OF assms])

lemma utf8_lone_low: "Buffer_toString_utf8 (Buffer_from_utf8 [0xDC00]) = [0xFFFD]"
  by (simp add: Buffer_toString_utf8_def utf8_of_code_point_def utf16_of_code_point_def
      is_surrogate_def is_high_surrogate_def is_low_surrogate_def in_range_def low6_def)

lemma well_formed_sample: "well_formed [0x48, 0x4E2D, 0xD83D, 0xDE00]"
  by (simp add: is_surrogate_def is_high_surrogate_def is_low_surrogate_def)

text \<open>
  Claim C1. The plaintext is text: a well-formed string, with no surrogate code unit
  outside a pair (the empty string and text with multi-byte characters are well formed).
  For every secret, every 8-byte salt and every plaintext, decrypting the chain-tagged
  output of encryption with the same object returns the plaintext, and so does
  decrypting the bare encoded form.
\<close>

theorem encrypt_decrypt_round_trip:
  assumes "length salt = 8" "well_formed P"
  shows "decryptFromChain (HexCrypto_constructor S)
           (chainData (encryptForChain (HexCrypto_constructor S) salt now P)) = Inr P \<and>
         decrypt (HexCrypto_constructor S) (encrypt (HexCrypto_constructor S) salt P) = Inr P"
  using assms by (simp add: decryptFromChain_encryptForChain decrypt_encrypt utf8_round_trip)

theorem encrypt_decrypt_round_trip_witness:
  "length [1, 2, 3, 4, 5, 6, 7, 8 :: 8 word] = 8 \<and>
   well_formed [0x48, 0x4E2D, 0xD83D, 0xDE00] \<and>
   decryptFromChain (HexCrypto_constructor (SecretString (js ''test'')))
     (chainData (encryptForChain (HexCrypto_constructor (SecretString (js ''test'')))
        [1, 2, 3, 4, 5, 6, 7, 8] 0 [0x48, 0x4E2D, 0xD83D, 0xDE00]))
     = Inr [0x48, 0x4E2D, 0xD83D, 0xDE00] \<and>
   decrypt (HexCrypto_constructor (SecretString (js ''test'')))
     (encrypt (HexCrypto_constructor (SecretString (js ''test''))) [1, 2, 3, 4, 5, 6, 7, 8]
        [0x48, 0x4E2D, 0xD83D, 0xDE00])
     = Inr [0x48, 0x4E2D, 0xD83D, 0xDE00]"
proof -
  have l: "length [1, 2, 3, 4, 5, 6, 7, 8 :: 8 word] = 8" by simp
  from l well_formed_sample encrypt_decrypt_round_trip [OF l well_formed_sample]
  show ?thesis by blast
qed

section \<open>The plain hex helpers\<close>

lemma hexToString_stringToHex:
  "hexToString (stringToHex s) = Inr (Buffer_toString_utf8 (Buffer_from_utf8 s))"
  by (simp add: hexToString_def stringToHex_def Let_def strip_0x Buffer_from_hex_toString_hex)

lemma hex_digit_lowercase: "n < 16 \<Longrightarrow> hex_digit n \<in> set (js ''0123456789abcdef'')"
proof -
  have "\<forall>m \<in> set [0 ..< 16]. hex_digit m \<in> set (js ''0123456789abcdef'')"
    by (simp add: upt_rec hex_digit_def js_def)
  moreover assume "n < 16"
  ultimately show ?thesis by simp
qed

lemma toString_hex_lowercase: "set (toString_hex b) \<subseteq> set (js ''0123456789abcdef'')"
  by (induction b)
    (simp_all add: toString_hex_def hex_of_byte_def hex_digit_lowercase unat_byte_div16)

text \<open>
  Claim C9, as amended. For every well-formed string \<open>s\<close>, \<open>hexToString\<close> of
  \<open>stringToHex s\<close> is \<open>s\<close>, where \<open>stringToHex s\<close> is 0x followed by the
  hexadecimal rendering, in the digits 0-9 and a-f, of the UTF-8 bytes of \<open>s\<close>.
\<close>

theorem plain_hex_round_trip:
  assumes "well_formed s"
  shows "hexToString (stringToHex s) = Inr s \<and>
         stringToHex s = js ''0x'' @ toString_hex (Buffer_from_utf8 s) \<and>
         set (toString_hex (Buffer_from_utf8 s)) \<subseteq> set (js ''0123456789abcdef'')"
proof (intro conjI)
  show "hexToString (stringToHex s) = Inr s"
    using assms by (simp add: hexToString_stringToHex utf8_round_trip)
  show "stringToHex s = js ''0x'' @ toString_hex (Buffer_from_utf8 s)"
    by (simp add: stringToHex_def)
  show "set (toString_hex (Buffer_from_utf8 s)) \<subseteq> set (js ''0123456789abcdef'')"
    by (rule toString_hex_lowercase)
qed

theorem plain_hex_round_trip_witness:
  "well_formed (js ''Hello World'') \<and>
   hexToString (stringToHex (js ''Hello World'')) = Inr (js ''Hello World'') \<and>
   stringToHex (js ''Hello World'') = js ''0x48656c6c6f20576f726c64''"
proof -
  have w: "well_formed (js ''Hello World'')"
    by (simp add: js_def is_surrogate_def is_high_surrogate_def is_low_surrogate_def)
  have h: "toString_hex (Buffer_from_utf8 (js ''Hello World'')) = js ''48656c6c6f20576f726c64''"
    by (simp add: js_def is_surrogate_def is_high_surrogate_def is_low_surrogate_def
        utf8_of_code_point_def toString_hex_def hex_of_byte_def hex_digit_def)
  have c: "js ''0x'' @ js ''48656c6c6f20576f726c64'' = js ''0x48656c6c6f20576f726c64''"
    by (simp add: js_def)
  from plain_hex_round_trip [OF w]
  have "hexToString (stringToHex (js ''Hello World'')) = Inr (js ''Hello World'')"
    and "stringToHex (js ''Hello World'')
           = js ''0x'' @ toString_hex (Buffer_from_utf8 (js ''Hello World''))"
    by blast+
  with w h c show ?thesis by simp
qed

text \<open>For a string with a lone surrogate the helpers do not give the string back.\<close>

theorem plain_hex_lone_surrogate:
  "hexToString (stringToHex [0xDC00]) = Inr [0xFFFD] \<and>
   hexToString (stringToHex [0xDC00]) \<noteq> Inr [0xDC00]"
  unfolding hexToString_stringToHex utf8_lone_low by simp

section \<open>The cipher byte at each position\<close>

lemma key_test:
  "key (HexCrypto_constructor (SecretString (js ''test''))) =
     [159, 134, 208, 129, 136, 76, 125, 101, 154, 47, 234, 160, 197, 90, 208, 21, 163, 191, 79, 27,
      43, 11, 130, 44, 209, 93, 108, 21, 176, 240, 10, 8]"
  by (simp only: HexCrypto_constructor_def secret_bytes_def secret.case utf8_test sha256_test
      HexCrypto.select_convs)

lemma utf8_Hi: "Buffer_from_utf8 (js ''Hi'') = [0x48, 0x69]"
  by (simp add: js_def utf8_of_code_point_def is_surrogate_def is_high_surrogate_def
      is_low_surrogate_def)

lemma rotl8:
  fixes x :: "8 word"
  assumes "s \<le> 7"
  shows "word_rotl s x = push_bit s x OR drop_bit (8 - s) x"
proof (rule bit_word_eqI)
  fix n
  assume "n < LENGTH(8)"
  with assms show "bit (word_rotl s x) n = bit (push_bit s x OR drop_bit (8 - s) x) n"
    by (auto simp: bit_simps rotl_index dest: bit_imp_le_length)
qed

lemma cipher_Hi:
  "encrypt_cipher (HexCrypto_constructor (SecretString (js ''test''))) [0, 0, 0, 0, 0, 0, 0, 0]
     (js ''Hi'') = [0xAF, 0xBF]"
  unfolding encrypt_cipher_map utf8_Hi key_test
  by (simp add: upt_rec encrypt_byte_rotl byte_at_def rotl8)

text \<open>
  Claim C2. With a 32-byte key and an 8-byte salt, the cipher byte at each position
  \<open>i\<close> of the plaintext bytes is the plaintext byte XOR \<open>key[i mod 32]\<close>, XOR
  \<open>salt[i mod 8]\<close>, rotated left within 8 bits by \<open>(i mod 7) + 1\<close>. With the key
  derived from the secret \<open>test\<close>, the plaintext \<open>Hi\<close> and the all-zero salt, the
  cipher bytes are AF BF: 48 XOR 9F = D7 rotated by 1, and 69 XOR 86 = EF rotated by 2.
\<close>

theorem cipher_byte_formula:
  "(length (key this) = 32 \<and> length salt = 8 \<and> i < length (Buffer_from_utf8 plaintext) \<longrightarrow>
      encrypt_cipher this salt plaintext ! i =
        word_rotl (i mod 7 + 1)
          ((Buffer_from_utf8 plaintext ! i XOR key this ! (i mod 32)) XOR salt ! (i mod 8))) \<and>
   encrypt_cipher (HexCrypto_constructor (SecretString (js ''test''))) [0, 0, 0, 0, 0, 0, 0, 0]
     (js ''Hi'') = [0xAF, 0xBF]"
proof (intro conjI impI)
  assume "length (key this) = 32 \<and> length salt = 8 \<and> i < length (Buffer_from_utf8 plaintext)"
  then show "encrypt_cipher this salt plaintext ! i =
      word_rotl (i mod 7 + 1)
        ((Buffer_from_utf8 plaintext ! i XOR key this ! (i mod 32)) XOR salt ! (i mod 8))"
    by (simp add: encrypt_cipher_map encrypt_byte_rotl byte_at_def)
qed (rule cipher_Hi)

theorem cipher_byte_formula_witness:
  "length (key (HexCrypto_constructor (SecretString (js ''test'')))) = 32 \<and>
   length [1, 2, 3, 4, 5, 6, 7, 8 :: 8 word] = 8 \<and>
   1 < length (Buffer_from_utf8 (js ''Hi'')) \<and>
   encrypt_cipher (HexCrypto_constructor (SecretString (js ''test''))) [1, 2, 3, 4, 5, 6, 7, 8]
     (js ''Hi'') ! 1 = word_rotl 2 ((0x69 XOR 0x86) XOR 2)"
proof -
  let ?k = "HexCrypto_constructor (SecretString (js ''test''))"
  have a: "length (key ?k) = 32" by (simp add: key_test)
  have b: "length [1, 2, 3, 4, 5, 6, 7, 8 :: 8 word] = 8" by simp
  have c: "1 < length (Buffer_from_utf8 (js ''Hi''))" by (simp add: utf8_Hi)
  from a b c cipher_byte_formula [of ?k "[1, 2, 3, 4, 5, 6, 7, 8]" 1 "js ''Hi''"]
  have "encrypt_cipher ?k [1, 2, 3, 4, 5, 6, 7, 8] (js ''Hi'') ! 1 =
          word_rotl (1 mod 7 + 1)
            ((Buffer_from_utf8 (js ''Hi'') ! 1 XOR key ?k ! (1 mod 32))
               XOR [1, 2, 3, 4, 5, 6, 7, 8] ! (1 mod 8))"
    by blast
  also have "\<dots> = word_rotl 2 ((0x69 XOR 0x86) XOR 2)"
    unfolding key_test utf8_Hi by (simp add: numeral_2_eq_2)
  finally show ?thesis using a b c by blast
qed

section \<open>Key derivation\<close>

lemma utf8_default:
  "Buffer_from_utf8 (js ''my_default_secret_key'') =
     [109, 121, 95, 100, 101, 102, 97, 117, 108, 116, 95, 115, 101, 99, 114, 101, 116, 95, 107,
     101, 121]"
  by (simp add: js_def utf8_of_code_point_def is_surrogate_def is_high_surrogate_def
      is_low_surrogate_def)

lemma utf8_cjk: "Buffer_from_utf8 [0x5BC6, 0x94A5] = [229, 175, 134, 233, 146, 165]"
  by (simp add: utf8_of_code_point_def is_surrogate_def is_high_surrogate_def
      is_low_surrogate_def)

lemma key_of_secret: "key (HexCrypto_constructor S) = sha256 (secret_bytes S)"
  by (simp add: HexCrypto_constructor_def)

text \<open>
  Claim C6. For every secret, the key of the constructed object has 32 bytes and is the
  SHA-256 digest of the bytes of the secret (of the UTF-8 bytes, when the secret is a
  string); it depends on nothing but these bytes, so two derivations from the same secret
  give the same key. The empty secret is permitted and gives the digest of the empty
  message; the keys of four more secrets, of one and of two blocks, are the digests that
  the standard gives for their bytes.
\<close>

theorem key_derivation:
  "length (key (HexCrypto_constructor S)) = 32 \<and>
   key (HexCrypto_constructor S) = sha256 (secret_bytes S) \<and>
   (secret_bytes S = secret_bytes S' \<longrightarrow>
      key (HexCrypto_constructor S) = key (HexCrypto_constructor S')) \<and>
   key (HexCrypto_constructor (SecretBuffer [])) =
     [227, 176, 196, 66, 152, 252, 28, 20, 154, 251, 244, 200, 153, 111, 185, 36, 39, 174, 65,
     228, 100, 155, 147, 76, 164, 149, 153, 27, 120, 82, 184, 85] \<and>
   key (HexCrypto_constructor (SecretString s)) =
     key (HexCrypto_constructor (SecretBuffer (Buffer_from_utf8 s))) \<and>
   key (HexCrypto_constructor (SecretString (js ''test''))) =
     [159, 134, 208, 129, 136, 76, 125, 101, 154, 47, 234, 160, 197, 90, 208, 21, 163, 191, 79,
     27, 43, 11, 130, 44, 209, 93, 108, 21, 176, 240, 10, 8] \<and>
   key (HexCrypto_constructor (SecretString (js ''my_default_secret_key''))) =
     [146, 97, 24, 68, 134, 133, 0, 148, 28, 231, 13, 131, 20, 196, 209, 144, 207, 23, 168, 91,
     68, 159, 22, 130, 132, 15, 176, 48, 6, 176, 157, 166] \<and>
   key (HexCrypto_constructor (SecretString [0x5BC6, 0x94A5])) =
     [246, 123, 202, 143, 66, 188, 240, 115, 115, 169, 237, 30, 179, 220, 212, 93, 82, 122, 24,
     227, 194, 209, 128, 61, 43, 118, 215, 66, 52, 203, 20, 3] \<and>
   key (HexCrypto_constructor (SecretBuffer
     [97, 98, 99, 100, 98, 99, 100, 101, 99, 100, 101, 102, 100, 101, 102, 103, 101, 102, 103,
     104, 102, 103, 104, 105, 103, 104, 105, 106, 104, 105, 106, 107, 105, 106, 107, 108, 106,
     107, 108, 109, 107, 108, 109, 110, 108, 109, 110, 111, 109, 110, 111, 112, 110, 111, 112,
     113])) =
     [36, 141, 106, 97, 210, 6, 56, 184, 229, 192, 38, 147, 12, 62, 96, 57, 163, 60, 228, 89,
     100, 255, 33, 103, 246, 236, 237, 212, 25, 219, 6, 193]"
proof (intro conjI impI)
  show "length (key (HexCrypto_constructor S)) = 32"
    by (simp add: key_of_secret length_sha256)
  show "key (HexCrypto_constructor S) = sha256 (secret_bytes S)"
    by (rule key_of_secret)
  show "key (HexCrypto_constructor (SecretBuffer [])) =
     [227, 176, 196, 66, 152, 252, 28, 20, 154, 251, 244, 200, 153, 111, 185, 36, 39, 174, 65,
     228, 100, 155, 147, 76, 164, 149, 153, 27, 120, 82, 184, 85]"
    unfolding key_of_secret secret_bytes_def secret.case by (rule sha256_empty)
  show "key (HexCrypto_constructor (SecretString s)) =
     key (HexCrypto_constructor (SecretBuffer (Buffer_from_utf8 s)))"
    by (simp add: key_of_secret secret_bytes_def)
  show "key (HexCrypto_constructor (SecretString (js ''test''))) =
     [159, 134, 208, 129, 136, 76, 125, 101, 154, 47, 234, 160, 197, 90, 208, 21, 163, 191, 79,
     27, 43, 11, 130, 44, 209, 93, 108, 21, 176, 240, 10, 8]"
    by (rule key_test)
  show "key (HexCrypto_constructor (SecretString (js ''my_default_secret_key''))) =
     [146, 97, 24, 68, 134, 133, 0, 148, 28, 231, 13, 131, 20, 196, 209, 144, 207, 23, 168, 91,
     68, 159, 22, 130, 132, 15, 176, 48, 6, 176, 157, 166]"
    unfolding key_of_secret secret_bytes_def secret.case utf8_default by (rule sha256_default)
  show "key (HexCrypto_constructor (SecretString [0x5BC6, 0x94A5])) =
     [246, 123, 202, 143, 66, 188, 240, 115, 115, 169, 237, 30, 179, 220, 212, 93, 82, 122, 24,
     227, 194, 209, 128, 61, 43, 118, 215, 66, 52, 203, 20, 3]"
    unfolding key_of_secret secret_bytes_def secret.case utf8_cjk by (rule sha256_cjk)
  show "key (HexCrypto_constructor (SecretBuffer
     [97, 98, 99, 100, 98, 99, 100, 101, 99, 100, 101, 102, 100, 101, 102, 103, 101, 102, 103,
     104, 102, 103, 104, 105, 103, 104, 105, 106, 104, 105, 106, 107, 105, 106, 107, 108, 106,
     107, 108, 109, 107, 108, 109, 110, 108, 109, 110, 111, 109, 110, 111, 112, 110, 111, 112,
     113])) =
     [36, 141, 106, 97, 210, 6, 56, 184, 229, 192, 38, 147, 12, 62, 96, 57, 163, 60, 228, 89,
     100, 255, 33, 103, 246, 236, 237, 212, 25, 219, 6, 193]"
    unfolding key_of_secret secret_bytes_def secret.case by (rule sha256_two_blocks)
next
  assume "secret_bytes S = secret_bytes S'"
  then show "key (HexCrypto_constructor S) = key (HexCrypto_constructor S')"
    by (simp add: key_of_secret)
qed

theorem key_derivation_witness:
  "secret_bytes (SecretString (js ''test'')) = secret_bytes (SecretBuffer [116, 101, 115, 116]) \<and>
   key (HexCrypto_constructor (SecretString (js ''test'')))
     = key (HexCrypto_constructor (SecretBuffer [116, 101, 115, 116])) \<and>
   length (key (HexCrypto_constructor (SecretString (js ''test'')))) = 32"
proof -
  have e: "secret_bytes (SecretString (js ''test'')) = secret_bytes (SecretBuffer [116, 101, 115, 116])"
    by (simp add: secret_bytes_def utf8_test)
  with key_derivation [of "SecretString (js ''test'')" "SecretBuffer [116, 101, 115, 116]"]
  show ?thesis by blast
qed

section \<open>Two salts for one plaintext\<close>

lemma toString_hex_inject: "toString_hex a = toString_hex b \<Longrightarrow> a = b"
  by (metis Buffer_from_hex_toString_hex)

lemma encrypt_inject_salt:
  assumes "length s1 = 8" "length s2 = 8" "encrypt this s1 P = encrypt this s2 P"
  shows "s1 = s2"
proof -
  from assms(3) have "encrypt_result this s1 P = encrypt_result this s2 P"
    by (simp add: encrypt_def toString_hex_inject)
  then have "take 8 (s1 @ encrypt_cipher this s1 P) = take 8 (s2 @ encrypt_cipher this s2 P)"
    by (simp only: encrypt_result_def)
  with assms(1,2) show ?thesis by simp
qed

lemma toChainTag_encrypt_inject:
  "toChainTag (encrypt this s1 P) = toChainTag (encrypt this s2 Q) \<Longrightarrow>
   encrypt this s1 P = encrypt this s2 Q"
  by (simp add: toChainTag_def encrypt_def slice_def js_0x)

lemma well_formed_same: "well_formed (js ''Same message'')"
  by (simp add: js_def is_surrogate_def is_high_surrogate_def is_low_surrogate_def)

text \<open>
  Claim C8. Two encryption runs of the same plaintext under the same secret that draw
  distinct 8-byte salts return different strings (bare and chain-tagged), and each of
  the two outputs decrypts back to the plaintext, which is text (a well-formed string).
\<close>

theorem distinct_salts:
  assumes "length s1 = 8" "length s2 = 8" "s1 \<noteq> s2"
  shows "encrypt (HexCrypto_constructor S) s1 P \<noteq> encrypt (HexCrypto_constructor S) s2 P \<and>
         chainData (encryptForChain (HexCrypto_constructor S) s1 t1 P)
           \<noteq> chainData (encryptForChain (HexCrypto_constructor S) s2 t2 P) \<and>
         (well_formed P \<longrightarrow>
            decrypt (HexCrypto_constructor S) (encrypt (HexCrypto_constructor S) s1 P) = Inr P \<and>
            decrypt (HexCrypto_constructor S) (encrypt (HexCrypto_constructor S) s2 P) = Inr P \<and>
            decryptFromChain (HexCrypto_constructor S)
              (chainData (encryptForChain (HexCrypto_constructor S) s1 t1 P)) = Inr P \<and>
            decryptFromChain (HexCrypto_constructor S)
              (chainData (encryptForChain (HexCrypto_constructor S) s2 t2 P)) = Inr P)"
proof (intro conjI impI)
  let ?k = "HexCrypto_constructor S"
  show ne: "encrypt ?k s1 P \<noteq> encrypt ?k s2 P"
    using assms encrypt_inject_salt [of s1 s2 ?k P] by blast
  show "chainData (encryptForChain ?k s1 t1 P) \<noteq> chainData (encryptForChain ?k s2 t2 P)"
    using ne toChainTag_encrypt_inject [of ?k s1 P s2 P]
    by (auto simp: encryptForChain_def Let_def)
next
  let ?k = "HexCrypto_constructor S"
  assume w: "well_formed P"
  show "decrypt ?k (encrypt ?k s1 P) = Inr P"
    using w assms(1) by (simp add: decrypt_encrypt utf8_round_trip)
  show "decrypt ?k (encrypt ?k s2 P) = Inr P"
    using w assms(2) by (simp add: decrypt_encrypt utf8_round_trip)
  show "decryptFromChain ?k (chainData (encryptForChain ?k s1 t1 P)) = Inr P"
    using w assms(1) by (simp add: decryptFromChain_encryptForChain utf8_round_trip)
  show "decryptFromChain ?k (chainData (encryptForChain ?k s2 t2 P)) = Inr P"
    using w assms(2) by (simp add: decryptFromChain_encryptForChain utf8_round_trip)
qed

theorem distinct_salts_witness:
  "length [0, 0, 0, 0, 0, 0, 0, 0 :: 8 word] = 8 \<and> length [1, 2, 3, 4, 5, 6, 7, 8 :: 8 word] = 8 \<and>
   [0, 0, 0, 0, 0, 0, 0, 0] \<noteq> [1, 2, 3, 4, 5, 6, 7, 8 :: 8 word] \<and>
   well_formed (js ''Same message'') \<and>
   encrypt (HexCrypto_constructor (SecretString (js ''test''))) [0, 0, 0, 0, 0, 0, 0, 0]
      (js ''Same message'')
     \<noteq> encrypt (HexCrypto_constructor (SecretString (js ''test''))) [1, 2, 3, 4, 5, 6, 7, 8]
      (js ''Same message'') \<and>
   decrypt (HexCrypto_constructor (SecretString (js ''test'')))
     (encrypt (HexCrypto_constructor (SecretString (js ''test''))) [0, 0, 0, 0, 0, 0, 0, 0]
        (js ''Same message'')) = Inr (js ''Same message'') \<and>
   decrypt (HexCrypto_constructor (SecretString (js ''test'')))
     (encrypt (HexCrypto_constructor (SecretString (js ''test''))) [1, 2, 3, 4, 5, 6, 7, 8]
        (js ''Same message'')) = Inr (js ''Same message'')"
proof -
  have a: "length [0, 0, 0, 0, 0, 0, 0, 0 :: 8 word] = 8" by simp
  have b: "length [1, 2, 3, 4, 5, 6, 7, 8 :: 8 word] = 8" by simp
  have c: "[0, 0, 0, 0, 0, 0, 0, 0] \<noteq> [1, 2, 3, 4, 5, 6, 7, 8 :: 8 word]" by simp
  from a b c well_formed_same
    distinct_salts [OF a b c, of "SecretString (js ''test'')" "js ''Same message''" 0 0]
  show ?thesis by blast
qed

section \<open>Malformed input to the decode step\<close>

lemma Buffer_from_hex_odd:
  "even (length h) \<Longrightarrow> Buffer_from_hex (h @ [c]) = Buffer_from_hex h"
  by (induction h rule: Buffer_from_hex.induct) (auto split: option.splits)

lemma Buffer_from_hex_bad_pair:
  "even (length h) \<Longrightarrow> unhex c = None \<or> unhex d = None \<Longrightarrow>
   Buffer_from_hex (h @ c # d # r) = Buffer_from_hex h"
  by (induction h rule: Buffer_from_hex.induct) (auto split: option.splits)

lemma decode_0x:
  "decode (js ''0x'' @ h) = Inr (take 8 (Buffer_from_hex h), drop 8 (Buffer_from_hex h))"
  by (simp add: decode_def Let_def strip_0x)

lemma decode_Inr:
  "\<exists>salt encrypted. decode hexString = Inr (salt, encrypted) \<and> length salt \<le> 8 \<and>
     (encrypted \<noteq> [] \<longrightarrow> length salt = 8)"
  by (auto simp: decode_def Let_def)

lemma decrypt_bytes_Inr: "\<exists>b. decrypt_bytes this hexString = Inr b"
  using decode_Inr [of hexString] by (auto simp: decrypt_bytes_def Let_def)

lemma decrypt_of_bytes:
  "decrypt_bytes this hexString = Inr b \<Longrightarrow> decrypt this hexString = Inr (Buffer_toString_utf8 b)"
  by (simp add: decrypt_def)

lemma decrypt_loop_empty: "decrypt_loop k salt [] 0 [] = []"
  by (subst decrypt_loop.simps) simp

lemma decrypt_0x:
  "decrypt this (js ''0x'' @ h) =
     Inr (Buffer_toString_utf8
           (decrypt_loop (key this) (take 8 (Buffer_from_hex h)) (drop 8 (Buffer_from_hex h)) 0
              (replicate (length (Buffer_from_hex h) - 8) 0)))"
  by (simp add: decrypt_def decrypt_bytes_def decode_0x Let_def)

lemma decode_examples:
  "decode (js ''0x1234'') = Inr ([0x12, 0x34], [])"
  "decode (js ''0xzz'') = Inr ([], [])"
  by (simp_all add: decode_def Let_def startsWith_def slice_def js_def unhex_def)

lemma rotr8:
  fixes x :: "8 word"
  assumes "s \<le> 7"
  shows "word_rotr s x = drop_bit s x OR push_bit (8 - s) x"
proof (rule bit_word_eqI)
  fix n
  assume "n < LENGTH(8)"
  with assms show "bit (word_rotr s x) n = bit (drop_bit s x OR push_bit (8 - s) x) n"
    by (auto simp: bit_simps rotr_index add.commute dest: bit_imp_le_length)
qed

lemma hex_digit_not_x: "n < 16 \<Longrightarrow> hex_digit n \<noteq> 120"
proof
  assume "n < 16" "hex_digit n = 120"
  then have "unat (hex_digit n) = 120" by simp
  with \<open>n < 16\<close> show False by (simp add: unat_hex_digit split: if_splits)
qed

lemma toString_hex_no_prefix: "\<not> startsWith (toString_hex b) (js ''0x'')"
proof (cases b)
  case Nil
  then show ?thesis by (simp add: startsWith_def toString_hex_def js_0x)
next
  case (Cons x xs)
  have "unat x mod 16 < 16" by simp
  from hex_digit_not_x [OF this] Cons show ?thesis
    by (simp add: startsWith_def toString_hex_def hex_of_byte_def js_0x)
qed

lemma decode_no_prefix: "\<not> startsWith s (js ''0x'') \<Longrightarrow> decode s = decode (js ''0x'' @ s)"
  by (simp add: decode_def Let_def strip_0x)

lemma decode_toString_hex: "decode (toString_hex b) = Inr (take 8 b, drop 8 b)"
  using decode_no_prefix [OF toString_hex_no_prefix, of b] by (simp add: decode_hex_of)

lemma decode_low_byte:
  "decode (js ''0xab'' @ [0x134, 0x131] @ js ''cd'') = Inr ([0xAB, 0x41, 0xCD], [])"
  "decode (js ''0xAB'') = Inr ([0xAB], [])"
  by (simp_all add: decode_def Let_def startsWith_def slice_def js_def unhex_def)

text \<open>
  Claim C3, as amended. The decode step never fails. For every input it returns a salt
  of at most 8 bytes and the cipher bytes, which are empty unless the salt has all its 8
  bytes: the hex digits of a buffer, with the prefix 0x or without it, give the first 8
  bytes of the buffer as salt and the bytes after them as cipher. A string without the
  prefix is decoded as the same string with it. A single character at the end of the
  digits is dropped, decoding stops in front of the first pair that has a character
  which is no hexadecimal digit (every character being read by the low 8 bits of its
  code unit), and fewer than 8 decoded bytes are all taken as salt, with no cipher
  bytes. So \<open>0x1234\<close> gives the salt 12 34 and \<open>0xzz\<close> gives no bytes, both with
  no cipher bytes.
\<close>

theorem decode_never_fails:
  "(\<exists>salt encrypted. decode hexString = Inr (salt, encrypted) \<and> length salt \<le> 8 \<and>
      (encrypted \<noteq> [] \<longrightarrow> length salt = 8)) \<and>
   decode (js ''0x'' @ toString_hex b) = Inr (take 8 b, drop 8 b) \<and>
   decode (toString_hex b) = Inr (take 8 b, drop 8 b) \<and>
   (\<not> startsWith hexString (js ''0x'') \<longrightarrow> decode hexString = decode (js ''0x'' @ hexString)) \<and>
   (even (length h) \<longrightarrow> decode (js ''0x'' @ h @ [c]) = decode (js ''0x'' @ h)) \<and>
   (even (length h) \<and> (unhex c = None \<or> unhex d = None) \<longrightarrow>
      decode (js ''0x'' @ h @ c # d # r) = decode (js ''0x'' @ h)) \<and>
   (length b < 8 \<longrightarrow> decode (js ''0x'' @ toString_hex b) = Inr (b, [])) \<and>
   decode (js ''0x1234'') = Inr ([0x12, 0x34], []) \<and>
   decode (js ''0xzz'') = Inr ([], []) \<and>
   decode (js ''0xAB'') = Inr ([0xAB], []) \<and>
   decode (js ''0xab'' @ [0x134, 0x131] @ js ''cd'') = Inr ([0xAB, 0x41, 0xCD], [])"
proof (intro conjI impI)
  show "\<exists>salt encrypted. decode hexString = Inr (salt, encrypted) \<and> length salt \<le> 8 \<and>
      (encrypted \<noteq> [] \<longrightarrow> length salt = 8)"
    by (rule decode_Inr)
  show "decode (js ''0x'' @ toString_hex b) = Inr (take 8 b, drop 8 b)"
    by (rule decode_hex_of)
  show "decode (toString_hex b) = Inr (take 8 b, drop 8 b)"
    by (rule decode_toString_hex)
  show "decode (js ''0x1234'') = Inr ([0x12, 0x34], [])"
    by (rule decode_examples)
  show "decode (js ''0xzz'') = Inr ([], [])"
    by (rule decode_examples)
  show "decode (js ''0xAB'') = Inr ([0xAB], [])"
    by (rule decode_low_byte)
  show "decode (js ''0xab'' @ [0x134, 0x131] @ js ''cd'') = Inr ([0xAB, 0x41, 0xCD], [])"
    by (rule decode_low_byte)
next
  assume "\<not> startsWith hexString (js ''0x'')"
  then show "decode hexString = decode (js ''0x'' @ hexString)"
    by (rule decode_no_prefix)
next
  assume "even (length h)"
  then show "decode (js ''0x'' @ h @ [c]) = decode (js ''0x'' @ h)"
    by (simp add: decode_0x Buffer_from_hex_odd)
next
  assume "even (length h) \<and> (unhex c = None \<or> unhex d = None)"
  then show "decode (js ''0x'' @ h @ c # d # r) = decode (js ''0x'' @ h)"
    by (simp add: decode_0x Buffer_from_hex_bad_pair)
next
  assume "length b < 8"
  then show "decode (js ''0x'' @ toString_hex b) = Inr (b, [])"
    by (simp add: decode_hex_of)
qed

theorem decode_never_fails_witness:
  "\<not> startsWith (js ''abcd'') (js ''0x'') \<and> decode (js ''abcd'') = Inr ([0xAB, 0xCD], []) \<and>
   even (length (js ''ab'')) \<and> decode (js ''0xabc'') = decode (js ''0xab'') \<and>
   unhex 0x67 = None \<and> decode (js ''0xab1gcd'') = decode (js ''0xab'') \<and>
   length [0xAB, 0xCD :: 8 word] < 8 \<and> decode (js ''0xabcd'') = Inr ([0xAB, 0xCD], [])"
proof -
  have p: "\<not> startsWith (js ''abcd'') (js ''0x'')" by (simp add: startsWith_def js_def)
  have e: "even (length (js ''ab''))" by (simp add: js_def)
  have u: "unhex 0x67 = None" by (simp add: unhex_def)
  have l: "length [0xAB, 0xCD :: 8 word] < 8" by simp
  have s1: "js ''0x'' @ js ''ab'' @ [0x63] = js ''0xabc''" by (simp add: js_def)
  have s2: "js ''0x'' @ js ''ab'' @ 0x31 # 0x67 # js ''cd'' = js ''0xab1gcd''" by (simp add: js_def)
  have s3: "js ''0x'' @ js ''ab'' = js ''0xab''" by (simp add: js_def)
  have s4: "js ''0x'' @ toString_hex [0xAB, 0xCD] = js ''0xabcd''"
    by (simp add: js_def toString_hex_def hex_of_byte_def hex_digit_def)
  have s5: "js ''0x'' @ js ''abcd'' = js ''0xabcd''" by (simp add: js_def)
  note t = decode_never_fails [of "js ''abcd''" "[0xAB, 0xCD]" "js ''ab''" "0x63" "0x67" "js ''cd''"]
  note t' = decode_never_fails [of "js ''abcd''" "[0xAB, 0xCD]" "js ''ab''" "0x31" "0x67" "js ''cd''"]
  from t l have a: "decode (js ''0xabcd'') = Inr ([0xAB, 0xCD], [])" unfolding s4 by simp
  from t p a have b: "decode (js ''abcd'') = Inr ([0xAB, 0xCD], [])" unfolding s5 by simp
  from t e have c: "decode (js ''0xabc'') = decode (js ''0xab'')" unfolding s1 s3 by blast
  from t' e u have d: "decode (js ''0xab1gcd'') = decode (js ''0xab'')" unfolding s2 s3 by blast
  from p a b c d e u l show ?thesis by blast
qed

text \<open>The two inputs that the claim has rejected are decoded.\<close>

theorem decode_rejects_nothing:
  "decode (js ''0x1234'') = Inr ([0x12, 0x34], []) \<and> decode (js ''0x1234'') \<noteq> Inl DecodeError \<and>
   decode (js ''0xzz'') = Inr ([], []) \<and> decode (js ''0xzz'') \<noteq> Inl DecodeError"
  by (simp add: decode_examples)

section \<open>Bytes that are not valid UTF-8\<close>

lemma fromChainTag_ENC1: "fromChainTag (js ''0xENC1'' @ h) = js ''0x'' @ h"
  by (simp add: fromChainTag_def startsWith_def slice_def js_0xENC1)

lemma decrypt_bytes_0x:
  "decrypt_bytes this (js ''0x'' @ h) =
     Inr (decrypt_loop (key this) (take 8 (Buffer_from_hex h)) (drop 8 (Buffer_from_hex h)) 0
            (replicate (length (Buffer_from_hex h) - 8) 0))"
  by (simp add: decrypt_bytes_def decode_0x Let_def)

lemma decrypt_bytes_one:
  "decrypt_bytes this (js ''0x'' @ toString_hex (salt @ [e])) =
     Inr [decrypt_byte (key this) (take 8 (salt @ [e])) (drop 8 (salt @ [e])) 0]"
  if "length salt = 8"
  using that decrypt_loop_from_0 [of "key this" salt "[e]"]
  by (simp add: decrypt_bytes_0x Buffer_from_hex_toString_hex)

lemma recovered_ff:
  "decrypt_bytes (HexCrypto_constructor (SecretString (js ''test'')))
     (js ''0x0000000000000000c0'') = Inr [0xFF]"
proof -
  have h: "js ''0x0000000000000000c0'' = js ''0x'' @ toString_hex ([0, 0, 0, 0, 0, 0, 0, 0] @ [0xC0])"
    by (simp add: js_def toString_hex_def hex_of_byte_def hex_digit_def)
  show ?thesis
    unfolding h
    by (subst decrypt_bytes_one) (simp_all add: decrypt_byte_rotr byte_at_def key_test rotr8)
qed

lemma recovered_80:
  "decrypt_bytes (HexCrypto_constructor (SecretString (js ''test'')))
     (js ''0x01020304050607083c'') = Inr [0x80]"
proof -
  have h: "js ''0x01020304050607083c'' = js ''0x'' @ toString_hex ([1, 2, 3, 4, 5, 6, 7, 8] @ [0x3C])"
    by (simp add: js_def toString_hex_def hex_of_byte_def hex_digit_def)
  show ?thesis
    unfolding h
    by (subst decrypt_bytes_one) (simp_all add: decrypt_byte_rotr byte_at_def key_test rotr8)
qed

lemma invalid_ff: "\<not> valid_utf8 [0xFF]" "Buffer_toString_utf8 [0xFF] = [0xFFFD]"
  by (simp_all add: valid_utf8_def Buffer_toString_utf8_def utf16_of_code_point_def
      utf8_of_code_point_def is_surrogate_def is_high_surrogate_def is_low_surrogate_def)

lemma invalid_80: "\<not> valid_utf8 [0x80]" "Buffer_toString_utf8 [0x80] = [0xFFFD]"
  by (simp_all add: valid_utf8_def Buffer_toString_utf8_def utf16_of_code_point_def
      utf8_of_code_point_def is_surrogate_def is_high_surrogate_def is_low_surrogate_def)

text \<open>
  Claim C4, as amended. After unwrapping the chain tag, decoding the hex and reversing
  the transform, \<open>decryptFromChain\<close> converts the recovered bytes to a string and
  returns it in every case. Recovered bytes that are not valid UTF-8 are not rejected:
  the returned string has U+FFFD in it. Recovered bytes that encode a well-formed string
  give that string.
\<close>

theorem decryptFromChain_replaces:
  "\<exists>b. decrypt_bytes this (fromChainTag c) = Inr b \<and>
       decryptFromChain this c = Inr (Buffer_toString_utf8 b) \<and>
       (\<not> valid_utf8 b \<longrightarrow> 0xFFFD \<in> set (Buffer_toString_utf8 b)) \<and>
       (\<forall>s. well_formed s \<and> b = Buffer_from_utf8 s \<longrightarrow> Buffer_toString_utf8 b = s)"
proof -
  obtain b where b: "decrypt_bytes this (fromChainTag c) = Inr b"
    using decrypt_bytes_Inr by blast
  then have "decryptFromChain this c = Inr (Buffer_toString_utf8 b)"
    by (simp add: decryptFromChain_def decrypt_of_bytes)
  with b show ?thesis
    by (auto simp: invalid_utf8_replaced utf8_round_trip)
qed

theorem decryptFromChain_replaces_witness:
  "decrypt_bytes (HexCrypto_constructor (SecretString (js ''test'')))
     (fromChainTag (js ''0xENC101020304050607083c'')) = Inr [0x80] \<and>
   \<not> valid_utf8 [0x80] \<and>
   decryptFromChain (HexCrypto_constructor (SecretString (js ''test'')))
     (js ''0xENC101020304050607083c'') = Inr [0xFFFD] \<and>
   0xFFFD \<in> set (Buffer_toString_utf8 [0x80])"
proof -
  let ?k = "HexCrypto_constructor (SecretString (js ''test''))"
  have t: "fromChainTag (js ''0xENC101020304050607083c'') = js ''0x01020304050607083c''"
    by (simp add: fromChainTag_def startsWith_def slice_def js_def)
  from decryptFromChain_replaces [of ?k "js ''0xENC101020304050607083c''"]
  obtain b where b: "decrypt_bytes ?k (fromChainTag (js ''0xENC101020304050607083c'')) = Inr b"
    "decryptFromChain ?k (js ''0xENC101020304050607083c'') = Inr (Buffer_toString_utf8 b)"
    "\<not> valid_utf8 b \<longrightarrow> 0xFFFD \<in> set (Buffer_toString_utf8 b)"
    by blast
  from b(1) have "b = [0x80]" unfolding t recovered_80 by simp
  with b invalid_80 show ?thesis
    unfolding t recovered_80 by simp
qed

text \<open>
  Under the key of the secret \<open>test\<close>, the chain data below recovers the single byte
  FF, which is not valid UTF-8, and the result is the string U+FFFD, not an error.
\<close>

theorem decryptFromChain_invalid_utf8:
  "decrypt_bytes (HexCrypto_constructor (SecretString (js ''test'')))
     (fromChainTag (js ''0xENC10000000000000000c0'')) = Inr [0xFF] \<and>
   \<not> valid_utf8 [0xFF] \<and>
   decryptFromChain (HexCrypto_constructor (SecretString (js ''test'')))
     (js ''0xENC10000000000000000c0'') = Inr [0xFFFD] \<and>
   decryptFromChain (HexCrypto_constructor (SecretString (js ''test'')))
     (js ''0xENC10000000000000000c0'') \<noteq> Inl DecodeError"
proof -
  have t: "fromChainTag (js ''0xENC10000000000000000c0'') = js ''0x0000000000000000c0''"
    by (simp add: fromChainTag_def startsWith_def slice_def js_def)
  show ?thesis
    unfolding decryptFromChain_def t decrypt_of_bytes [OF recovered_ff] recovered_ff
    by (simp add: invalid_ff)
qed

section \<open>decrypt returns on every input\<close>

lemma decrypt_short:
  "length (Buffer_from_hex h) \<le> 8 \<Longrightarrow> decrypt this (js ''0x'' @ h) = Inr []"
  by (simp add: decrypt_0x decrypt_loop_empty Buffer_toString_utf8_def)

lemma decrypt_empty: "decrypt this [] = Inr []" "decryptFromChain this [] = Inr []"
  by (simp_all add: decryptFromChain_def fromChainTag_def startsWith_def js_0xENC1 js_0x
      decrypt_def decrypt_bytes_def decode_def Let_def decrypt_loop_empty Buffer_toString_utf8_def)

lemma decryptFromChain_tagged:
  "decryptFromChain this (js ''0xENC1'' @ h) = decrypt this (js ''0x'' @ h)"
  by (simp add: decryptFromChain_def fromChainTag_ENC1)

lemma decryptFromChain_untagged:
  "\<not> startsWith x (js ''0xENC1'') \<Longrightarrow> decryptFromChain this x = decrypt this x"
  by (simp add: decryptFromChain_def fromChainTag_def)

lemma decrypt_no_prefix:
  "\<not> startsWith x (js ''0x'') \<Longrightarrow> decrypt this x = decrypt this (js ''0x'' @ x)"
  by (simp add: decrypt_def decrypt_bytes_def decode_no_prefix)

lemma decrypt_bytes_formula:
  assumes "length salt = 8" "length (key this) = 32"
  shows "decrypt_bytes this (js ''0x'' @ toString_hex (salt @ e)) =
           Inr (map (\<lambda>i. (word_rotr (i mod 7 + 1) (e ! i) XOR salt ! (i mod 8))
                         XOR key this ! (i mod 32)) [0 ..< length e])"
proof -
  have "decrypt_bytes this (js ''0x'' @ toString_hex (salt @ e)) =
          Inr (map (decrypt_byte (key this) salt e) [0 ..< length e])"
    using assms(1) decrypt_loop_from_0 [of "key this" salt e]
    by (simp add: decrypt_bytes_0x Buffer_from_hex_toString_hex)
  moreover have "map (decrypt_byte (key this) salt e) [0 ..< length e] =
      map (\<lambda>i. (word_rotr (i mod 7 + 1) (e ! i) XOR salt ! (i mod 8))
                         XOR key this ! (i mod 32)) [0 ..< length e]"
    using assms by (intro map_cong) (simp_all add: decrypt_byte_rotr byte_at_def)
  ultimately show ?thesis by simp
qed

lemma decrypt_low_byte:
  "decryptFromChain (HexCrypto_constructor (SecretString (js ''test'')))
     (js ''0xENC10000000000000000'' @ [0x163, 0x130]) = Inr [0xFFFD]"
proof -
  let ?k = "HexCrypto_constructor (SecretString (js ''test''))"
  have t: "js ''0xENC10000000000000000'' @ [0x163, 0x130]
             = js ''0xENC1'' @ (js ''0000000000000000'' @ [0x163, 0x130])"
    by (simp add: js_def)
  have u: "js ''0x0000000000000000c0'' = js ''0x'' @ js ''0000000000000000c0''"
    by (simp add: js_def)
  have b: "Buffer_from_hex (js ''0000000000000000'' @ [0x163, 0x130])
             = Buffer_from_hex (js ''0000000000000000c0'')"
    by (simp add: js_def unhex_def)
  have "decrypt ?k (js ''0x'' @ (js ''0000000000000000'' @ [0x163, 0x130]))
          = decrypt ?k (js ''0x0000000000000000c0'')"
    unfolding u decrypt_0x b ..
  also have "\<dots> = Inr [0xFFFD]"
    using decrypt_of_bytes [OF recovered_ff] by (simp add: invalid_ff)
  finally show ?thesis unfolding t decryptFromChain_tagged .
qed

text \<open>
  Claim C10. \<open>decrypt\<close> and \<open>decryptFromChain\<close> return a string for every input
  string. \<open>decryptFromChain\<close> is \<open>decrypt\<close> of the input with the tag 0xENC1
  replaced by 0x, or of the input itself when it has no tag, and \<open>decrypt\<close> reads
  an input without the prefix 0x as the same input with it. On the hex digits of an
  8-byte salt and cipher bytes, the result is the string read from the bytes that the
  inverse transform gives. The empty string and every input with at most 8 decoded bytes
  give the empty string; a single trailing character of odd-length hex is dropped and hex
  is cut in front of the first pair with a character that is no digit (characters being
  read by their low 8 bits), without an error; recovered bytes that are not valid UTF-8
  come back as a string that has U+FFFD in it.
\<close>

theorem decrypt_total:
  "(\<exists>s. decrypt this hexString = Inr s) \<and>
   (\<exists>s. decryptFromChain this hexString = Inr s) \<and>
   decryptFromChain this (js ''0xENC1'' @ h) = decrypt this (js ''0x'' @ h) \<and>
   (\<not> startsWith hexString (js ''0xENC1'') \<longrightarrow>
      decryptFromChain this hexString = decrypt this hexString) \<and>
   (\<not> startsWith hexString (js ''0x'') \<longrightarrow>
      decrypt this hexString = decrypt this (js ''0x'' @ hexString)) \<and>
   (length salt = 8 \<and> length (key this) = 32 \<longrightarrow>
      decrypt this (js ''0x'' @ toString_hex (salt @ e)) =
        Inr (Buffer_toString_utf8
              (map (\<lambda>i. (word_rotr (i mod 7 + 1) (e ! i) XOR salt ! (i mod 8))
                            XOR key this ! (i mod 32)) [0 ..< length e]))) \<and>
   decrypt this [] = Inr [] \<and>
   decryptFromChain this [] = Inr [] \<and>
   (length (Buffer_from_hex h) \<le> 8 \<longrightarrow> decrypt this (js ''0x'' @ h) = Inr []) \<and>
   (even (length h) \<longrightarrow> decrypt this (js ''0x'' @ h @ [c]) = decrypt this (js ''0x'' @ h)) \<and>
   (even (length h) \<and> (unhex c = None \<or> unhex d = None) \<longrightarrow>
      decrypt this (js ''0x'' @ h @ c # d # r) = decrypt this (js ''0x'' @ h)) \<and>
   (\<forall>b. decrypt_bytes this hexString = Inr b \<longrightarrow>
      decrypt this hexString = Inr (Buffer_toString_utf8 b) \<and>
      (\<not> valid_utf8 b \<longrightarrow> 0xFFFD \<in> set (Buffer_toString_utf8 b))) \<and>
   decryptFromChain (HexCrypto_constructor (SecretString (js ''test'')))
     (js ''0xENC10000000000000000'' @ [0x163, 0x130]) = Inr [0xFFFD]"
proof (intro conjI impI allI)
  show "\<exists>s. decrypt this hexString = Inr s"
    using decrypt_bytes_Inr [of this hexString] decrypt_of_bytes by blast
  show "\<exists>s. decryptFromChain this hexString = Inr s"
    using decrypt_bytes_Inr [of this "fromChainTag hexString"] decrypt_of_bytes
    unfolding decryptFromChain_def by blast
  show "decryptFromChain this (js ''0xENC1'' @ h) = decrypt this (js ''0x'' @ h)"
    by (rule decryptFromChain_tagged)
  show "decrypt this [] = Inr []"
    by (rule decrypt_empty)
  show "decryptFromChain this [] = Inr []"
    by (rule decrypt_empty)
  show "decryptFromChain (HexCrypto_constructor (SecretString (js ''test'')))
     (js ''0xENC10000000000000000'' @ [0x163, 0x130]) = Inr [0xFFFD]"
    by (rule decrypt_low_byte)
next
  assume "\<not> startsWith hexString (js ''0xENC1'')"
  then show "decryptFromChain this hexString = decrypt this hexString"
    by (rule decryptFromChain_untagged)
next
  assume "\<not> startsWith hexString (js ''0x'')"
  then show "decrypt this hexString = decrypt this (js ''0x'' @ hexString)"
    by (rule decrypt_no_prefix)
next
  assume "length salt = 8 \<and> length (key this) = 32"
  then show "decrypt this (js ''0x'' @ toString_hex (salt @ e)) =
        Inr (Buffer_toString_utf8
              (map (\<lambda>i. (word_rotr (i mod 7 + 1) (e ! i) XOR salt ! (i mod 8))
                            XOR key this ! (i mod 32)) [0 ..< length e]))"
    using decrypt_of_bytes [OF decrypt_bytes_formula, of salt this e] by blast
next
  assume "length (Buffer_from_hex h) \<le> 8"
  then show "decrypt this (js ''0x'' @ h) = Inr []"
    by (rule decrypt_short)
next
  assume "even (length h)"
  then show "decrypt this (js ''0x'' @ h @ [c]) = decrypt this (js ''0x'' @ h)"
    by (simp add: decrypt_0x Buffer_from_hex_odd)
next
  assume "even (length h) \<and> (unhex c = None \<or> unhex d = None)"
  then show "decrypt this (js ''0x'' @ h @ c # d # r) = decrypt this (js ''0x'' @ h)"
    by (simp add: decrypt_0x Buffer_from_hex_bad_pair)
next
  fix b
  assume "decrypt_bytes this hexString = Inr b"
  then show "decrypt this hexString = Inr (Buffer_toString_utf8 b)"
    by (rule decrypt_of_bytes)
next
  fix b
  assume "\<not> valid_utf8 b"
  then show "0xFFFD \<in> set (Buffer_toString_utf8 b)"
    by (rule invalid_utf8_replaced)
qed

theorem decrypt_total_witness:
  "length (Buffer_from_hex (js ''1234'')) \<le> 8 \<and>
   decrypt (HexCrypto_constructor (SecretString (js ''test''))) (js ''0x1234'') = Inr [] \<and>
   even (length (js ''1234'')) \<and> unhex 0x7A = None \<and>
   decrypt (HexCrypto_constructor (SecretString (js ''test''))) (js ''0x12345'') = Inr [] \<and>
   decrypt (HexCrypto_constructor (SecretString (js ''test''))) (js ''0x1234zz'') = Inr [] \<and>
   decrypt_bytes (HexCrypto_constructor (SecretString (js ''test'')))
     (js ''0x0000000000000000c0'') = Inr [0xFF] \<and>
   \<not> valid_utf8 [0xFF] \<and>
   decrypt (HexCrypto_constructor (SecretString (js ''test''))) (js ''0x0000000000000000c0'')
     = Inr [0xFFFD] \<and>
   \<not> startsWith (js ''0x0000000000000000c0'') (js ''0xENC1'') \<and>
   decryptFromChain (HexCrypto_constructor (SecretString (js ''test'')))
     (js ''0x0000000000000000c0'') = Inr [0xFFFD] \<and>
   \<not> startsWith (js ''0000000000000000c0'') (js ''0x'') \<and>
   decrypt (HexCrypto_constructor (SecretString (js ''test''))) (js ''0000000000000000c0'')
     = Inr [0xFFFD] \<and>
   length [1, 2, 3, 4, 5, 6, 7, 8 :: 8 word] = 8 \<and>
   length (key (HexCrypto_constructor (SecretString (js ''test'')))) = 32 \<and>
   decrypt (HexCrypto_constructor (SecretString (js ''test''))) (js ''0x01020304050607083c'')
     = Inr (Buffer_toString_utf8 [(word_rotr 1 0x3C XOR 1) XOR 0x9F])"
proof -
  let ?k = "HexCrypto_constructor (SecretString (js ''test''))"
  have l: "length (Buffer_from_hex (js ''1234'')) \<le> 8" by (simp add: js_def unhex_def)
  have e: "even (length (js ''1234''))" by (simp add: js_def)
  have u: "unhex 0x7A = None" by (simp add: unhex_def)
  have n1: "\<not> startsWith (js ''0x0000000000000000c0'') (js ''0xENC1'')"
    by (simp add: startsWith_def js_def)
  have n2: "\<not> startsWith (js ''0000000000000000c0'') (js ''0x'')"
    by (simp add: startsWith_def js_def)
  have ls: "length [1, 2, 3, 4, 5, 6, 7, 8 :: 8 word] = 8" by simp
  have lk: "length (key ?k) = 32" by (simp add: key_test)
  have s0: "js ''0x'' @ js ''1234'' = js ''0x1234''" by (simp add: js_def)
  have s1: "js ''0x'' @ js ''1234'' @ [0x35] = js ''0x12345''" by (simp add: js_def)
  have s2: "js ''0x'' @ js ''1234'' @ 0x7A # 0x7A # [] = js ''0x1234zz''" by (simp add: js_def)
  have s3: "js ''0x'' @ js ''0000000000000000c0'' = js ''0x0000000000000000c0''"
    by (simp add: js_def)
  have s4: "js ''0x'' @ toString_hex ([1, 2, 3, 4, 5, 6, 7, 8] @ [0x3C]) = js ''0x01020304050607083c''"
    by (simp add: js_def toString_hex_def hex_of_byte_def hex_digit_def)
  note t = decrypt_total [where this = ?k and hexString = "js ''0x0000000000000000c0''"
      and h = "js ''1234''" and c = "0x35" and d = "0x7A" and r = "[]"
      and salt = "[1, 2, 3, 4, 5, 6, 7, 8]" and e = "[0x3C]"]
  note t' = decrypt_total [where this = ?k and hexString = "js ''0000000000000000c0''"
      and h = "js ''1234''" and c = "0x7A" and d = "0x7A" and r = "[]"
      and salt = "[1, 2, 3, 4, 5, 6, 7, 8]" and e = "[0x3C]"]
  from t l have a: "decrypt ?k (js ''0x1234'') = Inr []" unfolding s0 by blast
  from t e a have b: "decrypt ?k (js ''0x12345'') = Inr []" unfolding s0 s1 by simp
  from t' e u a have c: "decrypt ?k (js ''0x1234zz'') = Inr []" unfolding s0 s2 by simp
  from t recovered_ff
  have "decrypt ?k (js ''0x0000000000000000c0'') = Inr (Buffer_toString_utf8 [0xFF])"
    by blast
  then have d: "decrypt ?k (js ''0x0000000000000000c0'') = Inr [0xFFFD]"
    by (simp add: invalid_ff)
  from t n1 d have f: "decryptFromChain ?k (js ''0x0000000000000000c0'') = Inr [0xFFFD]"
    by simp
  from t' n2 d have g: "decrypt ?k (js ''0000000000000000c0'') = Inr [0xFFFD]"
    unfolding s3 by simp
  from t ls lk
  have "decrypt ?k (js ''0x'' @ toString_hex ([1, 2, 3, 4, 5, 6, 7, 8] @ [0x3C])) =
      Inr (Buffer_toString_utf8
            (map (\<lambda>i. (word_rotr (i mod 7 + 1) ([0x3C] ! i) XOR [1, 2, 3, 4, 5, 6, 7, 8] ! (i mod 8))
                          XOR key ?k ! (i mod 32)) [0 ..< length [0x3C :: 8 word]]))"
    by blast
  then have i: "decrypt ?k (js ''0x01020304050607083c'')
      = Inr (Buffer_toString_utf8 [(word_rotr 1 0x3C XOR 1) XOR 0x9F])"
    unfolding s4 key_test by simp
  from l a e u b c d recovered_ff invalid_ff n1 f n2 g ls lk i show ?thesis by simp
qed

end
